theory Spec2Isabelle
  imports Complex_Main "HOL-Library.Word"
begin

unbundle bit_operations_syntax

section \<open>Shared data model\<close>

text \<open>
  Errors are values. Every \<open>throw\<close> of the sources is one constructor: the four
  \<open>invalidOperation\<close> calls of \<open>decodeSnapshot\<close> (its message is the constructor),
  \<open>unexpected()\<close>, \<open>notImplemented()\<close>, a failed \<open>assert\<close>/\<open>hardAssert\<close>, a read of
  the buffer outside its bounds, \<open>compileError\<close>, \<open>featureNotSupported\<close>,
  \<open>internalCompileError\<close>, and the \<open>TypeError\<close> JavaScript raises when a property of
  \<open>undefined\<close> is read.
\<close>

datatype error =
    BytecodeSizeMismatch
  | HeaderSizeUnexpected
  | CRCMismatch
  | BytecodeVersionNotSupported nat
  | EngineVersionNotSupported nat nat
  | Unexpected
  | NotImplemented
  | AssertionFailed
  | ReadBeyondBounds
  | CompileError string
  | FeatureNotSupported string
  | InternalCompileError string
  | TypeError

definition bindE :: "error + 'a \<Rightarrow> ('a \<Rightarrow> error + 'b) \<Rightarrow> error + 'b" where
  "bindE m f = (case m of Inl e \<Rightarrow> Inl e | Inr x \<Rightarrow> f x)"

lemma bindE_Inl [simp]: "bindE (Inl e) f = Inl e"
  by (simp add: bindE_def)

lemma bindE_Inr [simp]: "bindE (Inr x) f = f x"
  by (simp add: bindE_def)

lemma bindE_cong [fundef_cong]:
  "m = m' \<Longrightarrow> (\<And>x. m' = Inr x \<Longrightarrow> f x = f' x) \<Longrightarrow> bindE m f = bindE m' f'"
  by (cases m') (simp_all add: bindE_def)

lemma bindE_eq_Inr:
  "bindE m f = Inr y \<longleftrightarrow> (\<exists>x. m = Inr x \<and> f x = Inr y)"
  by (cases m) simp_all

text \<open>
  JavaScript numbers that occur in IL values: a rational (every value the code builds
  here is an integer or a literal of the source text), \<open>NaN\<close> and the negative zero.
\<close>

datatype js_number = Num rat | NaN | NegZero

text \<open>\<open>IL.Value\<close> (il.ts), the variants the sources under study build.\<close>

datatype il_value =
    UndefinedValue
  | NullValue
  | BooleanValue bool
  | NumberValue js_number
  | StringValue string
  | ReferenceValue nat
  | FunctionValue string

text \<open>Decimal and hexadecimal rendering of template strings (\<open>`${i}`\<close>, \<open>toString(16)\<close>).\<close>

fun string_of_nat :: "nat \<Rightarrow> string" where
  "string_of_nat n =
     (if n < 10 then [char_of (48 + n)]
      else string_of_nat (n div 10) @ [char_of (48 + n mod 10)])"

declare string_of_nat.simps [simp del]

definition hex_digit :: "nat \<Rightarrow> char" where
  "hex_digit d = (if d < 10 then char_of (48 + d) else char_of (87 + d))"

fun hex_of_nat :: "nat \<Rightarrow> string" where
  "hex_of_nat n =
     (if n < 16 then [hex_digit n]
      else hex_of_nat (n div 16) @ [hex_digit (n mod 16)])"

declare hex_of_nat.simps [simp del]

definition padStart :: "nat \<Rightarrow> char \<Rightarrow> string \<Rightarrow> string" where
  "padStart n c s = replicate (n - length s) c @ s"

section \<open>Snapshot decoder (decode-snapshot.ts)\<close>

subsection \<open>The buffer\<close>

type_synonym byte = "8 word"
type_synonym UInt16 = "16 word"

text \<open>
  \<open>SmartBuffer\<close>: the bytes and the read offset. A read past the end raises; a read
  without an offset advances \<open>readOffset\<close>, a read at an explicit offset does not.
  Offsets are JavaScript numbers and can be computed negative, hence \<open>int\<close>.
\<close>

definition u16le :: "byte \<Rightarrow> byte \<Rightarrow> UInt16" where
  "u16le b0 b1 = ucast b0 OR push_bit 8 (ucast b1)"

definition u32le :: "byte \<Rightarrow> byte \<Rightarrow> byte \<Rightarrow> byte \<Rightarrow> 32 word" where
  "u32le b0 b1 b2 b3 =
     ucast b0 OR push_bit 8 (ucast b1) OR push_bit 16 (ucast b2) OR push_bit 24 (ucast b3)"

definition readUInt8At :: "byte list \<Rightarrow> int \<Rightarrow> error + byte" where
  "readUInt8At d off =
     (if off < 0 \<or> off + 1 > int (length d) then Inl ReadBeyondBounds
      else Inr (d ! nat off))"

definition readUInt16LEAt :: "byte list \<Rightarrow> int \<Rightarrow> error + UInt16" where
  "readUInt16LEAt d off =
     (if off < 0 \<or> off + 2 > int (length d) then Inl ReadBeyondBounds
      else Inr (u16le (d ! nat off) (d ! (nat off + 1))))"

definition readUInt32LEAt :: "byte list \<Rightarrow> int \<Rightarrow> error + 32 word" where
  "readUInt32LEAt d off =
     (if off < 0 \<or> off + 4 > int (length d) then Inl ReadBeyondBounds
      else Inr (u32le (d ! nat off) (d ! (nat off + 1)) (d ! (nat off + 2)) (d ! (nat off + 3))))"

subsection \<open>CRC\<close>

text \<open>
  Modelled from the spec: \<open>crc16ccitt\<close> of the npm package \<open>crc\<close>, which is not among
  the sources. The spec fixes it as CRC-16-CCITT with polynomial \<open>0x1021\<close> and initial
  value \<open>0xFFFF\<close>: bytes enter at the high end, most significant bit first.
\<close>

definition crc_shift :: "UInt16 \<Rightarrow> UInt16" where
  "crc_shift c = (if bit c 15 then push_bit 1 c XOR 0x1021 else push_bit 1 c)"

definition crc_byte :: "UInt16 \<Rightarrow> byte \<Rightarrow> UInt16" where
  "crc_byte c b = (crc_shift ^^ 8) (c XOR push_bit 8 (ucast b))"

definition crc16ccitt :: "byte list \<Rightarrow> UInt16" where
  "crc16ccitt bs = foldl crc_byte 0xFFFF bs"

subsection \<open>Constants of modules that are not among the sources\<close>

text \<open>
  Modelled from the spec: \<open>vm_TeValueTag\<close> (runtime-types.ts). The top two bits of a
  16-bit value select its section: integer, GC heap, initial data, program memory.
\<close>

definition VM_TAG_INT :: UInt16 where "VM_TAG_INT = 0x0000"
definition VM_TAG_GC_P :: UInt16 where "VM_TAG_GC_P = 0x4000"
definition VM_TAG_DATA_P :: UInt16 where "VM_TAG_DATA_P = 0x8000"
definition VM_TAG_PGM_P :: UInt16 where "VM_TAG_PGM_P = 0xC000"

text \<open>
  The remaining constants the decoder imports (\<open>BYTECODE_VERSION\<close>, \<open>HEADER_SIZE\<close>,
  \<open>ENGINE_VERSION\<close> of snapshot-info.ts; \<open>vm_TeWellKnownValues\<close> and
  \<open>TeTypeCode.TC_REF_ARRAY\<close> of runtime-types.ts) have no value in the sources or the
  spec. They are parameters of the model.
\<close>

record decoder_constants =
  BYTECODE_VERSION :: nat
  HEADER_SIZE :: nat
  ENGINE_VERSION :: nat
  VM_VALUE_UNDEFINED :: UInt16
  VM_VALUE_NULL :: UInt16
  VM_VALUE_TRUE :: UInt16
  VM_VALUE_FALSE :: UInt16
  VM_VALUE_NAN :: UInt16
  VM_VALUE_NEG_ZERO :: UInt16
  VM_VALUE_DELETED :: UInt16
  VM_VALUE_WELLKNOWN_END :: UInt16
  TC_REF_ARRAY :: UInt16

subsection \<open>The mapping\<close>

text \<open>
  \<open>SnapshotMappingComponent\<close> and the entries of \<open>SnapshotMappingComponents\<close>. The
  offset and the size of an entry are optional because the code writes
  \<open>undefined as any\<close> for regions it sizes later.
\<close>

datatype component_content =
    Region string "component list"
  | Reference il_value string UInt16
  | ValueC string il_value
  | Allocation
  | Attribute string rat
  | Annotation string
  | HeaderField string nat bool
  | DeletedValue
  | UnusedSpace
  | OverlapWarning int int
and component =
    Component (c_offset: "int option") (c_size: "int option") (c_content: component_content)

text \<open>
  The state \<open>decodeSnapshot\<close> closes over. A region under construction is the list
  \<open>region\<close>; \<open>beginRegion\<close> pushes the enclosing list on \<open>regionStack\<close>. The source
  links the new (still empty) array into its parent at once and fills it through the
  alias; the model links the finished list into the parent in \<open>endRegion\<close>, which gives
  the same tree, since nothing is pushed to the parent in between.
  \<open>dataAllocationsMapping\<close> is never written and stays empty.
\<close>

record region_frame =
  f_region :: "component list"
  f_regionName :: "string option"
  f_regionStart :: nat

record decoder =
  data :: "byte list"
  readOffset :: nat
  region :: "component list"
  regionStack :: "region_frame list"
  regionName :: "string option"
  regionStart :: nat
  gcAllocationsMapping :: "component list"
  processedAllocations :: "UInt16 list"
  nextAllocationID :: nat
  allocationIDByAddress :: "(UInt16 \<times> nat) list"

definition beginRegion :: "string \<Rightarrow> decoder \<Rightarrow> decoder" where
  "beginRegion name st =
     st\<lparr>regionStack :=
          \<lparr>f_region = region st, f_regionName = regionName st, f_regionStart = regionStart st\<rparr>
            # regionStack st,
        region := [],
        regionStart := readOffset st,
        regionName := Some name\<rparr>"

definition endRegion :: "string \<Rightarrow> decoder \<Rightarrow> error + decoder" where
  "endRegion name st =
     (if regionName st \<noteq> Some name then Inl AssertionFailed
      else case regionStack st of
        [] \<Rightarrow> Inl AssertionFailed
      | fr # rest \<Rightarrow>
          Inr (st\<lparr>region := f_region fr @
                    [Component (Some (int (regionStart st))) None
                       (Region name (region st))],
                  regionName := f_regionName fr,
                  regionStart := f_regionStart fr,
                  regionStack := rest\<rparr>))"

definition pushComponent :: "component \<Rightarrow> decoder \<Rightarrow> decoder" where
  "pushComponent c st = st\<lparr>region := region st @ [c]\<rparr>"

definition readUInt8 :: "decoder \<Rightarrow> error + (byte \<times> decoder)" where
  "readUInt8 st =
     bindE (readUInt8At (data st) (int (readOffset st)))
       (\<lambda>v. Inr (v, st\<lparr>readOffset := readOffset st + 1\<rparr>))"

definition readUInt16LE :: "decoder \<Rightarrow> error + (UInt16 \<times> decoder)" where
  "readUInt16LE st =
     bindE (readUInt16LEAt (data st) (int (readOffset st)))
       (\<lambda>v. Inr (v, st\<lparr>readOffset := readOffset st + 2\<rparr>))"

definition readUInt32LE :: "decoder \<Rightarrow> error + (32 word \<times> decoder)" where
  "readUInt32LE st =
     bindE (readUInt32LEAt (data st) (int (readOffset st)))
       (\<lambda>v. Inr (v, st\<lparr>readOffset := readOffset st + 4\<rparr>))"

text \<open>The setter of \<open>SmartBuffer.readOffset\<close> refuses a target outside the buffer.\<close>

definition setReadOffset :: "nat \<Rightarrow> decoder \<Rightarrow> error + decoder" where
  "setReadOffset off st =
     (if off > length (data st) then Inl ReadBeyondBounds
      else Inr (st\<lparr>readOffset := off\<rparr>))"

definition readHeaderField8 :: "string \<Rightarrow> decoder \<Rightarrow> error + (nat \<times> decoder)" where
  "readHeaderField8 name st =
     bindE (readUInt8 st) (\<lambda>(v, st1).
       Inr (unat v,
            pushComponent (Component (Some (int (readOffset st))) (Some 1)
              (HeaderField name (unat v) False)) st1))"

definition readHeaderField16 :: "string \<Rightarrow> bool \<Rightarrow> decoder \<Rightarrow> error + (nat \<times> decoder)" where
  "readHeaderField16 name isOffset st =
     bindE (readUInt16LE st) (\<lambda>(v, st1).
       Inr (unat v,
            pushComponent (Component (Some (int (readOffset st))) (Some 2)
              (HeaderField name (unat v) isOffset)) st1))"

definition readHeaderField32 :: "string \<Rightarrow> bool \<Rightarrow> decoder \<Rightarrow> error + (nat \<times> decoder)" where
  "readHeaderField32 name isOffset st =
     bindE (readUInt32LE st) (\<lambda>(v, st1).
       Inr (unat v,
            pushComponent (Component (Some (int (readOffset st))) (Some 4)
              (HeaderField name (unat v) isOffset)) st1))"

definition addressToAllocationID :: "UInt16 \<Rightarrow> decoder \<Rightarrow> nat \<times> decoder" where
  "addressToAllocationID address st =
     (case map_of (allocationIDByAddress st) address of
        Some a \<Rightarrow> (a, st)
      | None \<Rightarrow>
          (nextAllocationID st,
           st\<lparr>nextAllocationID := nextAllocationID st + 1,
              allocationIDByAddress :=
                allocationIDByAddress st @ [(address, nextAllocationID st)]\<rparr>))"

definition stringifyAddress :: "nat \<Rightarrow> string" where
  "stringifyAddress address = padStart 4 (CHR ''0'') (hex_of_nat address)"

text \<open>
  \<open>decodeAllocation\<close>. Only the GC section is decoded; an address of the data or program
  section falls through the \<open>switch\<close>. An array with items stops in \<open>notImplemented()\<close>.
\<close>

definition decodeAllocation :: "decoder_constants \<Rightarrow> nat \<Rightarrow> UInt16 \<Rightarrow> decoder \<Rightarrow> error + decoder" where
  "decodeAllocation K initialHeapOffset address st0 =
     (if address \<in> set (processedAllocations st0) then Inr st0
      else
        let st = st0\<lparr>processedAllocations := processedAllocations st0 @ [address]\<rparr>;
            sectionCode = address AND 0xC000
        in if sectionCode = VM_TAG_INT then Inl Unexpected
           else if sectionCode = VM_TAG_GC_P then
             (let offset = int initialHeapOffset + (uint address - uint VM_TAG_GC_P);
                  startOffset = offset - 2
              in bindE (readUInt16LEAt (data st) startOffset) (\<lambda>headerWord.
                   let allocationSize = headerWord AND 0xFFF;
                       typeCode = drop_bit 12 headerWord
                   in if typeCode = TC_REF_ARRAY K then
                        bindE (readUInt16LEAt (data st) (startOffset - 2)) (\<lambda>len.
                          let capacity = of_nat (unat allocationSize) / 2;
                              (allocationID, st1) = addressToAllocationID address st
                          in if len > 0 then Inl NotImplemented
                             else Inr (st1\<lparr>gcAllocationsMapping := gcAllocationsMapping st1 @
                                 [Component (Some offset) (Some 2)
                                    (Region (''allocation '' @ string_of_nat allocationID @ '' (&''
                                               @ stringifyAddress (unat address) @ ''): Array'')
                                       [Component (Some (startOffset - 2)) (Some 2)
                                          (Attribute ''length'' (of_nat (unat len))),
                                        Component (Some (startOffset - 2 + 2)) (Some 2)
                                          (Attribute ''capacity'' capacity),
                                        Component (Some offset) (Some 0)
                                          (Annotation ''<no array items>'')])]\<rparr>))
                      else Inr (st\<lparr>gcAllocationsMapping := gcAllocationsMapping st @
                                 [Component (Some offset) (Some 2) Allocation]\<rparr>)))
           else Inr st)"

text \<open>
  \<open>decodeValue\<close>. The result is \<open>None\<close> where the source returns \<open>undefined\<close>. The
  \<open>switch\<close> over the well-known values compares in the order of its cases.
\<close>

definition decodeValue ::
  "decoder_constants \<Rightarrow> nat \<Rightarrow> string \<Rightarrow> decoder \<Rightarrow> error + (il_value option \<times> decoder)" where
  "decodeValue K initialHeapOffset label st0 =
     (let address = readOffset st0 in
      bindE (readUInt16LE st0) (\<lambda>(u16, st).
        bindE
          (if u16 AND 0xC000 = 0 then
             Inr (Some (NumberValue (Num (of_int
                    (if u16 > 0x2000 then uint u16 - 0x4000 else uint u16)))), st)
           else if u16 AND 0xC000 = VM_TAG_PGM_P \<and> u16 < VM_VALUE_WELLKNOWN_END K then
             (if u16 = VM_VALUE_UNDEFINED K then Inr (Some UndefinedValue, st)
              else if u16 = VM_VALUE_NULL K then Inr (Some NullValue, st)
              else if u16 = VM_VALUE_TRUE K then Inr (Some (BooleanValue True), st)
              else if u16 = VM_VALUE_FALSE K then Inr (Some (BooleanValue False), st)
              else if u16 = VM_VALUE_NAN K then Inr (Some (NumberValue NaN), st)
              else if u16 = VM_VALUE_NEG_ZERO K then Inr (Some (NumberValue NegZero), st)
              else if u16 = VM_VALUE_DELETED K then Inr (None, st)
              else Inl Unexpected)
           else
             (let (allocationID, st1) = addressToAllocationID u16 st
              in bindE (decodeAllocation K initialHeapOffset u16 st1) (\<lambda>st2.
                   Inr (Some (ReferenceValue allocationID), st2))))
          (\<lambda>(v, st3).
             Inr (v, pushComponent
               (Component (Some (int address)) (Some 2)
                  (case v of
                     Some (ReferenceValue a) \<Rightarrow> Reference (ReferenceValue a) label u16
                   | Some w \<Rightarrow> ValueC label w
                   | None \<Rightarrow> DeletedValue)) st3))))"

text \<open>\<open>SnapshotInfo\<close>, the fields the decoder fills.\<close>

record global_slot =
  gs_value :: "il_value option"
  gs_indexHint :: nat

record snapshot_info =
  globalSlots :: "(string \<times> global_slot) list"
  flags :: "nat list"

record snapshot_mapping =
  bytecodeSize :: nat
  components :: "component list"

text \<open>\<open>decodeFlags\<close>: the indices of the bits set in \<open>requiredFeatureFlags\<close>.\<close>

definition decodeFlags :: "nat \<Rightarrow> nat list" where
  "decodeFlags requiredFeatureFlags =
     filter (\<lambda>i. odd (requiredFeatureFlags div 2 ^ i)) [0..<32]"

text \<open>The loop of \<open>decodeGlobalSlots\<close>, from index \<open>i\<close> for \<open>n\<close> more slots.\<close>

fun decodeGlobalSlotsFrom ::
  "decoder_constants \<Rightarrow> nat \<Rightarrow> nat \<Rightarrow> nat \<Rightarrow> (string \<times> global_slot) list \<Rightarrow> decoder
   \<Rightarrow> error + ((string \<times> global_slot) list \<times> decoder)" where
  "decodeGlobalSlotsFrom K initialHeapOffset i 0 slots st = Inr (slots, st)"
| "decodeGlobalSlotsFrom K initialHeapOffset i (Suc n) slots st =
     bindE (decodeValue K initialHeapOffset (''['' @ string_of_nat i @ '']'') st) (\<lambda>(v, st1).
       decodeGlobalSlotsFrom K initialHeapOffset (i + 1) n
         (slots @ [(''global'' @ string_of_nat i, \<lparr>gs_value = v, gs_indexHint = i\<rparr>)]) st1)"

definition decodeGlobalSlots ::
  "decoder_constants \<Rightarrow> nat \<Rightarrow> nat \<Rightarrow> nat \<Rightarrow> decoder
   \<Rightarrow> error + ((string \<times> global_slot) list \<times> decoder)" where
  "decodeGlobalSlots K initialDataOffset initialHeapOffset globalVariableCount st =
     bindE (setReadOffset initialDataOffset st) (\<lambda>st1.
     bindE (decodeGlobalSlotsFrom K initialHeapOffset 0 globalVariableCount []
              (beginRegion ''Globals'' st1)) (\<lambda>(slots, st2).
     bindE (endRegion ''Globals'' st2) (\<lambda>st3. Inr (slots, st3))))"

text \<open>
  \<open>decodeSnapshot\<close>. The last step of the source, \<open>finalizeRegions\<close>, sorts the recorded
  entries, inserts fillers and fills in sizes; it raises nothing and touches neither
  \<open>snapshotInfo\<close> nor the recorded contents, and the model returns the mapping as it is
  recorded before that step.
\<close>

definition initialDecoder :: "byte list \<Rightarrow> decoder" where
  "initialDecoder d =
     \<lparr>data = d, readOffset = 0, region = [], regionStack = [], regionName = None,
      regionStart = 0, gcAllocationsMapping = [], processedAllocations = [],
      nextAllocationID = 1, allocationIDByAddress = []\<rparr>"

definition decodeRest ::
  "decoder_constants \<Rightarrow> decoder \<Rightarrow> error + (snapshot_info \<times> snapshot_mapping)" where
  "decodeRest K st4 =
     bindE (readHeaderField16 ''requiredEngineVersion'' False st4) (\<lambda>(requiredEngineVersion, st5).
     bindE (readHeaderField32 ''requiredFeatureFlags'' False st5) (\<lambda>(requiredFeatureFlags, st6).
     bindE (readHeaderField16 ''globalVariableCount'' False st6) (\<lambda>(globalVariableCount, st7).
     bindE (readHeaderField16 ''initialDataOffset'' True st7) (\<lambda>(initialDataOffset, st8).
     bindE (readHeaderField16 ''initialDataSize'' False st8) (\<lambda>(initialDataSize, st9).
     bindE (readHeaderField16 ''initialHeapOffset'' True st9) (\<lambda>(initialHeapOffset, st10).
     bindE (readHeaderField16 ''initialHeapSize'' False st10) (\<lambda>(initialHeapSize, st11).
     bindE (readHeaderField16 ''gcRootsOffset'' True st11) (\<lambda>(gcRootsOffset, st12).
     bindE (readHeaderField16 ''gcRootsCount'' False st12) (\<lambda>(gcRootsCount, st13).
     bindE (readHeaderField16 ''importTableOffset'' True st13) (\<lambda>(importTableOffset, st14).
     bindE (readHeaderField16 ''importTableSize'' False st14) (\<lambda>(importTableSize, st15).
     bindE (readHeaderField16 ''exportTableOffset'' True st15) (\<lambda>(exportTableOffset, st16).
     bindE (readHeaderField16 ''exportTableSize'' False st16) (\<lambda>(exportTableSize, st17).
     bindE (readHeaderField16 ''shortCallTableOffset'' True st17) (\<lambda>(shortCallTableOffset, st18).
     bindE (readHeaderField16 ''shortCallTableSize'' False st18) (\<lambda>(shortCallTableSize, st19).
     bindE (readHeaderField16 ''stringTableOffset'' True st19) (\<lambda>(stringTableOffset, st20).
     bindE (readHeaderField16 ''stringTableSize'' False st20) (\<lambda>(stringTableSize, st21).
     bindE (endRegion ''Header'' st21) (\<lambda>st22.
       if requiredEngineVersion \<noteq> ENGINE_VERSION K
       then Inl (EngineVersionNotSupported requiredEngineVersion (ENGINE_VERSION K))
       else
         bindE (decodeGlobalSlots K initialDataOffset initialHeapOffset globalVariableCount st22)
           (\<lambda>(slots, st23).
              let region1 = region st23 @
                    [Component (Some (int (readOffset st23))) None (Region ''Data allocations'' []),
                     Component None None (Region ''GC allocations'' (gcAllocationsMapping st23))]
              in if regionStack st23 \<noteq> [] then Inl AssertionFailed
                 else Inr (\<lparr>globalSlots = slots, flags = decodeFlags requiredFeatureFlags\<rparr>,
                           \<lparr>bytecodeSize = length (data st23), components = region1\<rparr>))))))))))))))))))))"

definition decodeSnapshot ::
  "decoder_constants \<Rightarrow> byte list \<Rightarrow> error + (snapshot_info \<times> snapshot_mapping)" where
  "decodeSnapshot K snapshot =
     bindE (readHeaderField8 ''bytecodeVersion'' (beginRegion ''Header'' (initialDecoder snapshot)))
       (\<lambda>(bytecodeVersion, st1).
     bindE (readHeaderField8 ''headerSize'' st1) (\<lambda>(headerSize, st2).
     bindE (readHeaderField16 ''bytecodeSize'' False st2) (\<lambda>(bytecodeSize, st3).
     bindE (readHeaderField16 ''expectedCRC'' True st3) (\<lambda>(expectedCRC, st4).
       if bytecodeSize \<noteq> length snapshot then Inl BytecodeSizeMismatch
       else if headerSize \<noteq> HEADER_SIZE K then Inl HeaderSizeUnexpected
       else if unat (crc16ccitt (drop 6 snapshot)) \<noteq> expectedCRC then Inl CRCMismatch
       else if bytecodeVersion \<noteq> BYTECODE_VERSION K
         then Inl (BytecodeVersionNotSupported bytecodeVersion)
       else decodeRest K st4))))"

subsection \<open>Names for the header fields and example images\<close>

text \<open>
  The header fields by their offsets (the order of the reads in \<open>decodeSnapshot\<close>, the
  layout table of the spec).
\<close>

definition hdr8 :: "byte list \<Rightarrow> nat \<Rightarrow> nat" where
  "hdr8 d i = unat (d ! i)"

definition hdr16 :: "byte list \<Rightarrow> nat \<Rightarrow> nat" where
  "hdr16 d i = unat (u16le (d ! i) (d ! (i + 1)))"

definition hdr32 :: "byte list \<Rightarrow> nat \<Rightarrow> nat" where
  "hdr32 d i = unat (u32le (d ! i) (d ! (i + 1)) (d ! (i + 2)) (d ! (i + 3)))"

definition hBytecodeVersion :: "byte list \<Rightarrow> nat" where
  "hBytecodeVersion d = hdr8 d 0"

definition hHeaderSize :: "byte list \<Rightarrow> nat" where
  "hHeaderSize d = hdr8 d 1"

definition hBytecodeSize :: "byte list \<Rightarrow> nat" where
  "hBytecodeSize d = hdr16 d 2"

definition hExpectedCRC :: "byte list \<Rightarrow> nat" where
  "hExpectedCRC d = hdr16 d 4"

definition hRequiredEngineVersion :: "byte list \<Rightarrow> nat" where
  "hRequiredEngineVersion d = hdr16 d 6"

definition hRequiredFeatureFlags :: "byte list \<Rightarrow> nat" where
  "hRequiredFeatureFlags d = hdr32 d 8"

definition hGlobalVariableCount :: "byte list \<Rightarrow> nat" where
  "hGlobalVariableCount d = hdr16 d 12"

definition hInitialDataOffset :: "byte list \<Rightarrow> nat" where
  "hInitialDataOffset d = hdr16 d 14"

text \<open>The word of the \<open>j\<close>-th global: the globals start at \<open>initialDataOffset\<close>.\<close>

definition globalWord :: "byte list \<Rightarrow> nat \<Rightarrow> UInt16" where
  "globalWord d j =
     u16le (d ! (hInitialDataOffset d + 2 * j)) (d ! (hInitialDataOffset d + 2 * j + 1))"

text \<open>The decoder's state after the four header fields that precede the checks.\<close>

definition afterPrefix :: "byte list \<Rightarrow> decoder" where
  "afterPrefix d =
     (initialDecoder d)\<lparr>readOffset := 6,
        regionStack := [\<lparr>f_region = [], f_regionName = None, f_regionStart = 0\<rparr>],
        regionName := Some ''Header'',
        region :=
          [Component (Some 0) (Some 1) (HeaderField ''bytecodeVersion'' (hBytecodeVersion d) False),
           Component (Some 1) (Some 1) (HeaderField ''headerSize'' (hHeaderSize d) False),
           Component (Some 2) (Some 2) (HeaderField ''bytecodeSize'' (hBytecodeSize d) False),
           Component (Some 4) (Some 2) (HeaderField ''expectedCRC'' (hExpectedCRC d) True)]\<rparr>"

text \<open>
  The code's test for the reserved prefix of the program section, where the well-known
  values live.
\<close>

definition inWellKnownPrefix :: "decoder_constants \<Rightarrow> UInt16 \<Rightarrow> bool" where
  "inWellKnownPrefix K w \<longleftrightarrow> w AND 0xC000 = VM_TAG_PGM_P \<and> w < VM_VALUE_WELLKNOWN_END K"

definition wellKnownValues :: "decoder_constants \<Rightarrow> UInt16 list" where
  "wellKnownValues K =
     [VM_VALUE_UNDEFINED K, VM_VALUE_NULL K, VM_VALUE_TRUE K, VM_VALUE_FALSE K,
      VM_VALUE_NAN K, VM_VALUE_NEG_ZERO K, VM_VALUE_DELETED K]"

text \<open>
  One choice of the constants that are parameters of the model, for evaluating the
  decoder on concrete images: a 42-byte header (the fields the decoder reads add up to
  that), and the well-known values at the start of the program section.
\<close>

definition exampleConstants :: decoder_constants where
  "exampleConstants =
     \<lparr>BYTECODE_VERSION = 1, HEADER_SIZE = 42, ENGINE_VERSION = 0,
      VM_VALUE_UNDEFINED = 0xC000, VM_VALUE_NULL = 0xC001, VM_VALUE_TRUE = 0xC002,
      VM_VALUE_FALSE = 0xC003, VM_VALUE_NAN = 0xC004, VM_VALUE_NEG_ZERO = 0xC005,
      VM_VALUE_DELETED = 0xC006, VM_VALUE_WELLKNOWN_END = 0xC007, TC_REF_ARRAY = 0xD\<rparr>"

text \<open>
  A header-only image with no globals and every feature flag set, with its CRC
  (\<open>0xE167\<close>); the same image declaring one global at offset 42, the end of the buffer
  (CRC \<open>0xE878\<close>).
\<close>

definition snapshotNoGlobals :: "byte list" where
  "snapshotNoGlobals =
     [1, 42, 42, 0, 0x67, 0xE1, 0, 0, 0xFF, 0xFF, 0xFF, 0xFF, 0, 0, 42, 0, 0, 0, 42, 0, 0, 0,
      42, 0, 0, 0, 42, 0, 0, 0, 42, 0, 0, 0, 42, 0, 0, 0, 42, 0, 0, 0]"

definition snapshotOneGlobalMissing :: "byte list" where
  "snapshotOneGlobalMissing =
     [1, 42, 42, 0, 0x78, 0xE8, 0, 0, 0xFF, 0xFF, 0xFF, 0xFF, 1, 0, 42, 0, 0, 0, 42, 0, 0, 0,
      42, 0, 0, 0, 42, 0, 0, 0, 42, 0, 0, 0, 42, 0, 0, 0, 42, 0, 0, 0]"

text \<open>
  An image of 44 bytes with one global, the word \<open>0x2000\<close>, at offset 42 (CRC
  \<open>0x12EF\<close>); and the header-only image with no globals whose \<open>initialDataOffset\<close> is
  43, one past the end of the buffer (CRC \<open>0xC5F3\<close>).
\<close>

definition snapshotOneGlobal :: "byte list" where
  "snapshotOneGlobal =
     [1, 42, 44, 0, 0xEF, 0x12, 0, 0, 0xFF, 0xFF, 0xFF, 0xFF, 1, 0, 42, 0, 0, 0, 44, 0, 0, 0,
      44, 0, 0, 0, 44, 0, 0, 0, 44, 0, 0, 0, 44, 0, 0, 0, 44, 0, 0, 0, 0x00, 0x20]"

definition snapshotOffsetBeyond :: "byte list" where
  "snapshotOffsetBeyond =
     [1, 42, 42, 0, 0xF3, 0xC5, 0, 0, 0xFF, 0xFF, 0xFF, 0xFF, 0, 0, 43, 0, 0, 0, 42, 0, 0, 0,
      42, 0, 0, 0, 42, 0, 0, 0, 42, 0, 0, 0, 42, 0, 0, 0, 42, 0, 0, 0]"

section \<open>Scope analysis, pass 2 (pass-2-compute-slots.ts)\<close>

subsection \<open>The scope model\<close>

text \<open>
  The types of analysis-model.ts are not among the sources; they are taken from their
  use in pass 2 and from the data model of the spec.
\<close>

datatype slot =
    LocalSlot nat
  | ArgumentSlot nat
  | ClosureSlot nat
  | GlobalSlot string
  | ModuleImportExportSlot slot string

datatype binding_kind =
    VarKind | LetKind | ConstKind | ParamKind | ThisKind | ImportKind | ExportKind

record binding =
  b_name :: string
  b_kind :: binding_kind
  isWrittenTo :: bool
  isAccessedByNestedFunction :: bool
  isExported :: bool
  b_slot :: "slot option"

text \<open>
  Bindings are objects shared between the lists of a scope (and between scopes) and
  mutated in place. The model keeps them in a store and lets the scopes hold their
  identities.
\<close>

type_synonym binding_id = nat
type_synonym binding_store = "binding_id \<Rightarrow> binding"
type_synonym func_ref = nat

datatype prologue_step =
    ScopePush nat
  | InitVarDeclaration slot
  | InitLexicalDeclaration slot
  | InitFunctionDeclaration string bool slot
  | InitParameter nat slot
  | InitThis slot

datatype scope_type = ModuleScopeT | FunctionScopeT | BlockScopeT

text \<open>
  One constructor for the three scope variants, tagged by \<open>s_type\<close>. \<open>bindings\<close> are
  the values of the \<open>bindings\<close> object, in its order; \<open>epiloguePopCount\<close> is written for
  a block scope only; \<open>thisBinding\<close> and \<open>parameterBindings\<close> are read for a function
  scope only. \<open>closureSlots\<close> is \<open>None\<close> while the source field is undefined.
\<close>

datatype scope = Scope
  (s_type: scope_type)
  (bindings: "binding_id list")
  (varDeclarations: "binding_id list")
  (nestedFunctionDeclarations: "(binding_id \<times> func_ref) list")
  (lexicalDeclarations: "binding_id list")
  (children: "scope list")
  (prologue: "prologue_step list")
  (closureSlots: "slot list option")
  (epiloguePopCount: "nat option")
  (thisBinding: "binding_id option")
  (parameterBindings: "binding_id list")

text \<open>
  What pass 2 reads of \<open>model.scopes.get(func)\<close> for a nested function declaration:
  the type of the scope found, its \<open>ilFunctionId\<close> and its \<open>functionIsClosure\<close>.
\<close>

type_synonym scopes_map = "func_ref \<Rightarrow> (scope_type \<times> string \<times> bool) option"

text \<open>
  The variables \<open>computeFunctionSlots\<close> closes over: the bindings, the array
  \<open>closureSlots\<close>, whether it has been linked into \<open>functionScope.closureSlots\<close> (the
  first call of \<open>nextClosureSlot\<close> does that), and \<open>stackDepth\<close>.
\<close>

record fstate =
  store :: binding_store
  fs_closureSlots :: "slot list"
  fs_linked :: bool
  fs_stackDepth :: nat

definition setSlot :: "binding_id \<Rightarrow> slot option \<Rightarrow> binding_store \<Rightarrow> binding_store" where
  "setSlot b s S = S(b := (S b)\<lparr>b_slot := s\<rparr>)"

definition pushLocalSlot :: "fstate \<Rightarrow> slot \<times> fstate" where
  "pushLocalSlot st = (LocalSlot (fs_stackDepth st), st\<lparr>fs_stackDepth := fs_stackDepth st + 1\<rparr>)"

definition nextClosureSlot :: "fstate \<Rightarrow> slot \<times> fstate" where
  "nextClosureSlot st =
     (ClosureSlot (length (fs_closureSlots st)),
      st\<lparr>fs_closureSlots := fs_closureSlots st @ [ClosureSlot (length (fs_closureSlots st))],
         fs_linked := True\<rparr>)"

subsection \<open>Parameters\<close>

text \<open>
  The loop of \<open>computeIlFunctionParameterSlots\<close> over the named parameters, from index
  \<open>paramI\<close>. The state carries the prologue of the function scope.
\<close>

fun computeParameterSlotsFrom ::
  "nat \<Rightarrow> binding_id list \<Rightarrow> fstate \<times> prologue_step list \<Rightarrow> fstate \<times> prologue_step list" where
  "computeParameterSlotsFrom paramI [] (st, pro) = (st, pro)"
| "computeParameterSlotsFrom paramI (b # bs) (st, pro) =
     (let argIndex = paramI + 1 in
      if isAccessedByNestedFunction (store st b) then
        (let (s, st1) = nextClosureSlot st
         in computeParameterSlotsFrom (paramI + 1) bs
              (st1\<lparr>store := setSlot b (Some s) (store st1)\<rparr>, pro @ [InitParameter argIndex s]))
      else if isWrittenTo (store st b) then
        (let (s, st1) = pushLocalSlot st
         in computeParameterSlotsFrom (paramI + 1) bs
              (st1\<lparr>store := setSlot b (Some s) (store st1)\<rparr>, pro @ [InitParameter argIndex s]))
      else
        computeParameterSlotsFrom (paramI + 1) bs
          (st\<lparr>store := setSlot b (Some (ArgumentSlot argIndex)) (store st)\<rparr>, pro))"

definition computeIlFunctionParameterSlots ::
  "binding_id option \<Rightarrow> binding_id list \<Rightarrow> fstate \<times> prologue_step list
   \<Rightarrow> error + (fstate \<times> prologue_step list)" where
  "computeIlFunctionParameterSlots thisB params sp =
     (let (st, pro) = sp in
      bindE
        (case thisB of
           None \<Rightarrow> Inr (st, pro)
         | Some t \<Rightarrow>
             if isWrittenTo (store st t) then Inl AssertionFailed
             else if isAccessedByNestedFunction (store st t) then
               (let (s, st1) = nextClosureSlot st
                in Inr (st1\<lparr>store := setSlot t (Some s) (store st1)\<rparr>, pro @ [InitThis s]))
             else Inr (st\<lparr>store := setSlot t (Some (ArgumentSlot 0)) (store st)\<rparr>, pro))
        (\<lambda>sp1. Inr (computeParameterSlotsFrom 0 params sp1)))"

subsection \<open>Variables, nested functions and blocks\<close>

definition createLocalOrClosureSlot :: "binding_id \<Rightarrow> fstate \<Rightarrow> error + (slot \<times> fstate)" where
  "createLocalOrClosureSlot b st =
     (if b_slot (store st b) \<noteq> None then Inl AssertionFailed
      else if isAccessedByNestedFunction (store st b) then Inr (nextClosureSlot st)
      else Inr (pushLocalSlot st))"

text \<open>The loop over the hoisted \<open>var\<close> declarations of \<open>computeFunctionSlots\<close>.\<close>

fun computeVarDeclarations ::
  "binding_id list \<Rightarrow> fstate \<times> prologue_step list \<Rightarrow> error + (fstate \<times> prologue_step list)" where
  "computeVarDeclarations [] sp = Inr sp"
| "computeVarDeclarations (b # bs) (st, pro) =
     (if b_slot (store st b) \<noteq> None then computeVarDeclarations bs (st, pro)
      else if b_kind (store st b) \<noteq> VarKind then Inl AssertionFailed
      else bindE (createLocalOrClosureSlot b st) (\<lambda>(s, st1).
             computeVarDeclarations bs
               (st1\<lparr>store := setSlot b (Some s) (store st1)\<rparr>, pro @ [InitVarDeclaration s])))"

text \<open>The two loops at the head of \<open>computeBlockSlots\<close>.\<close>

fun computeNestedFunctionDeclarations ::
  "scopes_map \<Rightarrow> (binding_id \<times> func_ref) list \<Rightarrow> fstate \<times> prologue_step list
   \<Rightarrow> error + (fstate \<times> prologue_step list)" where
  "computeNestedFunctionDeclarations M [] sp = Inr sp"
| "computeNestedFunctionDeclarations M ((b, func) # ds) (st, pro) =
     (if b_slot (store st b) \<noteq> None then computeNestedFunctionDeclarations M ds (st, pro)
      else bindE (createLocalOrClosureSlot b st) (\<lambda>(s, st1).
             case M func of
               None \<Rightarrow> Inl Unexpected
             | Some (ty, functionId, functionIsClosure) \<Rightarrow>
                 if ty \<noteq> FunctionScopeT then Inl Unexpected
                 else computeNestedFunctionDeclarations M ds
                        (st1\<lparr>store := setSlot b (Some s) (store st1)\<rparr>,
                         pro @ [InitFunctionDeclaration functionId functionIsClosure s])))"

fun computeLexicalDeclarations ::
  "binding_id list \<Rightarrow> fstate \<times> prologue_step list \<Rightarrow> error + (fstate \<times> prologue_step list)" where
  "computeLexicalDeclarations [] sp = Inr sp"
| "computeLexicalDeclarations (b # bs) (st, pro) =
     (if b_slot (store st b) \<noteq> None then computeLexicalDeclarations bs (st, pro)
      else bindE (createLocalOrClosureSlot b st) (\<lambda>(s, st1).
             computeLexicalDeclarations bs
               (st1\<lparr>store := setSlot b (Some s) (store st1)\<rparr>, pro @ [InitLexicalDeclaration s])))"

text \<open>
  \<open>computeFunctionSlots\<close> and \<open>computeBlockSlots\<close>, with the loop over the children of a
  block as \<open>computeChildren\<close>. \<open>computeBlockSlots\<close> is also called on the function scope
  itself; it takes the fields of the scope it reads and gives back the ones it writes:
  the children, the prologue and, for a block scope, \<open>epiloguePopCount\<close>.
\<close>

fun computeFunctionSlots :: "scopes_map \<Rightarrow> binding_store \<Rightarrow> scope \<Rightarrow> error + (binding_store \<times> scope)"
and computeBlockSlots ::
  "scopes_map \<Rightarrow> fstate \<Rightarrow> scope_type \<Rightarrow> (binding_id \<times> func_ref) list \<Rightarrow> binding_id list
   \<Rightarrow> scope list \<Rightarrow> prologue_step list \<Rightarrow> nat option
   \<Rightarrow> error + (fstate \<times> scope list \<times> prologue_step list \<times> nat option)"
and computeChildren :: "scopes_map \<Rightarrow> fstate \<Rightarrow> scope list \<Rightarrow> error + (fstate \<times> scope list)" where
  "computeFunctionSlots M S (Scope ty bnds vds nfds lds chs pro cls epc thisB params) =
     (let st0 = \<lparr>store = S, fs_closureSlots = [], fs_linked = False, fs_stackDepth = 0\<rparr> in
      bindE (if ty = FunctionScopeT then computeIlFunctionParameterSlots thisB params (st0, pro)
             else Inr (st0, pro)) (\<lambda>(st1, pro1).
      bindE (computeVarDeclarations vds (st1, pro1)) (\<lambda>(st2, pro2).
      bindE (computeBlockSlots M st2 ty nfds lds chs pro2 epc) (\<lambda>(st3, chs3, pro3, epc3).
        let cls3 = (if fs_linked st3 then Some (fs_closureSlots st3) else cls);
            pro4 = (case cls3 of Some cs \<Rightarrow> ScopePush (length cs) # pro3 | None \<Rightarrow> pro3)
        in Inr (store st3, Scope ty bnds vds nfds lds chs3 pro4 cls3 epc3 thisB params)))))"
| "computeBlockSlots M st ty nfds lds chs pro epc =
     (let blockStartStackDepth = fs_stackDepth st in
      bindE (computeNestedFunctionDeclarations M nfds (st, pro)) (\<lambda>(st1, pro1).
      bindE (computeLexicalDeclarations lds (st1, pro1)) (\<lambda>(st2, pro2).
      bindE (computeChildren M st2 chs) (\<lambda>(st3, chs3).
        Inr (st3\<lparr>fs_stackDepth := blockStartStackDepth\<rparr>, chs3, pro2,
             if ty = BlockScopeT then Some (fs_stackDepth st3 - blockStartStackDepth) else epc)))))"
| "computeChildren M st [] = Inr (st, [])"
| "computeChildren M st (Scope ty bnds vds nfds lds chs pro cls epc thisB params # rest) =
     bindE
       (case ty of
          BlockScopeT \<Rightarrow>
            bindE (computeBlockSlots M st ty nfds lds chs pro epc) (\<lambda>(st1, chs1, pro1, epc1).
              Inr (st1, Scope ty bnds vds nfds lds chs1 pro1 cls epc1 thisB params))
        | FunctionScopeT \<Rightarrow>
            bindE (computeFunctionSlots M (store st)
                     (Scope ty bnds vds nfds lds chs pro cls epc thisB params)) (\<lambda>(S1, c1).
              Inr (st\<lparr>store := S1\<rparr>, c1))
        | ModuleScopeT \<Rightarrow> Inl Unexpected)
       (\<lambda>(st1, c1). bindE (computeChildren M st1 rest) (\<lambda>(st2, rest2). Inr (st2, c1 # rest2)))"

subsection \<open>Module-level bindings\<close>

datatype imported_name = ImportedIdentifier string | ImportedStringLiteral string

datatype import_specifier =
    ImportSpecifier imported_name
  | ImportNamespaceSpecifier
  | ImportDefaultSpecifier

text \<open>
  The state \<open>computeModuleSlots\<close> works on: the bindings, the set \<open>globalSlotNames\<close>,
  \<open>model.globalSlots\<close>, the map \<open>importedModuleNamespaceSlots\<close>, \<open>model.moduleImports\<close>
  and \<open>model.thisModuleSlot\<close>.
\<close>

record module_state =
  ms_store :: binding_store
  globalSlotNames :: "string list"
  ms_globalSlots :: "slot list"
  importedModuleNamespaceSlots :: "(string \<times> string) list"
  moduleImports :: "(string \<times> string) list"
  thisModuleSlot :: "string option"

text \<open>
  Modelled from the spec: \<open>uniqueNameInSet\<close> (utils.ts) is not among the sources. It
  picks a name from the hint that is not in the set and adds it to the set; the choice
  itself is the parameter \<open>U\<close>. A global slot is its name: the maps that hold global
  slots hold the names.
\<close>

definition newGlobalSlot ::
  "(string \<Rightarrow> string list \<Rightarrow> string) \<Rightarrow> string \<Rightarrow> module_state \<Rightarrow> string \<times> module_state" where
  "newGlobalSlot U nameHint ms =
     (let n = U nameHint (globalSlotNames ms)
      in (n, ms\<lparr>globalSlotNames := n # globalSlotNames ms,
                ms_globalSlots := ms_globalSlots ms @ [GlobalSlot n]\<rparr>))"

definition getImportedModuleNamespaceSlot ::
  "(string \<Rightarrow> string list \<Rightarrow> string) \<Rightarrow> string \<Rightarrow> module_state \<Rightarrow> string \<times> module_state" where
  "getImportedModuleNamespaceSlot U source ms =
     (case map_of (importedModuleNamespaceSlots ms) source of
        Some s \<Rightarrow> (s, ms)
      | None \<Rightarrow>
          (let (s, ms1) = newGlobalSlot U source ms
           in (s, ms1\<lparr>importedModuleNamespaceSlots := importedModuleNamespaceSlots ms1 @ [(source, s)],
                     moduleImports := moduleImports ms1 @ [(s, source)]\<rparr>)))"

definition computeImportBindingSlot ::
  "(string \<Rightarrow> string list \<Rightarrow> string) \<Rightarrow> string \<times> import_specifier \<Rightarrow> module_state
   \<Rightarrow> slot \<times> module_state" where
  "computeImportBindingSlot U imp ms =
     (let (source, specifier) = imp;
          (moduleNamespaceObjectSlot, ms1) = getImportedModuleNamespaceSlot U source ms
      in case specifier of
           ImportSpecifier (ImportedIdentifier n) \<Rightarrow>
             (ModuleImportExportSlot (GlobalSlot moduleNamespaceObjectSlot) n, ms1)
         | ImportSpecifier (ImportedStringLiteral v) \<Rightarrow>
             (ModuleImportExportSlot (GlobalSlot moduleNamespaceObjectSlot) v, ms1)
         | ImportNamespaceSpecifier \<Rightarrow> (GlobalSlot moduleNamespaceObjectSlot, ms1)
         | ImportDefaultSpecifier \<Rightarrow>
             (ModuleImportExportSlot (GlobalSlot moduleNamespaceObjectSlot) ''default'', ms1))"

text \<open>
  \<open>computeModuleSlot\<close>. The export slot reads \<open>model.thisModuleSlot\<close>, which
  \<open>computeModuleSlots\<close> has set before; the model raises where it is still undefined.
\<close>

definition computeModuleSlot ::
  "(string \<Rightarrow> string list \<Rightarrow> string) \<Rightarrow> (binding_id \<Rightarrow> (string \<times> import_specifier) option)
   \<Rightarrow> binding_id \<Rightarrow> module_state \<Rightarrow> error + (slot option \<times> module_state)" where
  "computeModuleSlot U importBindings b ms =
     (case importBindings b of
        Some imp \<Rightarrow>
          (let (s, ms1) = computeImportBindingSlot U imp ms in Inr (Some s, ms1))
      | None \<Rightarrow>
          if isExported (ms_store ms b) then
            (case thisModuleSlot ms of
               None \<Rightarrow> Inl TypeError
             | Some t \<Rightarrow>
                 Inr (Some (ModuleImportExportSlot (GlobalSlot t) (b_name (ms_store ms b))), ms))
          else if isAccessedByNestedFunction (ms_store ms b) then
            (let (s, ms1) = newGlobalSlot U (b_name (ms_store ms b)) ms
             in Inr (Some (GlobalSlot s), ms1))
          else Inr (None, ms))"

fun computeRootBindings ::
  "(string \<Rightarrow> string list \<Rightarrow> string) \<Rightarrow> (binding_id \<Rightarrow> (string \<times> import_specifier) option)
   \<Rightarrow> binding_id list \<Rightarrow> module_state \<Rightarrow> error + module_state" where
  "computeRootBindings U importBindings [] ms = Inr ms"
| "computeRootBindings U importBindings (b # bs) ms =
     bindE (computeModuleSlot U importBindings b ms) (\<lambda>(s, ms1).
       computeRootBindings U importBindings bs (ms1\<lparr>ms_store := setSlot b s (ms_store ms1)\<rparr>))"

definition computeModuleSlots ::
  "(string \<Rightarrow> string list \<Rightarrow> string) \<Rightarrow> scopes_map
   \<Rightarrow> (binding_id \<Rightarrow> (string \<times> import_specifier) option) \<Rightarrow> string list
   \<Rightarrow> module_state \<Rightarrow> scope \<Rightarrow> error + (module_state \<times> scope)" where
  "computeModuleSlots U M importBindings freeVariables ms0 moduleScope =
     (let (t, ms1) = newGlobalSlot U ''thisModule'' (ms0\<lparr>globalSlotNames := freeVariables\<rparr>)
      in bindE (computeRootBindings U importBindings (bindings moduleScope)
                  (ms1\<lparr>thisModuleSlot := Some t\<rparr>)) (\<lambda>ms2.
         bindE (computeFunctionSlots M (ms_store ms2) moduleScope) (\<lambda>(S, sc).
           Inr (ms2\<lparr>ms_store := S\<rparr>, sc))))"

text \<open>
  \<open>pass2_computeSlots\<close>: \<open>rootScope\<close> is the result of \<open>scopes.get(file.program)\<close>.
\<close>

definition pass2_computeSlots ::
  "(string \<Rightarrow> string list \<Rightarrow> string) \<Rightarrow> scopes_map
   \<Rightarrow> (binding_id \<Rightarrow> (string \<times> import_specifier) option) \<Rightarrow> string list
   \<Rightarrow> module_state \<Rightarrow> scope option \<Rightarrow> error + (module_state \<times> scope)" where
  "pass2_computeSlots U M importBindings freeVariables ms0 rootScope =
     (case rootScope of
        None \<Rightarrow> Inl Unexpected
      | Some r \<Rightarrow>
          if s_type r \<noteq> ModuleScopeT then Inl Unexpected
          else computeModuleSlots U M importBindings freeVariables ms0 r)"

subsection \<open>The bindings that are parameters\<close>

text \<open>
  The \<open>this\<close> bindings and parameter bindings of the function scopes of a scope tree:
  the bindings \<open>computeIlFunctionParameterSlots\<close> is run on.
\<close>

fun parameterIds :: "scope \<Rightarrow> binding_id set"
and parameterIdsList :: "scope list \<Rightarrow> binding_id set" where
  "parameterIds (Scope ty bnds vds nfds lds chs pro cls epc thisB params) =
     (if ty = FunctionScopeT then set_option thisB \<union> set params else {})
       \<union> parameterIdsList chs"
| "parameterIdsList [] = {}"
| "parameterIdsList (c # cs) = parameterIds c \<union> parameterIdsList cs"

text \<open>
  The outcome of the parameter loop for one binding (the three cases of the loop), and
  one round of the loop as a function of its own.
\<close>

definition parameterOutcome ::
  "binding_store \<Rightarrow> binding_store \<Rightarrow> prologue_step list \<Rightarrow> binding_id \<Rightarrow> nat \<Rightarrow> bool" where
  "parameterOutcome S S' pro' b argIndex =
     (if isAccessedByNestedFunction (S b)
      then \<exists>j. b_slot (S' b) = Some (ClosureSlot j) \<and> InitParameter argIndex (ClosureSlot j) \<in> set pro'
      else if isWrittenTo (S b)
      then \<exists>j. b_slot (S' b) = Some (LocalSlot j) \<and> InitParameter argIndex (LocalSlot j) \<in> set pro'
      else b_slot (S' b) = Some (ArgumentSlot argIndex))"

definition parameterStep ::
  "nat \<Rightarrow> binding_id \<Rightarrow> fstate \<times> prologue_step list \<Rightarrow> fstate \<times> prologue_step list" where
  "parameterStep paramI b sp =
     (let (st, pro) = sp in
      if isAccessedByNestedFunction (store st b) then
        (let (s, st1) = nextClosureSlot st
         in (st1\<lparr>store := setSlot b (Some s) (store st1)\<rparr>, pro @ [InitParameter (paramI + 1) s]))
      else if isWrittenTo (store st b) then
        (let (s, st1) = pushLocalSlot st
         in (st1\<lparr>store := setSlot b (Some s) (store st1)\<rparr>, pro @ [InitParameter (paramI + 1) s]))
      else (st\<lparr>store := setSlot b (Some (ArgumentSlot (paramI + 1))) (store st)\<rparr>, pro))"

text \<open>
  Pass 2 writes slots only: the flags of the bindings stay (\<open>sameFlags\<close>). A run from
  store \<open>S\<close> to store \<open>S'\<close> keeps to the rule for argument slots
  (\<open>argumentSlotsOk\<close>) when every binding that holds an \<open>ArgumentSlot\<close> in \<open>S'\<close>
  either held the same slot in \<open>S\<close> already, or is one of the bindings \<open>P\<close> and is
  neither written to nor accessed by a nested function.
\<close>

definition sameFlags :: "binding_store \<Rightarrow> binding_store \<Rightarrow> bool" where
  "sameFlags S S' \<longleftrightarrow>
     (\<forall>x. isWrittenTo (S' x) = isWrittenTo (S x)
        \<and> isAccessedByNestedFunction (S' x) = isAccessedByNestedFunction (S x))"

definition argumentSlotsOk :: "binding_store \<Rightarrow> binding_store \<Rightarrow> binding_id set \<Rightarrow> bool" where
  "argumentSlotsOk S S' P \<longleftrightarrow>
     sameFlags S S' \<and>
     (\<forall>x k. b_slot (S' x) = Some (ArgumentSlot k) \<longrightarrow>
        b_slot (S x) = Some (ArgumentSlot k)
        \<or> (x \<in> P \<and> \<not> isWrittenTo (S x) \<and> \<not> isAccessedByNestedFunction (S x)))"

text \<open>
  An example: \<open>function f(a, b, c) { ... }\<close> with \<open>this\<close> as binding 0 and the parameters
  as bindings 1, 2 and 3, where \<open>a\<close> is only read, \<open>b\<close> is assigned to and \<open>c\<close> is used
  by a nested function; and the same function with \<open>this\<close> used by a nested arrow
  function, or marked as written to.
\<close>

definition exampleBinding :: "string \<Rightarrow> binding_kind \<Rightarrow> bool \<Rightarrow> bool \<Rightarrow> binding" where
  "exampleBinding n k w c =
     \<lparr>b_name = n, b_kind = k, isWrittenTo = w, isAccessedByNestedFunction = c,
      isExported = False, b_slot = None\<rparr>"

definition exampleStore :: binding_store where
  "exampleStore = (\<lambda>_. exampleBinding ''x'' VarKind False False)
     (0 := exampleBinding ''this'' ThisKind False False,
      1 := exampleBinding ''a'' ParamKind False False,
      2 := exampleBinding ''b'' ParamKind True False,
      3 := exampleBinding ''c'' ParamKind False True)"

definition exampleFunctionScope :: scope where
  "exampleFunctionScope = Scope FunctionScopeT [0, 1, 2, 3] [] [] [] [] [] None None (Some 0) [1, 2, 3]"

definition emptyFstate :: "binding_store \<Rightarrow> fstate" where
  "emptyFstate S = \<lparr>store = S, fs_closureSlots = [], fs_linked = False, fs_stackDepth = 0\<rparr>"

text \<open>
  A module whose only child scope is that function, with a module-level \<open>var\<close>
  (binding 4) that a nested function uses; and an input of pass 2 around it: no
  imports, no free variables, and the hint itself as the unique name.
\<close>

definition exampleModuleStore :: binding_store where
  "exampleModuleStore = exampleStore(4 := exampleBinding ''v'' VarKind True True)"

definition exampleModuleScope :: scope where
  "exampleModuleScope =
     Scope ModuleScopeT [4] [4] [] [] [exampleFunctionScope] [] None None None []"

definition exampleModuleState :: module_state where
  "exampleModuleState =
     \<lparr>ms_store = exampleModuleStore, globalSlotNames = [], ms_globalSlots = [],
      importedModuleNamespaceSlots = [], moduleImports = [], thisModuleSlot = None\<rparr>"


section \<open>IL compiler (src-to-il.ts)\<close>

text \<open>
  The compiler is the second half of the source file. It walks the syntax tree with a
  mutable \<open>Cursor\<close> and appends operations to the blocks of the IL function under
  construction. The cursor is a value here and every function returns the cursor it
  leaves behind; the objects that several cursors share and mutate (the blocks, the IL
  functions, the scopes with their dictionaries of local variables, the module-level map
  \<open>predeclaredBlocks\<close> and the counter \<open>ctx.nextBlockID\<close>) live in an explicit store,
  the \<open>compiler_state\<close>. Source locations and comments (\<open>cur.node\<close>, \<open>cur.commentNext\<close>,
  \<open>compilingNode\<close>) have no effect on the operations and are left out.
\<close>

subsection \<open>The IL\<close>

datatype opcode =
    ArrayNew | BinOp | Branch | Call | ClosureNew | Jump | Literal | LoadArg | LoadGlobal
  | LoadScoped | LoadVar | Nop | ObjectGet | ObjectNew | ObjectSet | Pop | Return
  | ScopePushOp | StoreGlobal | StoreScoped | StoreVar | UnOp

text \<open>
  \<open>ScopePushOp\<close> is the opcode \<open>'ScopePush'\<close>. A \<open>LabelOperand\<close> holds the block object
  it points to: its \<open>targetBlockID\<close> is the \<open>id\<close> of that object, which is undefined as
  long as the block is only predeclared and which \<open>createBlock\<close> fills in (for every
  label of the block at once).
\<close>

datatype operand =
    LabelOperand nat
  | LiteralOperand il_value
  | CountOperand int
  | IndexOperand int
  | NameOperand string
  | OpOperand string

fun operandType :: "operand \<Rightarrow> string" where
  "operandType (LabelOperand _) = ''LabelOperand''"
| "operandType (LiteralOperand _) = ''LiteralOperand''"
| "operandType (CountOperand _) = ''CountOperand''"
| "operandType (IndexOperand _) = ''IndexOperand''"
| "operandType (NameOperand _) = ''NameOperand''"
| "operandType (OpOperand _) = ''OpOperand''"

record operation =
  opcode :: opcode
  operands :: "operand list"
  stackDepthBefore :: int
  stackDepthAfter :: int
  staticInfo :: "nat option"

datatype block_id = EntryBlockID | BlockID nat

record il_block =
  blockId :: block_id
  expectedStackDepthAtEntry :: int
  operations :: "operation list"

record il_function =
  functionId :: string
  entryBlockID :: block_id
  maxStackDepth :: int
  blocks :: "(block_id \<times> nat) list"

text \<open>
  What the compiler takes from modules that are not part of the sources: the table
  \<open>IL.opcodes\<close> with the operand types of every opcode (a type name, with a trailing
  \<open>?\<close> for an optional operand), \<open>minOperandCount\<close>, \<open>IL.calcStaticStackChangeOfOp\<close>,
  the bounds \<open>IL.MAX_INDEX\<close> and \<open>IL.MAX_COUNT\<close>, \<open>uniqueName\<close> (applied to the names in
  use), \<open>isNameString\<close>, \<open>isUInt16\<close>, and \<open>getLocalVariableAccessor\<close>, which the compiler
  calls but does not define.
\<close>

record local_variable =
  variableIndex :: int
  variableReadonly :: bool

datatype variable_accessor =
    StackVariableAccessor int bool
  | ClosureVariableAccessor "int option"
  | GlobalVariableAccessor string bool
  | ModuleVariableAccessor string bool

record il_params =
  opcodes :: "opcode \<Rightarrow> string list"
  minOperandCount :: "opcode \<Rightarrow> nat"
  calcStaticStackChangeOfOp :: "opcode \<Rightarrow> operand list \<Rightarrow> int"
  MAX_INDEX :: int
  MAX_COUNT :: int
  uniqueName :: "string \<Rightarrow> string list \<Rightarrow> string"
  isNameString :: "string \<Rightarrow> bool"
  isUInt16 :: "js_number \<Rightarrow> bool"
  getLocalVariableAccessor :: "local_variable \<Rightarrow> variable_accessor"

subsection \<open>The syntax tree\<close>

text \<open>
  The supported Babel nodes. The results of the scope analysis, which the compiler
  looks up by node (\<open>scopeInfo.references\<close>, \<open>scopeInfo.bindings\<close>, \<open>scopeInfo.scopes\<close>),
  are fields of the nodes, as is the list that \<open>findNestedFunctionDeclarations\<close>
  collects (its traversal is not part of the sources). The records carry the fields the
  compiler reads.
\<close>

datatype reference_kind = StackReference | ClosureReference | FreeReference | ModuleReference

record binding_info =
  bindingName :: string
  bindingReadonly :: bool

record reference_info =
  referenceKind :: reference_kind
  isInLocalFunction :: bool
  referenceIndex :: "int option"
  referenceBinding :: "binding_info option"
  referenceExported :: bool
  referenceId :: string
  referenceReadonly :: bool

record declaration_info =
  closureAllocated :: bool
  slotIndex :: "int option"

record function_info =
  scopeKind :: string
  allocateClosureScope :: bool
  closureVariableCount :: "int option"
  functionIsClosure :: bool

datatype function_type = FunctionDeclarationT | ArrowFunctionExpressionT

datatype expr =
    BooleanLiteral bool
  | NumericLiteral js_number
  | StringLiteral string
  | NullLiteral
  | Identifier string "reference_info option"
  | BinaryExpression string expr expr
  | UpdateExpression string bool expr
  | UnaryExpression string bool expr
  | AssignmentExpression string expr expr
  | LogicalExpression string expr expr
  | CallExpression expr "expr list"
  | MemberExpression expr expr bool
  | ArrayExpression "expr option list"
  | ObjectExpression "object_member list"
  | ConditionalExpression expr expr expr
  | ThisExpression
  | ArrowFunctionExpression function_node
  | TemplateLiteral "string option list" "expr list"
  | SpreadElement expr
  | Super
  | PrivateName string
  | TSType string
  | PatternNode string
  | UnsupportedExpression string
and object_member =
    ObjectProperty expr bool expr
  | ObjectMethod
  | SpreadProperty
and stmt =
    IfStatement expr stmt "stmt option"
  | BlockStatement "stmt list"
  | ExpressionStatement expr
  | WhileStatement expr stmt
  | DoWhileStatement stmt expr
  | VariableDeclaration variable_declaration
  | ForStatement "for_init option" "expr option" "expr option" stmt
  | ReturnStatement "expr option"
  | SwitchStatement expr "switch_case list"
  | BreakStatement "string option"
  | FunctionDeclaration function_node
  | ExportNamedDeclaration
  | UnsupportedStatement string
and variable_declaration =
    VariableDeclarationNode string "variable_declarator list"
and variable_declarator =
    VariableDeclarator expr "expr option" "declaration_info option"
and for_init =
    ForInitDeclaration variable_declaration
  | ForInitExpression expr
and switch_case =
    SwitchCase "expr option" "stmt list"
and function_node =
    FunctionNode function_type "(string \<times> reference_info option) option" "expr list"
      function_body bool "function_info option" "function_node list"
and function_body =
    StatementBody stmt
  | ExpressionBody expr

text \<open>
  Node tests of the sources: \<open>node.type === 'Identifier'\<close> with the name,
  \<open>node.type === 'NumericLiteral'\<close> with the value, and so on. \<open>B.isExpression\<close> holds of
  the expression nodes proper.
\<close>

fun identifierName :: "expr \<Rightarrow> string option" where
  "identifierName (Identifier n _) = Some n"
| "identifierName _ = None"

fun identifierReference :: "expr \<Rightarrow> reference_info option" where
  "identifierReference (Identifier _ r) = r"
| "identifierReference _ = None"

fun numericLiteralValue :: "expr \<Rightarrow> js_number option" where
  "numericLiteralValue (NumericLiteral v) = Some v"
| "numericLiteralValue _ = None"

fun isSuper :: "expr \<Rightarrow> bool" where
  "isSuper Super = True"
| "isSuper _ = False"

fun isPrivateName :: "expr \<Rightarrow> bool" where
  "isPrivateName (PrivateName _) = True"
| "isPrivateName _ = False"

fun isSpreadElement :: "expr \<Rightarrow> bool" where
  "isSpreadElement (SpreadElement _) = True"
| "isSpreadElement _ = False"

fun isTSType :: "expr \<Rightarrow> bool" where
  "isTSType (TSType _) = True"
| "isTSType _ = False"

fun isPatternNode :: "expr \<Rightarrow> bool" where
  "isPatternNode (PatternNode _) = True"
| "isPatternNode _ = False"

fun isMemberExpression :: "expr \<Rightarrow> bool" where
  "isMemberExpression (MemberExpression _ _ _) = True"
| "isMemberExpression _ = False"

definition isExpression :: "expr \<Rightarrow> bool" where
  "isExpression e \<longleftrightarrow>
     \<not> (isSpreadElement e \<or> isSuper e \<or> isPrivateName e \<or> isTSType e \<or> isPatternNode e)"

fun isBlockStatement :: "stmt \<Rightarrow> bool" where
  "isBlockStatement (BlockStatement _) = True"
| "isBlockStatement _ = False"

text \<open>
  The tests of the special form \<open>x / y | 0\<close>: the left operand is a binary expression
  with the operator \<open>/\<close>, the right operand is a numeric literal with
  \<open>value === 0\<close> (which holds of both zeros).
\<close>

fun isDivision :: "expr \<Rightarrow> bool" where
  "isDivision (BinaryExpression operator _ _) = (operator = ''/'')"
| "isDivision _ = False"

definition isZeroLiteral :: "expr \<Rightarrow> bool" where
  "isZeroLiteral e \<longleftrightarrow>
     numericLiteralValue e = Some (Num 0) \<or> numericLiteralValue e = Some NegZero"

fun negate :: "js_number \<Rightarrow> js_number" where
  "negate (Num r) = (if r = 0 then NegZero else Num (- r))"
| "negate NegZero = Num 0"
| "negate NaN = NaN"

subsection \<open>Cursor and store\<close>

text \<open>
  \<open>breakScope\<close> is the chain of \<open>BreakScope\<close> objects, innermost first, each with its
  statement and the block that \<open>break\<close> jumps to. \<open>func\<close>, \<open>block\<close> and \<open>scope\<close> are
  references into the store; each is undefined in some cursor of the sources (the
  cursor of \<open>compileScript\<close> is in no function, the cursor that \<open>compileFunction\<close>
  builds has no scope). \<open>unreachable\<close> is \<open>False\<close> for a cursor without that property.
\<close>

record cursor =
  breakScope :: "(stmt \<times> nat) list"
  func :: "nat option"
  block :: "nat option"
  stackDepth :: int
  unreachable :: bool
  scope :: "nat option"

record local_scope =
  localVariables :: "(string \<times> local_variable) list"
  parentScope :: "nat option"

text \<open>
  The store. \<open>nextObject\<close> is the next free address; a predeclared block is an
  allocated address with nothing stored at it yet (the empty object that
  \<open>predeclareBlock\<close> returns), and \<open>predeclaredBlocks\<close> holds the keys of the map of that
  name. \<open>unitFunctions\<close> is the dictionary \<open>unit.functions\<close>.
\<close>

record compiler_state =
  nextBlockID :: nat
  unitFunctions :: "(string \<times> nat) list"
  predeclaredBlocks :: "nat list"
  nextObject :: nat
  blockObjects :: "nat \<Rightarrow> il_block option"
  functionObjects :: "nat \<Rightarrow> il_function option"
  scopeObjects :: "nat \<Rightarrow> local_scope option"

type_synonym cstate = "cursor \<times> compiler_state"

text \<open>A dictionary keeps the order of insertion; assigning to a key it has replaces the value.\<close>

fun dictSet :: "'k \<Rightarrow> 'v \<Rightarrow> ('k \<times> 'v) list \<Rightarrow> ('k \<times> 'v) list" where
  "dictSet k v [] = [(k, v)]"
| "dictSet k v ((k', v') # kvs) =
     (if k' = k then (k, v) # kvs else (k', v') # dictSet k v kvs)"

text \<open>\<open>xs[i]\<close>, which is undefined outside the array.\<close>

fun nthOpt :: "'a list \<Rightarrow> nat \<Rightarrow> 'a option" where
  "nthOpt [] i = None"
| "nthOpt (x # xs) 0 = Some x"
| "nthOpt (x # xs) (Suc i) = nthOpt xs i"

text \<open>
  Sequencing. \<open>seqE\<close> runs a list of steps on the cursor and the store, stopping at the
  first error; \<open>forOf\<close> is \<open>for (const x of xs)\<close> and \<open>forEntries\<close> is
  \<open>for (const [i, x] of xs.entries())\<close>, both threading the state of the loop.
\<close>

fun seqE :: "('s \<Rightarrow> error + 's) list \<Rightarrow> 's \<Rightarrow> error + 's" where
  "seqE [] s = Inr s"
| "seqE (f # fs) s = bindE (f s) (seqE fs)"

fun forOf :: "'a list \<Rightarrow> ('a \<Rightarrow> 's \<Rightarrow> error + 's) \<Rightarrow> 's \<Rightarrow> error + 's" where
  "forOf [] f s = Inr s"
| "forOf (x # xs) f s = bindE (f x s) (forOf xs f)"

fun forFrom :: "nat \<Rightarrow> 'a list \<Rightarrow> (nat \<Rightarrow> 'a \<Rightarrow> 's \<Rightarrow> error + 's) \<Rightarrow> 's \<Rightarrow> error + 's" where
  "forFrom i [] f s = Inr s"
| "forFrom i (x # xs) f s = bindE (f i x s) (forFrom (Suc i) xs f)"

definition forEntries :: "'a list \<Rightarrow> (nat \<Rightarrow> 'a \<Rightarrow> 's \<Rightarrow> error + 's) \<Rightarrow> 's \<Rightarrow> error + 's" where
  "forEntries xs f s = forFrom 0 xs f s"

lemma forOf_cong [fundef_cong]:
  "xs = ys \<Longrightarrow> s = t \<Longrightarrow> (\<And>x u. x \<in> set ys \<Longrightarrow> f x u = g x u) \<Longrightarrow> forOf xs f s = forOf ys g t"
proof (induction ys arbitrary: xs s t)
  case Nil
  then show ?case by simp
next
  case (Cons y ys)
  have "forOf ys f u = forOf ys g u" for u
    by (rule Cons.IH) (simp_all add: Cons.prems(3))
  then have "forOf ys f = forOf ys g" by (rule ext)
  with Cons.prems show ?case by simp
qed

lemma forFrom_cong:
  "(\<And>i x u. x \<in> set xs \<Longrightarrow> f i x u = g i x u) \<Longrightarrow> forFrom n xs f s = forFrom n xs g s"
proof (induction xs arbitrary: n s)
  case Nil
  then show ?case by simp
next
  case (Cons y ys)
  have "forFrom (Suc n) ys f u = forFrom (Suc n) ys g u" for u
    by (rule Cons.IH) (simp add: Cons.prems)
  then have "forFrom (Suc n) ys f = forFrom (Suc n) ys g" by (rule ext)
  with Cons.prems show ?case by simp
qed

lemma forEntries_cong [fundef_cong]:
  assumes "xs = ys" and "s = t" and "\<And>i x u. x \<in> set ys \<Longrightarrow> f i x u = g i x u"
  shows "forEntries xs f s = forEntries ys g t"
  unfolding forEntries_def assms(1,2) by (rule forFrom_cong) (rule assms(3))


subsection \<open>Emitting operations\<close>

text \<open>
  The loop at the head of \<open>addOp\<close>: the operand at the position of every expected type
  is checked. A missing operand is skipped when the expected type ends in \<open>?\<close>;
  otherwise reading its type raises the \<open>TypeError\<close>.
\<close>

definition endsWith :: "string \<Rightarrow> char \<Rightarrow> bool" where
  "endsWith s c \<longleftrightarrow> s \<noteq> [] \<and> last s = c"

fun checkOperands :: "il_params \<Rightarrow> string list \<Rightarrow> operand list \<Rightarrow> error + unit" where
  "checkOperands P [] ops = Inr ()"
| "checkOperands P (expectedType # rest) [] =
     (if endsWith expectedType CHR ''?'' then checkOperands P rest [] else Inl TypeError)"
| "checkOperands P (expectedType # rest) (operand # ops) =
     (if operandType operand \<noteq> expectedType then
        Inl (InternalCompileError ''Expected operand of another type'')
      else
        (case operand of
           IndexOperand i \<Rightarrow>
             if i < 0 \<or> i > MAX_INDEX P then Inl (InternalCompileError ''Index out of range'')
             else checkOperands P rest ops
         | CountOperand c \<Rightarrow>
             if c < 0 \<or> c > MAX_COUNT P then Inl (InternalCompileError ''Count out of range'')
             else checkOperands P rest ops
         | _ \<Rightarrow> checkOperands P rest ops))"

text \<open>\<open>target.targetBlockID\<close>, and the block that \<open>cur.func.blocks\<close> has under an id.\<close>

definition targetBlockID :: "compiler_state \<Rightarrow> nat \<Rightarrow> block_id option" where
  "targetBlockID G h = map_option blockId (blockObjects G h)"

definition blockOfFunction :: "compiler_state \<Rightarrow> cursor \<Rightarrow> block_id \<Rightarrow> error + il_block" where
  "blockOfFunction G cur i =
     (case func cur of
        None \<Rightarrow> Inl TypeError
      | Some f \<Rightarrow>
          (case functionObjects G f of
             None \<Rightarrow> Inl TypeError
           | Some fn \<Rightarrow>
               (case map_of (blocks fn) i of
                  None \<Rightarrow> Inl TypeError
                | Some a \<Rightarrow>
                    (case blockObjects G a of
                       None \<Rightarrow> Inl TypeError
                     | Some b \<Rightarrow> Inr b))))"

text \<open>
  The check of one label of a \<open>Jump\<close> or \<open>Branch\<close>: nothing is checked for a label
  whose \<open>targetBlockID\<close> is still undefined.
\<close>

definition checkTarget :: "compiler_state \<Rightarrow> cursor \<Rightarrow> int \<Rightarrow> operand \<Rightarrow> string \<Rightarrow> error + unit" where
  "checkTarget G cur after target message =
     (case target of
        LabelOperand h \<Rightarrow>
          (case targetBlockID G h of
             None \<Rightarrow> Inr ()
           | Some i \<Rightarrow>
               bindE (blockOfFunction G cur i) (\<lambda>targetBlock.
                 if expectedStackDepthAtEntry targetBlock \<noteq> after
                 then Inl (InternalCompileError message)
                 else Inr ()))
      | _ \<Rightarrow> Inl Unexpected)"

definition isLabelOperand :: "operand \<Rightarrow> bool" where
  "isLabelOperand operand \<longleftrightarrow> operandType operand = ''LabelOperand''"

definition pushOperation :: "nat \<Rightarrow> operation \<Rightarrow> compiler_state \<Rightarrow> error + compiler_state" where
  "pushOperation b operation G =
     (case blockObjects G b of
        None \<Rightarrow> Inl TypeError
      | Some blk \<Rightarrow>
          Inr (G\<lparr>blockObjects :=
                 (blockObjects G)(b \<mapsto> blk\<lparr>operations := operations blk @ [operation]\<rparr>)\<rparr>))"

definition addOp :: "il_params \<Rightarrow> opcode \<Rightarrow> operand list \<Rightarrow> cstate \<Rightarrow> error + cstate" where
  "addOp P oc ops cs =
     (case cs of (cur, G) \<Rightarrow>
        bindE (checkOperands P (opcodes P oc) ops) (\<lambda>_.
        if length ops < minOperandCount P oc then
          Inl (InternalCompileError ''Incorrect number of operands'')
        else if unreachable cur then Inr (cur, G)
        else
          (case block cur of
             None \<Rightarrow> Inl TypeError
           | Some b \<Rightarrow>
               (let after = stackDepth cur + calcStaticStackChangeOfOp P oc ops;
                    operation = \<lparr>opcode = oc, operands = ops,
                      stackDepthBefore = stackDepth cur, stackDepthAfter = after,
                      staticInfo = None\<rparr>
                in bindE (pushOperation b operation G) (\<lambda>G'.
                   let cur' = cur\<lparr>stackDepth := after\<rparr>
                   in if oc = Jump then
                        (case ops of
                           [] \<Rightarrow> Inl TypeError
                         | target # _ \<Rightarrow>
                             bindE (checkTarget G' cur' after target ''Jumping'') (\<lambda>_.
                             Inr (cur', G')))
                      else if oc = Branch then
                        (case ops of
                           [] \<Rightarrow> Inl TypeError
                         | targetTrue # rest \<Rightarrow>
                             if \<not> isLabelOperand targetTrue then Inl Unexpected
                             else
                               (case rest of
                                  [] \<Rightarrow> Inl TypeError
                                | targetFalse # _ \<Rightarrow>
                                    if \<not> isLabelOperand targetFalse then Inl Unexpected
                                    else
                                      bindE (checkTarget G' cur' after targetTrue
                                               ''Branching (true branch)'') (\<lambda>_.
                                      bindE (checkTarget G' cur' after targetFalse
                                               ''Branching (false branch)'') (\<lambda>_.
                                      Inr (cur', G')))))
                      else Inr (cur', G'))))))"

text \<open>\<open>op.staticInfo = ...\<close> on the operation that \<open>addOp\<close> has just pushed.\<close>

definition setStaticInfo :: "nat \<Rightarrow> cstate \<Rightarrow> cstate" where
  "setStaticInfo n cs =
     (case cs of (cur, G) \<Rightarrow>
        if unreachable cur then cs
        else
        (case block cur of
           None \<Rightarrow> cs
         | Some b \<Rightarrow>
             (case blockObjects G b of
                None \<Rightarrow> cs
              | Some blk \<Rightarrow>
                  if operations blk = [] then cs
                  else (cur, G\<lparr>blockObjects := (blockObjects G)(b \<mapsto>
                          blk\<lparr>operations := butlast (operations blk) @
                            [(last (operations blk))\<lparr>staticInfo := Some n\<rparr>]\<rparr>)\<rparr>))))"

subsection \<open>Blocks\<close>

definition predeclareBlock :: "compiler_state \<Rightarrow> nat \<times> compiler_state" where
  "predeclareBlock G =
     (nextObject G,
      G\<lparr>nextObject := nextObject G + 1,
        predeclaredBlocks := predeclaredBlocks G @ [nextObject G]\<rparr>)"

text \<open>\<open>xs.map(predeclareBlock)\<close>: one block for every element.\<close>

fun predeclareBlocks :: "nat \<Rightarrow> compiler_state \<Rightarrow> nat list \<times> compiler_state" where
  "predeclareBlocks 0 G = ([], G)"
| "predeclareBlocks (Suc n) G =
     (case predeclareBlock G of (b, G1) \<Rightarrow>
        (case predeclareBlocks n G1 of (bs, G2) \<Rightarrow> (b # bs, G2)))"

definition labelOfBlock :: "nat \<Rightarrow> operand" where
  "labelOfBlock b = LabelOperand b"

text \<open>
  \<open>createBlock\<close>. The new block takes the identity of the predeclared one, which must
  still be in \<open>predeclaredBlocks\<close>; without a predeclared block a new object is
  allocated. The cursor it returns has no \<open>unreachable\<close> property.
\<close>

definition createBlock :: "cursor \<Rightarrow> nat option \<Rightarrow> compiler_state \<Rightarrow> error + cstate" where
  "createBlock cur predeclaredBlock G =
     (let blk = \<lparr>blockId = BlockID (nextBlockID G),
                 expectedStackDepthAtEntry = stackDepth cur, operations = []\<rparr>;
          G1 = G\<lparr>nextBlockID := nextBlockID G + 1\<rparr>
      in bindE
           (case predeclaredBlock of
              Some h \<Rightarrow>
                if h \<in> set (predeclaredBlocks G1)
                then Inr (h, G1\<lparr>blockObjects := (blockObjects G1)(h \<mapsto> blk),
                               predeclaredBlocks := removeAll h (predeclaredBlocks G1)\<rparr>)
                else Inl Unexpected
            | None \<Rightarrow>
                Inr (nextObject G1,
                     G1\<lparr>blockObjects := (blockObjects G1)(nextObject G1 \<mapsto> blk),
                        nextObject := nextObject G1 + 1\<rparr>))
           (\<lambda>(a, G2).
              (case func cur of
                 None \<Rightarrow> Inl TypeError
               | Some f \<Rightarrow>
                   (case functionObjects G2 f of
                      None \<Rightarrow> Inl TypeError
                    | Some fn \<Rightarrow>
                        Inr (\<lparr>breakScope = breakScope cur, func = func cur, block = Some a,
                              stackDepth = stackDepth cur, unreachable = False,
                              scope = scope cur\<rparr>,
                             G2\<lparr>functionObjects := (functionObjects G2)(f \<mapsto>
                                  fn\<lparr>blocks := dictSet (blockId blk) a (blocks fn)\<rparr>)\<rparr>)))))"

text \<open>
  \<open>moveCursor\<close> is \<open>Object.assign(cur, toLocation)\<close>: the properties of the target are
  copied, and \<open>unreachable\<close> stays set when the target does not have it.
\<close>

definition moveCursor :: "cursor \<Rightarrow> cursor \<Rightarrow> cursor" where
  "moveCursor cur toLocation = toLocation\<lparr>unreachable := unreachable toLocation \<or> unreachable cur\<rparr>"

definition compileDup :: "il_params \<Rightarrow> cstate \<Rightarrow> error + cstate" where
  "compileDup P cs = addOp P LoadVar [IndexOperand (stackDepth (fst cs) - 1)] cs"

subsection \<open>Break scopes and variable scopes\<close>

definition pushBreakScope :: "stmt \<Rightarrow> nat \<Rightarrow> cstate \<Rightarrow> cstate" where
  "pushBreakScope statement breakToTarget cs =
     (case cs of (cur, G) \<Rightarrow> (cur\<lparr>breakScope := (statement, breakToTarget) # breakScope cur\<rparr>, G))"

definition popBreakScope :: "stmt \<Rightarrow> cstate \<Rightarrow> error + cstate" where
  "popBreakScope statement cs =
     (case cs of (cur, G) \<Rightarrow>
        (case breakScope cur of
           [] \<Rightarrow> Inl Unexpected
         | (s, _) # parent \<Rightarrow>
             if s = statement then Inr (cur\<lparr>breakScope := parent\<rparr>, G)
             else Inl AssertionFailed))"

definition compileBreakStatement :: "il_params \<Rightarrow> string option \<Rightarrow> cstate \<Rightarrow> error + cstate" where
  "compileBreakStatement P label cs =
     (if label \<noteq> None then Inl (CompileError ''Not supported: labelled break statement'')
      else
        (case breakScope (fst cs) of
           [] \<Rightarrow> Inl (CompileError ''No valid break target identified'')
         | (_, breakToTarget) # _ \<Rightarrow> addOp P Jump [labelOfBlock breakToTarget] cs))"

text \<open>
  \<open>startScope\<close> returns the closure \<open>endScope\<close>; here it returns what that closure
  captures: the new scope, the scope before, and the stack depth at the start.
\<close>

record scope_handle =
  newScope :: nat
  origScope :: "nat option"
  stackDepthAtStart :: int

definition startScope :: "cstate \<Rightarrow> scope_handle \<times> cstate" where
  "startScope cs =
     (case cs of (cur, G) \<Rightarrow>
        (\<lparr>newScope = nextObject G, origScope = scope cur, stackDepthAtStart = stackDepth cur\<rparr>,
         (cur\<lparr>scope := Some (nextObject G)\<rparr>,
          G\<lparr>nextObject := nextObject G + 1,
            scopeObjects := (scopeObjects G)(nextObject G \<mapsto>
              \<lparr>localVariables = [], parentScope = scope cur\<rparr>)\<rparr>)))"

definition endScope :: "il_params \<Rightarrow> scope_handle \<Rightarrow> cstate \<Rightarrow> error + cstate" where
  "endScope P h cs =
     bindE
       (if \<not> unreachable (fst cs) then
          (case scopeObjects (snd cs) (newScope h) of
             None \<Rightarrow> Inl TypeError
           | Some sc \<Rightarrow>
               (let variableCount = int (length (localVariables sc))
                in if stackDepth (fst cs) - stackDepthAtStart h \<noteq> variableCount
                   then Inl Unexpected
                   else if variableCount > 0
                   then addOp P Pop [CountOperand variableCount] cs
                   else Inr cs))
        else Inr cs)
       (\<lambda>(cur, G). Inr (cur\<lparr>scope := origScope h\<rparr>, G))"

text \<open>
  \<open>vars[name] = variable\<close> on the dictionary of a scope, after the test
  \<open>name in vars\<close> that both callers make.
\<close>

definition declareLocalVariable ::
  "nat option \<Rightarrow> string \<Rightarrow> local_variable \<Rightarrow> string \<Rightarrow> cstate \<Rightarrow> error + cstate" where
  "declareLocalVariable sc n v message cs =
     (case sc of
        None \<Rightarrow> Inl TypeError
      | Some a \<Rightarrow>
          (case scopeObjects (snd cs) a of
             None \<Rightarrow> Inl TypeError
           | Some s \<Rightarrow>
               if n \<in> fst ` set (localVariables s) then Inl (CompileError message)
               else Inr (fst cs, (snd cs)\<lparr>scopeObjects := (scopeObjects (snd cs))(a \<mapsto>
                      s\<lparr>localVariables := dictSet n v (localVariables s)\<rparr>)\<rparr>)))"

text \<open>
  \<open>findVariable\<close> walks up the chain of scopes. Every scope of this compiler is a
  \<open>LocalScope\<close> and the chain ends in \<open>undefined\<close>, where reading \<open>scope.type\<close> raises
  the \<open>TypeError\<close>. A scope is allocated after its parent, so the chain is shorter than
  \<open>nextObject\<close>, which bounds the walk here.
\<close>

fun findVariableFrom :: "compiler_state \<Rightarrow> nat \<Rightarrow> nat option \<Rightarrow> string \<Rightarrow> error + local_variable" where
  "findVariableFrom G 0 sc n = Inl TypeError"
| "findVariableFrom G (Suc k) sc n =
     (case sc of
        None \<Rightarrow> Inl TypeError
      | Some a \<Rightarrow>
          (case scopeObjects G a of
             None \<Rightarrow> Inl TypeError
           | Some s \<Rightarrow>
               (case map_of (localVariables s) n of
                  Some v \<Rightarrow> Inr v
                | None \<Rightarrow> findVariableFrom G k (parentScope s) n)))"

definition findVariable :: "cstate \<Rightarrow> string \<Rightarrow> error + local_variable" where
  "findVariable cs n =
     findVariableFrom (snd cs) (Suc (nextObject (snd cs))) (scope (fst cs)) n"

subsection \<open>Values and accessors\<close>

text \<open>
  A \<open>LazyValue\<close> is a closure that emits the code pushing a value. The ones handed to
  an accessor are \<open>valueAtTopOfStack\<close> and the value of a compiled function
  (\<open>compileGeneralFunctionExpression\<close>); the others are called where they are built.
\<close>

datatype lazy_value =
    ValueAtTopOfStack int
  | FunctionValueOf string bool

definition valueAtTopOfStack :: "cstate \<Rightarrow> lazy_value" where
  "valueAtTopOfStack cs = ValueAtTopOfStack (stackDepth (fst cs) - 1)"

definition loadValue :: "il_params \<Rightarrow> lazy_value \<Rightarrow> cstate \<Rightarrow> error + cstate" where
  "loadValue P v cs =
     (case v of
        ValueAtTopOfStack indexOfValue \<Rightarrow> addOp P LoadVar [IndexOperand indexOfValue] cs
      | FunctionValueOf functionId' isClosure \<Rightarrow>
          bindE (addOp P Literal [LiteralOperand (FunctionValue functionId')] cs) (\<lambda>cs1.
          if isClosure then addOp P ClosureNew [CountOperand 1] cs1 else Inr cs1))"

text \<open>
  The accessors of variables: \<open>getStackVariableAccessor\<close>, \<open>getClosureVariableAccessor\<close>,
  \<open>getGlobalVariableAccessor\<close> and \<open>getModuleVariableAccessor\<close>, each with its \<open>load\<close>
  and its \<open>store\<close>.
\<close>

definition variableLoad :: "il_params \<Rightarrow> variable_accessor \<Rightarrow> cstate \<Rightarrow> error + cstate" where
  "variableLoad P a cs =
     (case a of
        StackVariableAccessor i _ \<Rightarrow> addOp P LoadVar [IndexOperand i] cs
      | ClosureVariableAccessor i \<Rightarrow>
          (case i of None \<Rightarrow> Inl Unexpected
           | Some i' \<Rightarrow> addOp P LoadScoped [IndexOperand i'] cs)
      | GlobalVariableAccessor n _ \<Rightarrow> addOp P LoadGlobal [NameOperand n] cs
      | ModuleVariableAccessor n _ \<Rightarrow> addOp P LoadGlobal [NameOperand n] cs)"

definition variableStore :: "il_params \<Rightarrow> variable_accessor \<Rightarrow> lazy_value \<Rightarrow> cstate \<Rightarrow> error + cstate" where
  "variableStore P a v cs =
     (case a of
        StackVariableAccessor i isReadonly \<Rightarrow>
          if isReadonly then Inl (CompileError ''Cannot assign to constant'')
          else bindE (loadValue P v cs) (addOp P StoreVar [IndexOperand i])
      | ClosureVariableAccessor i \<Rightarrow>
          bindE (loadValue P v cs) (\<lambda>cs1.
            (case i of None \<Rightarrow> Inl Unexpected
             | Some i' \<Rightarrow> addOp P StoreScoped [IndexOperand i'] cs1))
      | GlobalVariableAccessor n isReadonly \<Rightarrow>
          if isReadonly then Inl (CompileError ''Cannot assign to constant'')
          else bindE (loadValue P v cs) (addOp P StoreGlobal [NameOperand n])
      | ModuleVariableAccessor n isReadonly \<Rightarrow>
          if isReadonly then Inl (CompileError ''Cannot assign to constant'')
          else bindE (loadValue P v cs) (addOp P StoreGlobal [NameOperand n]))"

text \<open>
  \<open>accessVariable\<close>, by the kind of the reference. An exported module variable is
  reached through \<open>cur.ctx.moduleScope\<close>, which the context does not have.
\<close>

definition accessVariable :: "string \<Rightarrow> reference_info option \<Rightarrow> error + variable_accessor" where
  "accessVariable n refInfo =
     (case refInfo of
        None \<Rightarrow> Inl Unexpected
      | Some r \<Rightarrow>
          (case referenceKind r of
             StackReference \<Rightarrow>
               if \<not> isInLocalFunction r then Inl AssertionFailed
               else
                 (case (referenceIndex r, referenceBinding r) of
                    (Some i, Some b) \<Rightarrow> Inr (StackVariableAccessor i (bindingReadonly b))
                  | _ \<Rightarrow> Inl Unexpected)
           | ClosureReference \<Rightarrow> Inr (ClosureVariableAccessor (referenceIndex r))
           | FreeReference \<Rightarrow>
               (case referenceBinding r of
                  None \<Rightarrow> Inl Unexpected
                | Some b \<Rightarrow>
                    if bindingName b \<noteq> n then Inl AssertionFailed
                    else Inr (GlobalVariableAccessor (bindingName b) (bindingReadonly b)))
           | ModuleReference \<Rightarrow>
               if referenceExported r then Inl TypeError
               else Inr (ModuleVariableAccessor (referenceId r) (referenceReadonly r))))"

text \<open>
  \<open>resolveLValue\<close>. The accessor of a member expression is a closure over the object
  and the property of that node: here it is \<open>ObjectMemberAccessor\<close>, and its \<open>load\<close> and
  \<open>store\<close> take the node again (\<open>accessorLoad\<close>, \<open>accessorStore\<close> below).
\<close>

datatype accessor =
    VariableAccessor variable_accessor
  | ObjectMemberAccessor

definition resolveLValue :: "il_params \<Rightarrow> expr \<Rightarrow> cstate \<Rightarrow> error + accessor" where
  "resolveLValue P lVal cs =
     (case lVal of
        Identifier variableName refInfo \<Rightarrow>
          (case refInfo of
             None \<Rightarrow> Inl Unexpected
           | Some r \<Rightarrow>
               if referenceKind r = ClosureReference
               then Inr (VariableAccessor (ClosureVariableAccessor (referenceIndex r)))
               else bindE (findVariable cs variableName) (\<lambda>variable.
                      Inr (VariableAccessor (getLocalVariableAccessor P variable))))
      | MemberExpression object property computed \<Rightarrow>
          if computed then Inr ObjectMemberAccessor
          else if identifierName property = None
          then Inl (CompileError ''Property names must be simple identifiers'')
          else Inr ObjectMemberAccessor
      | _ \<Rightarrow> Inl (CompileError ''Feature not supported''))"

subsection \<open>Expressions and statements without subexpressions\<close>

definition getBinOpCode :: "string \<Rightarrow> error + string" where
  "getBinOpCode operator =
     (if operator = ''instanceof'' \<or> operator = ''in''
      then Inl (CompileError ''Operator not supported'')
      else if operator = ''==''
      then Inl (CompileError ''Use `===` instead of `==`'')
      else if operator = ''!=''
      then Inl (CompileError ''Use `!==` instead of `!=`'')
      else Inr operator)"

definition getUnOpCode :: "string \<Rightarrow> error + string" where
  "getUnOpCode operator =
     (if operator = ''typeof'' \<or> operator = ''void'' \<or> operator = ''delete''
         \<or> operator = ''throw''
      then Inl (CompileError ''Operator not supported'')
      else Inr operator)"

definition getBinOpFromAssignmentExpression :: "string \<Rightarrow> error + string" where
  "getBinOpFromAssignmentExpression operator =
     (if operator = ''='' then Inl Unexpected
      else if operator \<in> set [''%='', ''&='', ''*='', ''+='', ''-='', ''/='', ''<<='',
                ''>>='', ''>>>='', ''^='', ''|='']
      then Inr (butlast operator)
      else Inl NotImplemented)"

definition compileIncr :: "il_params \<Rightarrow> cstate \<Rightarrow> error + cstate" where
  "compileIncr P cs =
     seqE [addOp P Literal [LiteralOperand (NumberValue (Num 1))],
           addOp P BinOp [OpOperand ''+'']] cs"

definition compileDecr :: "il_params \<Rightarrow> cstate \<Rightarrow> error + cstate" where
  "compileDecr P cs =
     seqE [addOp P Literal [LiteralOperand (NumberValue (Num 1))],
           addOp P BinOp [OpOperand ''-'']] cs"

definition compileUpdateExpression ::
  "il_params \<Rightarrow> string \<Rightarrow> bool \<Rightarrow> expr \<Rightarrow> cstate \<Rightarrow> error + cstate" where
  "compileUpdateExpression P operator isPrefix argument cs =
     (if identifierName argument = None
      then Inl (CompileError ''Operator can only be used on simple identifiers'')
      else if operator \<noteq> ''++'' \<and> operator \<noteq> ''--'' then Inl Unexpected
      else
        (let updaterOp = (if operator = ''++'' then compileIncr P else compileDecr P)
         in bindE (resolveLValue P argument cs) (\<lambda>a.
            (case a of
               ObjectMemberAccessor \<Rightarrow> Inl Unexpected
             | VariableAccessor va \<Rightarrow>
                 bindE (variableLoad P va cs) (\<lambda>cs1.
                 if isPrefix then
                   bindE (updaterOp cs1) (\<lambda>cs2.
                   variableStore P va (valueAtTopOfStack cs2) cs2)
                 else
                   bindE (compileDup P cs1) (\<lambda>cs2.
                   bindE (updaterOp cs2) (\<lambda>cs3.
                   bindE (variableStore P va (valueAtTopOfStack cs3) cs3) (\<lambda>cs4.
                   addOp P Pop [CountOperand 1] cs4))))))))"

definition compileIdentifier ::
  "il_params \<Rightarrow> string \<Rightarrow> reference_info option \<Rightarrow> cstate \<Rightarrow> error + cstate" where
  "compileIdentifier P n refInfo cs =
     (if n = ''undefined'' then addOp P Literal [LiteralOperand UndefinedValue] cs
      else bindE (resolveLValue P (Identifier n refInfo) cs) (\<lambda>a.
             (case a of
                ObjectMemberAccessor \<Rightarrow> Inl Unexpected
              | VariableAccessor va \<Rightarrow> variableLoad P va cs)))"

definition compileThisExpression :: "il_params \<Rightarrow> cstate \<Rightarrow> error + cstate" where
  "compileThisExpression P cs = addOp P LoadArg [IndexOperand 0] cs"

text \<open>
  \<open>compileNopSpecialForm\<close> on the expression of an expression statement: \<open>None\<close> when
  the statement is not the special form.
\<close>

definition compileNopSpecialForm :: "il_params \<Rightarrow> expr \<Rightarrow> cstate \<Rightarrow> error + cstate option" where
  "compileNopSpecialForm P expression cs =
     (case expression of
        CallExpression callee args \<Rightarrow>
          if identifierName callee \<noteq> Some ''$$InternalNOPInstruction'' then Inr None
          else
            (case args of
               [sizeArg] \<Rightarrow>
                 (case numericLiteralValue sizeArg of
                    None \<Rightarrow> Inr None
                  | Some nopSize \<Rightarrow>
                      (case nopSize of
                         Num r \<Rightarrow>
                           if \<not> isUInt16 P nopSize \<or> r < 2
                           then Inl (CompileError ''Invalid NOP size'')
                           else bindE (addOp P Nop [CountOperand \<lfloor>r\<rfloor>] cs) (\<lambda>cs1.
                                  Inr (Some cs1))
                       | _ \<Rightarrow> Inl (CompileError ''Invalid NOP size'')))
             | _ \<Rightarrow> Inr None)
      | _ \<Rightarrow> Inr None)"

definition compileParam :: "il_params \<Rightarrow> expr \<Rightarrow> nat \<Rightarrow> cstate \<Rightarrow> error + cstate" where
  "compileParam P param i cs =
     (case identifierName param of
        None \<Rightarrow> Inl (CompileError ''Only simple parameters are supported.'')
      | Some paramName \<Rightarrow>
          (let paramVariableIndex = stackDepth (fst cs)
           in bindE (addOp P LoadArg [IndexOperand (int i)] cs) (\<lambda>cs1.
              declareLocalVariable (scope (fst cs1)) paramName
                \<lparr>variableIndex = paramVariableIndex, variableReadonly = False\<rparr>
                ''Duplicate identifier'' cs1)))"

text \<open>\<open>computeMaximumStackDepth\<close> over the blocks of a function.\<close>

definition maxDepthOfOperations :: "operation list \<Rightarrow> int \<Rightarrow> int" where
  "maxDepthOfOperations ops m =
     fold (\<lambda>op m. max (max m (stackDepthBefore op)) (stackDepthAfter op)) ops m"

definition computeMaximumStackDepth :: "nat \<Rightarrow> compiler_state \<Rightarrow> compiler_state" where
  "computeMaximumStackDepth f G =
     (case functionObjects G f of
        None \<Rightarrow> G
      | Some fn \<Rightarrow>
          G\<lparr>functionObjects := (functionObjects G)(f \<mapsto>
              fn\<lparr>maxStackDepth :=
                   fold (\<lambda>(_, a) m.
                           case blockObjects G a of
                             None \<Rightarrow> m
                           | Some blk \<Rightarrow> maxDepthOfOperations (operations blk) m)
                        (blocks fn) 0\<rparr>)\<rparr>)"


subsection \<open>Expressions, statements and functions\<close>

text \<open>
  The compiler proper. \<open>compileExpression\<close> and \<open>compileStatement\<close> have one equation
  for every node type, which is the body of the function that the \<open>switch\<close> of the
  sources dispatches to (\<open>compileBinaryExpression\<close>, \<open>compileSwitchStatement\<close>, ...),
  after the test \<open>if (cur.unreachable) return\<close> that both make first. Where the sources
  create a second cursor with \<open>createBlock\<close> and go on with the first one, both cursors
  are named here. \<open>compileFunction\<close> returns the id of the IL function together with the
  cursor of its caller, which the hoisted declarations of the function write to.
\<close>

text \<open>The size of an element bounds the calls of the compiler on the elements of a list.\<close>

lemma size_mem_le: "x \<in> set xs \<Longrightarrow> f x \<le> size_list f xs"
  by (induction xs) auto

lemma size_mem_Some_le: "Some x \<in> set xs \<Longrightarrow> f x \<le> size_list (size_option f) xs"
  by (induction xs) auto

lemma size_mem_ObjectProperty:
  "ObjectProperty k c v \<in> set ps \<Longrightarrow> size v \<le> size_list size ps"
  by (induction ps) auto

lemma size_mem_SwitchCase_test:
  "SwitchCase (Some t) c \<in> set cases \<Longrightarrow> size t \<le> size_list size cases"
  by (induction cases) auto

lemma size_mem_SwitchCase_consequent:
  "SwitchCase t c \<in> set cases \<Longrightarrow> x \<in> set c \<Longrightarrow> size x \<le> size_list size cases"
proof (induction cases)
  case Nil
  then show ?case by simp
next
  case (Cons a cases)
  from Cons.prems(2) have "size x \<le> size_list size c" by (rule size_mem_le)
  with Cons show ?case by auto
qed

lemma size_mem_VariableDeclarator:
  "VariableDeclarator a (Some e) c \<in> set ds \<Longrightarrow> size e \<le> size_list size ds"
  by (induction ds) auto

function compileExpression :: "il_params \<Rightarrow> expr \<Rightarrow> cstate \<Rightarrow> error + cstate"
  and accessorLoad :: "il_params \<Rightarrow> accessor \<Rightarrow> expr \<Rightarrow> cstate \<Rightarrow> error + cstate"
  and accessorStore :: "il_params \<Rightarrow> accessor \<Rightarrow> expr \<Rightarrow> lazy_value \<Rightarrow> cstate \<Rightarrow> error + cstate"
  and compileStatement :: "il_params \<Rightarrow> stmt \<Rightarrow> cstate \<Rightarrow> error + cstate"
  and compileForInit :: "il_params \<Rightarrow> for_init \<Rightarrow> cstate \<Rightarrow> error + cstate"
  and compileVariableDeclaration :: "il_params \<Rightarrow> variable_declaration \<Rightarrow> cstate \<Rightarrow> error + cstate"
  and compileGeneralFunctionExpression ::
    "il_params \<Rightarrow> function_node \<Rightarrow> cstate \<Rightarrow> error + (lazy_value \<times> cstate)"
  and compileFunction :: "il_params \<Rightarrow> function_node \<Rightarrow> cstate \<Rightarrow> error + (string \<times> cstate)"
where
  "compileExpression P (BooleanLiteral v) cs =
     (if unreachable (fst cs) then Inr cs
      else addOp P Literal [LiteralOperand (BooleanValue v)] cs)"
| "compileExpression P (NumericLiteral v) cs =
     (if unreachable (fst cs) then Inr cs
      else addOp P Literal [LiteralOperand (NumberValue v)] cs)"
| "compileExpression P (StringLiteral v) cs =
     (if unreachable (fst cs) then Inr cs
      else addOp P Literal [LiteralOperand (StringValue v)] cs)"
| "compileExpression P NullLiteral cs =
     (if unreachable (fst cs) then Inr cs
      else addOp P Literal [LiteralOperand NullValue] cs)"
| "compileExpression P (Identifier n refInfo) cs =
     (if unreachable (fst cs) then Inr cs else compileIdentifier P n refInfo cs)"
| "compileExpression P (BinaryExpression operator left right) cs =
     (if unreachable (fst cs) then Inr cs
      else
        bindE (getBinOpCode operator) (\<lambda>binOpCode.
        if binOpCode = ''|'' \<and> isDivision left \<and> isZeroLiteral right then
          (case left of
             BinaryExpression _ leftLeft leftRight \<Rightarrow>
               seqE [\<lambda>cs. compileExpression P leftLeft cs,
                     \<lambda>cs. compileExpression P leftRight cs,
                     addOp P BinOp [OpOperand ''DIVIDE_AND_TRUNC'']] cs
           | _ \<Rightarrow> Inl Unexpected)
        else
          seqE [\<lambda>cs. compileExpression P left cs,
                \<lambda>cs. compileExpression P right cs,
                addOp P BinOp [OpOperand binOpCode]] cs))"
| "compileExpression P (UpdateExpression operator isPrefix argument) cs =
     (if unreachable (fst cs) then Inr cs
      else compileUpdateExpression P operator isPrefix argument cs)"
| "compileExpression P (UnaryExpression operator isPrefix argument) cs =
     (if unreachable (fst cs) then Inr cs
      else if \<not> isPrefix then Inl (CompileError ''Not supported'')
      else
        bindE (getUnOpCode operator) (\<lambda>unOpCode.
        (case (if unOpCode = ''-'' then numericLiteralValue argument else None) of
           Some v \<Rightarrow> addOp P Literal [LiteralOperand (NumberValue (negate v))] cs
         | None \<Rightarrow>
             seqE [\<lambda>cs. compileExpression P argument cs,
                   addOp P UnOp [OpOperand unOpCode]] cs)))"
| "compileExpression P (AssignmentExpression operator left right) cs =
     (if unreachable (fst cs) then Inr cs
      else if isPatternNode left then Inl (CompileError ''Syntax not supported'')
      else if operator = ''='' then
        bindE (resolveLValue P left cs) (\<lambda>a.
        bindE (compileExpression P right cs) (\<lambda>cs1.
        accessorStore P a left (valueAtTopOfStack cs1) cs1))
      else
        bindE (resolveLValue P left cs) (\<lambda>a.
        bindE (accessorLoad P a left cs) (\<lambda>cs1.
        bindE (compileExpression P right cs1) (\<lambda>cs2.
        bindE (getBinOpFromAssignmentExpression operator) (\<lambda>binOpCode.
        bindE (addOp P BinOp [OpOperand binOpCode] cs2) (\<lambda>cs3.
        accessorStore P a left (valueAtTopOfStack cs3) cs3))))))"
| "compileExpression P (LogicalExpression operator left right) cs =
     (if unreachable (fst cs) then Inr cs
      else if operator = ''&&'' \<or> operator = ''||'' then
        (case predeclareBlock (snd cs) of (rightBlock, G1) \<Rightarrow>
        (case predeclareBlock G1 of (endBlock, G2) \<Rightarrow>
           bindE (compileExpression P left (fst cs, G2)) (\<lambda>cs1.
           bindE (compileDup P cs1) (\<lambda>cs2.
           bindE (addOp P Branch
                    (if operator = ''&&''
                     then [labelOfBlock rightBlock, labelOfBlock endBlock]
                     else [labelOfBlock endBlock, labelOfBlock rightBlock]) cs2) (\<lambda>cs3.
           bindE (createBlock (fst cs3) (Some rightBlock) (snd cs3)) (\<lambda>rightCs.
           bindE (seqE [addOp P Pop [CountOperand 1],
                        \<lambda>cs. compileExpression P right cs,
                        addOp P Jump [labelOfBlock endBlock]] rightCs) (\<lambda>rightCs1.
           bindE (createBlock (fst rightCs1) (Some endBlock) (snd rightCs1)) (\<lambda>endCs.
           Inr (moveCursor (fst cs3) (fst endCs), snd endCs)))))))))
      else if operator = ''??'' then Inl NotImplemented
      else Inl Unexpected)"
| "compileExpression P (CallExpression callee arguments) cs =
     (if unreachable (fst cs) then Inr cs
      else if isSuper callee
      then Inl (CompileError ''Reserved word super invalid in this context'')
      else
        (let indexOfResult = stackDepth (fst cs)
         in bindE
              (case callee of
                 MemberExpression object property computed \<Rightarrow>
                   if \<not> computed then
                     (let indexOfObjectReference = stackDepth (fst cs)
                      in bindE (compileExpression P object cs) (\<lambda>cs1.
                         bindE (compileDup P cs1) (\<lambda>cs2.
                         (case identifierName property of
                            None \<Rightarrow> Inl Unexpected
                          | Some propertyName \<Rightarrow>
                              seqE [addOp P Literal [LiteralOperand (StringValue propertyName)],
                                    addOp P ObjectGet [],
                                    addOp P LoadVar [IndexOperand indexOfObjectReference]]
                                cs2))))
                   else
                     seqE [\<lambda>cs. compileExpression P callee cs,
                           addOp P Literal [LiteralOperand UndefinedValue]] cs
               | _ \<Rightarrow>
                   if \<not> isExpression callee then Inl Unexpected
                   else
                     seqE [\<lambda>cs. compileExpression P callee cs,
                           addOp P Literal [LiteralOperand UndefinedValue]] cs)
              (\<lambda>cs1.
                 bindE (forOf arguments
                          (\<lambda>arg cs.
                             if isSpreadElement arg then Inl (CompileError ''Unsupported syntax'')
                             else if \<not> isExpression arg then Inl Unexpected
                             else compileExpression P arg cs) cs1) (\<lambda>cs2.
                 bindE (addOp P Call [CountOperand (int (length arguments) + 1)] cs2) (\<lambda>cs3.
                 if stackDepth (fst cs3) > indexOfResult + 1 then
                   bindE (addOp P StoreVar [IndexOperand indexOfResult] cs3) (\<lambda>cs4.
                   (let remainingToPop = stackDepth (fst cs4) - (indexOfResult + 1)
                    in if remainingToPop \<noteq> 0
                       then addOp P Pop [CountOperand remainingToPop] cs4
                       else Inr cs4))
                 else Inr cs3)))))"
| "compileExpression P (MemberExpression object property computed) cs =
     (if unreachable (fst cs) then Inr cs
      else if isSuper object
      then Inl (CompileError ''Illegal use of reserved word super in this context'')
      else
        bindE (compileExpression P object cs) (\<lambda>cs1.
        if computed then
          (if isPrivateName property
           then Inl (FeatureNotSupported ''Private names not supported'')
           else seqE [\<lambda>cs. compileExpression P property cs, addOp P ObjectGet []] cs1)
        else
          (case identifierName property of
             None \<Rightarrow> Inl (CompileError ''Unexpected accessor form'')
           | Some propertyName \<Rightarrow>
               seqE [addOp P Literal [LiteralOperand (StringValue propertyName)],
                     addOp P ObjectGet []] cs1)))"
| "compileExpression P (ArrayExpression elements) cs =
     (if unreachable (fst cs) then Inr cs
      else
        (let indexOfArrayInstance = stackDepth (fst cs)
         in bindE (addOp P ArrayNew [] cs) (\<lambda>cs1.
            bindE (forEntries elements
                     (\<lambda>i element (endsInElision, cs).
                        (case element of
                           None \<Rightarrow> Inr (True, cs)
                         | Some e \<Rightarrow>
                             if isSpreadElement e
                             then Inl (CompileError ''Spread syntax not supported'')
                             else
                               bindE (seqE
                                        [addOp P LoadVar [IndexOperand indexOfArrayInstance],
                                         addOp P Literal
                                           [LiteralOperand (NumberValue (Num (of_nat i)))],
                                         \<lambda>cs. compileExpression P e cs,
                                         addOp P ObjectSet []] cs) (\<lambda>cs'.
                               Inr (False, cs'))))
                     (False, setStaticInfo (length elements) cs1)) (\<lambda>(endsInElision, cs2).
            if endsInElision then
              seqE [addOp P LoadVar [IndexOperand indexOfArrayInstance],
                    addOp P Literal [LiteralOperand (StringValue ''length'')],
                    addOp P Literal
                      [LiteralOperand (NumberValue (Num (of_nat (length elements))))],
                    addOp P ObjectSet []] cs2
            else Inr cs2))))"
| "compileExpression P (ObjectExpression properties) cs =
     (if unreachable (fst cs) then Inr cs
      else
        bindE (addOp P ObjectNew [] cs) (\<lambda>cs1.
        (let objectVariableIndex = stackDepth (fst cs1) - 1
         in forOf properties
              (\<lambda>property cs.
                 (case property of
                    SpreadProperty \<Rightarrow> Inl (CompileError ''Spread syntax not supported'')
                  | ObjectMethod \<Rightarrow> Inl (CompileError ''Object methods are not supported'')
                  | ObjectProperty key computed v \<Rightarrow>
                      (case (if computed then None else identifierName key) of
                         None \<Rightarrow>
                           Inl (CompileError ''Object properties must be simple identifiers'')
                       | Some keyName \<Rightarrow>
                           bindE (seqE [addOp P LoadVar [IndexOperand objectVariableIndex],
                                        addOp P Literal [LiteralOperand (StringValue keyName)]]
                                    cs) (\<lambda>cs'.
                           if \<not> isExpression v then Inl Unexpected
                           else seqE [\<lambda>cs. compileExpression P v cs,
                                      addOp P ObjectSet []] cs'))))
              cs1)))"
| "compileExpression P (ConditionalExpression test consequent alternate) cs =
     (if unreachable (fst cs) then Inr cs
      else
        (case predeclareBlock (snd cs) of (consequentBlock, G1) \<Rightarrow>
        (case predeclareBlock G1 of (alternateBlock, G2) \<Rightarrow>
        (case predeclareBlock G2 of (afterBlock, G3) \<Rightarrow>
           bindE (compileExpression P test (fst cs, G3)) (\<lambda>cs1.
           bindE (addOp P Branch [labelOfBlock consequentBlock, labelOfBlock alternateBlock]
                    cs1) (\<lambda>cs2.
           bindE (createBlock (fst cs2) (Some consequentBlock) (snd cs2)) (\<lambda>consequentCs.
           bindE (seqE [\<lambda>cs. compileExpression P consequent cs,
                        addOp P Jump [labelOfBlock afterBlock]] consequentCs) (\<lambda>consequentCs1.
           bindE (createBlock (fst cs2) (Some alternateBlock) (snd consequentCs1))
             (\<lambda>alternateCs.
           bindE (seqE [\<lambda>cs. compileExpression P alternate cs,
                        addOp P Jump [labelOfBlock afterBlock]] alternateCs) (\<lambda>alternateCs1.
           bindE (createBlock (fst alternateCs1) (Some afterBlock) (snd alternateCs1))
             (\<lambda>afterCs.
           Inr (moveCursor (fst cs2) (fst afterCs), snd afterCs))))))))))))"
| "compileExpression P ThisExpression cs =
     (if unreachable (fst cs) then Inr cs else compileThisExpression P cs)"
| "compileExpression P (ArrowFunctionExpression f) cs =
     (if unreachable (fst cs) then Inr cs
      else bindE (compileGeneralFunctionExpression P f cs) (\<lambda>(_, cs1). Inr cs1))"
| "compileExpression P (TemplateLiteral quasis expressions) cs =
     (if unreachable (fst cs) then Inr cs
      else if None \<in> set quasis then Inl Unexpected
      else
        (let strings = map the quasis
         in if length strings \<noteq> length expressions + 1 then Inl Unexpected
            else
              (case strings of
                 [] \<Rightarrow> Inl Unexpected
               | firstString # _ \<Rightarrow>
                   bindE (addOp P Literal [LiteralOperand (StringValue firstString)] cs)
                     (\<lambda>cs1.
                   forEntries expressions
                     (\<lambda>i expression cs.
                        if isTSType expression
                        then Inl (FeatureNotSupported ''Expected expression'')
                        else
                          bindE (seqE [\<lambda>cs. compileExpression P expression cs,
                                       addOp P BinOp [OpOperand ''+'']] cs) (\<lambda>cs'.
                          (case nthOpt strings (i + 1) of
                             None \<Rightarrow> Inr cs'
                           | Some s \<Rightarrow>
                               if s \<noteq> [] then
                                 seqE [addOp P Literal [LiteralOperand (StringValue s)],
                                       addOp P BinOp [OpOperand ''+'']] cs'
                               else Inr cs')))
                     cs1))))"
| "compileExpression P (SpreadElement e) cs =
     (if unreachable (fst cs) then Inr cs else Inl (CompileError ''Not supported''))"
| "compileExpression P Super cs =
     (if unreachable (fst cs) then Inr cs else Inl (CompileError ''Not supported''))"
| "compileExpression P (PrivateName n) cs =
     (if unreachable (fst cs) then Inr cs else Inl (CompileError ''Not supported''))"
| "compileExpression P (TSType t) cs =
     (if unreachable (fst cs) then Inr cs else Inl (CompileError ''Not supported''))"
| "compileExpression P (PatternNode t) cs =
     (if unreachable (fst cs) then Inr cs else Inl (CompileError ''Not supported''))"
| "compileExpression P (UnsupportedExpression t) cs =
     (if unreachable (fst cs) then Inr cs else Inl (CompileError ''Not supported''))"

| "accessorLoad P a lVal cs =
     (case a of
        VariableAccessor va \<Rightarrow> variableLoad P va cs
      | ObjectMemberAccessor \<Rightarrow>
          (case lVal of
             MemberExpression object property computed \<Rightarrow>
               seqE [\<lambda>cs. compileExpression P object cs,
                     \<lambda>cs. if computed then compileExpression P property cs
                          else (case identifierName property of
                                  None \<Rightarrow> Inl Unexpected
                                | Some propName \<Rightarrow>
                                    addOp P Literal [LiteralOperand (StringValue propName)] cs),
                     addOp P ObjectGet []] cs
           | _ \<Rightarrow> Inl Unexpected))"
| "accessorStore P a lVal v cs =
     (case a of
        VariableAccessor va \<Rightarrow> variableStore P va v cs
      | ObjectMemberAccessor \<Rightarrow>
          (case lVal of
             MemberExpression object property computed \<Rightarrow>
               seqE [\<lambda>cs. compileExpression P object cs,
                     \<lambda>cs. if computed then compileExpression P property cs
                          else (case identifierName property of
                                  None \<Rightarrow> Inl Unexpected
                                | Some propName \<Rightarrow>
                                    addOp P Literal [LiteralOperand (StringValue propName)] cs),
                     loadValue P v,
                     addOp P ObjectSet []] cs
           | _ \<Rightarrow> Inl Unexpected))"

| "compileStatement P (IfStatement test consequent alternate) cs =
     (if unreachable (fst cs) then Inr cs
      else
        (case alternate of
           Some alternateStatement \<Rightarrow>
             (case predeclareBlock (snd cs) of (consequentBlock, G1) \<Rightarrow>
             (case predeclareBlock G1 of (alternateBlock, G2) \<Rightarrow>
             (case predeclareBlock G2 of (afterBlock, G3) \<Rightarrow>
                bindE (compileExpression P test (fst cs, G3)) (\<lambda>cs1.
                bindE (addOp P Branch
                         [labelOfBlock consequentBlock, labelOfBlock alternateBlock] cs1)
                  (\<lambda>cs2.
                bindE (createBlock (fst cs2) (Some consequentBlock) (snd cs2))
                  (\<lambda>consequentCs.
                bindE (seqE [\<lambda>cs. compileStatement P consequent cs,
                             addOp P Jump [labelOfBlock afterBlock]] consequentCs)
                  (\<lambda>consequentCs1.
                bindE (createBlock (fst cs2) (Some alternateBlock) (snd consequentCs1))
                  (\<lambda>alternateCs.
                bindE (seqE [\<lambda>cs. compileStatement P alternateStatement cs,
                             addOp P Jump [labelOfBlock afterBlock]] alternateCs)
                  (\<lambda>alternateCs1.
                bindE (createBlock (fst consequentCs1) (Some afterBlock) (snd alternateCs1))
                  (\<lambda>afterCs.
                Inr (moveCursor (fst cs2) (fst afterCs), snd afterCs)))))))))))
         | None \<Rightarrow>
             (case predeclareBlock (snd cs) of (consequentBlock, G1) \<Rightarrow>
             (case predeclareBlock G1 of (afterBlock, G2) \<Rightarrow>
                bindE (compileExpression P test (fst cs, G2)) (\<lambda>cs1.
                bindE (addOp P Branch
                         [labelOfBlock consequentBlock, labelOfBlock afterBlock] cs1)
                  (\<lambda>cs2.
                bindE (createBlock (fst cs2) (Some consequentBlock) (snd cs2))
                  (\<lambda>consequentCs.
                bindE (seqE [\<lambda>cs. compileStatement P consequent cs,
                             addOp P Jump [labelOfBlock afterBlock]] consequentCs)
                  (\<lambda>consequentCs1.
                bindE (createBlock (fst cs2) (Some afterBlock) (snd consequentCs1))
                  (\<lambda>afterCs.
                Inr (moveCursor (fst cs2) (fst afterCs), snd afterCs))))))))))"
| "compileStatement P (BlockStatement body) cs =
     (if unreachable (fst cs) then Inr cs
      else
        (case startScope cs of (h, cs1) \<Rightarrow>
           bindE (forOf body
                    (\<lambda>s cs. if unreachable (fst cs) then Inr cs
                            else compileStatement P s cs) cs1) (\<lambda>cs2.
           endScope P h cs2)))"
| "compileStatement P (ExpressionStatement expression) cs =
     (if unreachable (fst cs) then Inr cs
      else
        bindE (compileNopSpecialForm P expression cs) (\<lambda>nop.
        (case nop of
           Some cs1 \<Rightarrow> Inr cs1
         | None \<Rightarrow>
             seqE [\<lambda>cs. compileExpression P expression cs,
                   addOp P Pop [CountOperand 1]] cs)))"
| "compileStatement P (WhileStatement test body) cs =
     (if unreachable (fst cs) then Inr cs
      else
        (case predeclareBlock (snd cs) of (exitBlock, G1) \<Rightarrow>
        (case predeclareBlock G1 of (testBlock, G2) \<Rightarrow>
        (case predeclareBlock G2 of (bodyBlock, G3) \<Rightarrow>
           bindE (addOp P Jump [labelOfBlock testBlock]
                    (pushBreakScope (WhileStatement test body) exitBlock (fst cs, G3)))
             (\<lambda>cs1.
           bindE (createBlock (fst cs1) (Some testBlock) (snd cs1)) (\<lambda>testCs.
           bindE (seqE [\<lambda>cs. compileExpression P test cs,
                        addOp P Branch [labelOfBlock bodyBlock, labelOfBlock exitBlock]]
                    testCs) (\<lambda>testCs1.
           bindE (createBlock (fst cs1) (Some bodyBlock) (snd testCs1)) (\<lambda>bodyCs.
           bindE (seqE [\<lambda>cs. compileStatement P body cs,
                        addOp P Jump [labelOfBlock testBlock]] bodyCs) (\<lambda>bodyCs1.
           bindE (createBlock (fst cs1) (Some exitBlock) (snd bodyCs1)) (\<lambda>exitCs.
           popBreakScope (WhileStatement test body)
             (moveCursor (fst cs1) (fst exitCs), snd exitCs)))))))))))"
| "compileStatement P (DoWhileStatement body test) cs =
     (if unreachable (fst cs) then Inr cs
      else
        (case predeclareBlock (snd cs) of (afterBlock, G1) \<Rightarrow>
        (case predeclareBlock G1 of (bodyBlock, G2) \<Rightarrow>
           bindE (addOp P Jump [labelOfBlock bodyBlock]
                    (pushBreakScope (DoWhileStatement body test) afterBlock (fst cs, G2)))
             (\<lambda>cs1.
           bindE (createBlock (fst cs1) (Some bodyBlock) (snd cs1)) (\<lambda>bodyCs.
           bindE (seqE [\<lambda>cs. compileStatement P body cs,
                        \<lambda>cs. compileExpression P test cs,
                        addOp P Branch [labelOfBlock bodyBlock, labelOfBlock afterBlock]]
                    bodyCs) (\<lambda>bodyCs1.
           bindE (createBlock (fst bodyCs1) (Some afterBlock) (snd bodyCs1)) (\<lambda>afterCs.
           popBreakScope (DoWhileStatement body test)
             (moveCursor (fst cs1) (fst afterCs), snd afterCs))))))))"
| "compileStatement P (VariableDeclaration decl) cs =
     (if unreachable (fst cs) then Inr cs else compileVariableDeclaration P decl cs)"
| "compileStatement P (ForStatement init test update body) cs =
     (if unreachable (fst cs) then Inr cs
      else
        (case predeclareBlock (snd cs) of (loopBlock, G1) \<Rightarrow>
        (case predeclareBlock G1 of (terminateBlock, G2) \<Rightarrow>
        (case predeclareBlock G2 of (bodyBlock, G3) \<Rightarrow>
        (case startScope (fst cs, G3) of (h, cs0) \<Rightarrow>
        (case init of
           None \<Rightarrow> Inl Unexpected
         | Some forInit \<Rightarrow>
             bindE (compileForInit P forInit cs0) (\<lambda>cs1.
             bindE (addOp P Jump [labelOfBlock loopBlock]
                      (pushBreakScope (ForStatement init test update body) terminateBlock cs1))
               (\<lambda>cs2.
             bindE (createBlock (fst cs2) (Some loopBlock) (snd cs2)) (\<lambda>loopCs.
             (case test of
                None \<Rightarrow> Inl Unexpected
              | Some testExpression \<Rightarrow>
                  bindE (seqE [\<lambda>cs. compileExpression P testExpression cs,
                               addOp P Branch
                                 [labelOfBlock bodyBlock, labelOfBlock terminateBlock]]
                           loopCs) (\<lambda>loopCs1.
                  bindE (createBlock (fst loopCs1) (Some bodyBlock) (snd loopCs1))
                    (\<lambda>bodyCs.
                  bindE (compileStatement P body bodyCs) (\<lambda>bodyCs1.
                  (case update of
                     None \<Rightarrow> Inl Unexpected
                   | Some updateExpression \<Rightarrow>
                       bindE (seqE [\<lambda>cs. compileExpression P updateExpression cs,
                                    addOp P Pop [CountOperand 1],
                                    addOp P Jump [labelOfBlock loopBlock]] bodyCs1)
                         (\<lambda>bodyCs2.
                       bindE (createBlock (fst bodyCs2) (Some terminateBlock) (snd bodyCs2))
                         (\<lambda>terminateCs.
                       bindE (popBreakScope (ForStatement init test update body)
                                (moveCursor (fst cs2) (fst terminateCs), snd terminateCs))
                         (\<lambda>cs3.
                       endScope P h cs3)))))))))))))))))"
| "compileStatement P (ReturnStatement argument) cs =
     (if unreachable (fst cs) then Inr cs
      else
        bindE (case argument of
                 Some e \<Rightarrow> compileExpression P e cs
               | None \<Rightarrow> addOp P Literal [LiteralOperand UndefinedValue] cs) (\<lambda>cs1.
        bindE (addOp P Return [] cs1) (\<lambda>(cur, G).
        Inr (cur\<lparr>unreachable := True\<rparr>, G))))"
| "compileStatement P (SwitchStatement discriminant cases) cs =
     (if unreachable (fst cs) then Inr cs
      else
        (case predeclareBlocks (length cases) (snd cs) of (testBlocks, G1) \<Rightarrow>
        (case predeclareBlocks (length cases) G1 of (consequentBlocks, G2) \<Rightarrow>
        (case predeclareBlock G2 of (breakBlock, G3) \<Rightarrow>
           bindE (compileExpression P discriminant (fst cs, G3)) (\<lambda>cs1.
           bindE (addOp P Jump
                    [labelOfBlock (case testBlocks of [] \<Rightarrow> breakBlock | t # _ \<Rightarrow> t)]
                    (pushBreakScope (SwitchStatement discriminant cases) breakBlock cs1))
             (\<lambda>(cur, G4).
           bindE (forOf cases
                    (\<lambda>switchCase (testBlockNum, consequentIndex, generateDefaultCase, G).
                       (case switchCase of SwitchCase test consequent \<Rightarrow>
                          (case test of
                             Some testExpression \<Rightarrow>
                               bindE (createBlock cur (nthOpt testBlocks testBlockNum) G)
                                 (\<lambda>thisTestCs.
                               bindE (compileDup P thisTestCs) (\<lambda>thisTestCs1.
                               bindE (compileExpression P testExpression thisTestCs1)
                                 (\<lambda>thisTestCs2.
                               bindE (addOp P BinOp [OpOperand ''==='']  thisTestCs2)
                                 (\<lambda>thisTestCs3.
                               (case nthOpt consequentBlocks consequentIndex of
                                  None \<Rightarrow> Inl TypeError
                                | Some consequentBlock \<Rightarrow>
                                    bindE (addOp P Branch
                                             [labelOfBlock consequentBlock,
                                              labelOfBlock
                                                (case nthOpt testBlocks (testBlockNum + 1) of
                                                   None \<Rightarrow> breakBlock
                                                 | Some nextTestBlock \<Rightarrow> nextTestBlock)]
                                             thisTestCs3) (\<lambda>thisTestCs4.
                                    Inr (testBlockNum + 1, consequentIndex + 1,
                                         generateDefaultCase, snd thisTestCs4)))))))
                           | None \<Rightarrow>
                               if generateDefaultCase \<noteq> None
                               then Inl (CompileError
                                           ''Duplicate `default` block in switch statement'')
                               else Inr (testBlockNum, consequentIndex + 1,
                                         Some (nthOpt consequentBlocks consequentIndex), G))))
                    (0, 0, None, G4))
             (\<lambda>(testBlockNum, consequentIndex, generateDefaultCase, G5).
           bindE (case generateDefaultCase of
                    None \<Rightarrow> Inr G5
                  | Some consequentBlock \<Rightarrow>
                      bindE (createBlock cur (nthOpt testBlocks (length testBlocks - 1)) G5)
                        (\<lambda>thisTestCs.
                      (case consequentBlock of
                         None \<Rightarrow> Inl TypeError
                       | Some b \<Rightarrow>
                           bindE (addOp P Jump [labelOfBlock b] thisTestCs) (\<lambda>thisTestCs1.
                           Inr (snd thisTestCs1))))) (\<lambda>G6.
           bindE (forEntries cases
                    (\<lambda>consequentIndex switchCase G.
                       (case switchCase of SwitchCase test consequent \<Rightarrow>
                          bindE (createBlock cur (nthOpt consequentBlocks consequentIndex) G)
                            (\<lambda>consequentBlockCs.
                          bindE (forOf consequent (\<lambda>s cs. compileStatement P s cs)
                                   consequentBlockCs) (\<lambda>consequentBlockCs1.
                          bindE (addOp P Jump
                                   [labelOfBlock
                                      (case nthOpt consequentBlocks (consequentIndex + 1) of
                                         None \<Rightarrow> breakBlock
                                       | Some nextConsequentBlock \<Rightarrow> nextConsequentBlock)]
                                   consequentBlockCs1) (\<lambda>consequentBlockCs2.
                          Inr (snd consequentBlockCs2))))))
                    G6) (\<lambda>G7.
           bindE (createBlock cur (Some breakBlock) G7) (\<lambda>breakBlockCs.
           bindE (addOp P Pop [CountOperand 1] breakBlockCs) (\<lambda>breakBlockCs1.
           popBreakScope (SwitchStatement discriminant cases)
             (moveCursor cur (fst breakBlockCs1), snd breakBlockCs1))))))))))))"
| "compileStatement P (BreakStatement label) cs =
     (if unreachable (fst cs) then Inr cs else compileBreakStatement P label cs)"
| "compileStatement P (FunctionDeclaration f) cs = Inr cs"
| "compileStatement P ExportNamedDeclaration cs =
     (if unreachable (fst cs) then Inr cs else Inl NotImplemented)"
| "compileStatement P (UnsupportedStatement t) cs =
     (if unreachable (fst cs) then Inr cs else Inl (CompileError ''Not supported''))"

| "compileForInit P (ForInitDeclaration decl) cs = compileVariableDeclaration P decl cs"
| "compileForInit P (ForInitExpression e) cs =
     seqE [\<lambda>cs. compileExpression P e cs, addOp P Pop [CountOperand 1]] cs"

| "compileVariableDeclaration P (VariableDeclarationNode kind declarations) cs =
     (let declarationScope = scope (fst cs)
      in forOf declarations
           (\<lambda>d cs.
              (case d of VariableDeclarator ident init info \<Rightarrow>
                 if (case info of None \<Rightarrow> False | Some i \<Rightarrow> closureAllocated i) then
                   bindE (case init of
                            Some e \<Rightarrow> compileExpression P e cs
                          | None \<Rightarrow> addOp P Literal [LiteralOperand UndefinedValue] cs)
                     (\<lambda>cs1.
                   (case (case info of None \<Rightarrow> None | Some i \<Rightarrow> slotIndex i) of
                      None \<Rightarrow> Inl Unexpected
                    | Some i \<Rightarrow> addOp P StoreScoped [IndexOperand i] cs1))
                 else
                   (case identifierName ident of
                      None \<Rightarrow>
                        Inl (CompileError ''Only simple variable declarations are supported.'')
                    | Some variableName \<Rightarrow>
                        (let variableIndex' = stackDepth (fst cs)
                         in bindE (case init of
                                     Some e \<Rightarrow> compileExpression P e cs
                                   | None \<Rightarrow>
                                       addOp P Literal [LiteralOperand UndefinedValue] cs)
                              (\<lambda>cs1.
                            if \<not> isNameString P variableName
                            then Inl (CompileError ''Invalid variable identifier'')
                            else declareLocalVariable declarationScope variableName
                                   \<lparr>variableIndex = variableIndex',
                                    variableReadonly = (kind = ''const'')\<rparr>
                                   ''Duplicate variable declaration'' cs1)))))
           cs)"

| "compileGeneralFunctionExpression P f cs =
     (case f of FunctionNode ftype ident params body generator info nested \<Rightarrow>
        (case info of
           None \<Rightarrow> Inl Unexpected
         | Some functionScopeInfo \<Rightarrow>
             bindE (compileFunction P f cs) (\<lambda>(functionId', cs1).
             Inr (FunctionValueOf functionId' (functionIsClosure functionScopeInfo), cs1))))"

| "compileFunction P (FunctionNode ftype ident params body generator info nested) cs =
     (case cs of (cur, G) \<Rightarrow>
        (let idHint = (case (ftype, ident) of
                         (FunctionDeclarationT, Some (n, _)) \<Rightarrow> n
                       | _ \<Rightarrow> ''anon'')
         in if \<not> isNameString P idHint
            then Inl (CompileError ''Invalid function identifier'')
            else
              (let functionId' = uniqueName P idHint (map fst (unitFunctions G))
               in if generator then Inl (FeatureNotSupported ''Generators not supported.'')
                  else
                    (let entryBlock = nextObject G;
                         funcIL = Suc (nextObject G);
                         bodyCur = \<lparr>breakScope = [], func = Some funcIL,
                                    block = Some entryBlock, stackDepth = 0,
                                    unreachable = False, scope = None\<rparr>;
                         G1 = G\<lparr>nextObject := nextObject G + 2,
                                 blockObjects := (blockObjects G)(entryBlock \<mapsto>
                                   \<lparr>blockId = EntryBlockID, expectedStackDepthAtEntry = 0,
                                    operations = []\<rparr>),
                                 functionObjects := (functionObjects G)(funcIL \<mapsto>
                                   \<lparr>functionId = functionId', entryBlockID = EntryBlockID,
                                    maxStackDepth = 0,
                                    blocks = [(EntryBlockID, entryBlock)]\<rparr>),
                                 unitFunctions := dictSet functionId' funcIL (unitFunctions G)\<rparr>
                     in (case info of
                           None \<Rightarrow> Inl Unexpected
                         | Some scopeInfo \<Rightarrow>
                             if scopeKind scopeInfo \<noteq> ''function'' then Inl AssertionFailed
                             else
                               bindE (if allocateClosureScope scopeInfo then
                                        (case closureVariableCount scopeInfo of
                                           None \<Rightarrow> Inl Unexpected
                                         | Some slotCount \<Rightarrow>
                                             addOp P ScopePushOp [CountOperand slotCount]
                                               (bodyCur, G1))
                                      else Inr (bodyCur, G1)) (\<lambda>bodyCs.
                               bindE (forEntries params
                                        (\<lambda>i param cs. compileParam P param (i + 1) cs) bodyCs)
                                 (\<lambda>bodyCs1.
                               bindE (forOf nested
                                        (\<lambda>nestedFunc (parentCur, bodyCs).
                                           bindE (compileGeneralFunctionExpression P nestedFunc
                                                    bodyCs) (\<lambda>(functionValue, bodyCs').
                                           (case nestedFunc of
                                              FunctionNode _ nestedIdent _ _ _ _ _ \<Rightarrow>
                                                (case nestedIdent of
                                                   None \<Rightarrow>
                                                     Inl (CompileError
                                                       ''Expected function to have an identifier'')
                                                 | Some (n, refInfo) \<Rightarrow>
                                                     bindE (accessVariable n refInfo) (\<lambda>a.
                                                     bindE (variableStore P a functionValue
                                                              (parentCur, snd bodyCs'))
                                                       (\<lambda>(parentCur', G').
                                                     Inr (parentCur', (fst bodyCs', G'))))))))
                                        (cur, bodyCs1)) (\<lambda>(parentCur, bodyCs2).
                               bindE (case body of
                                        StatementBody s \<Rightarrow>
                                          if isBlockStatement s then
                                            seqE [\<lambda>cs. compileStatement P s cs,
                                                  addOp P Literal
                                                    [LiteralOperand UndefinedValue],
                                                  addOp P Return []] bodyCs2
                                          else Inl (CompileError ''Not supported'')
                                      | ExpressionBody e \<Rightarrow>
                                          seqE [\<lambda>cs. compileExpression P e cs,
                                                addOp P Return []] bodyCs2) (\<lambda>(_, G2).
                               Inr (functionId',
                                    (parentCur, computeMaximumStackDepth funcIL G2)))))))))))"
  by pat_completeness auto

termination
  apply (relation "measure (\<lambda>x. case x of
      Inl (Inl (Inl (P, e, cs))) \<Rightarrow> 2 * size e
    | Inl (Inl (Inr (P, a, lVal, cs))) \<Rightarrow> 2 * size lVal
    | Inl (Inr (Inl (P, a, lVal, v, cs))) \<Rightarrow> 2 * size lVal
    | Inl (Inr (Inr (P, s, cs))) \<Rightarrow> 2 * size s
    | Inr (Inl (Inl (P, i, cs))) \<Rightarrow> 2 * size i
    | Inr (Inl (Inr (P, d, cs))) \<Rightarrow> 2 * size d
    | Inr (Inr (Inl (P, f, cs))) \<Rightarrow> 2 * size f + 1
    | Inr (Inr (Inr (P, f, cs))) \<Rightarrow> 2 * size f)")
  apply simp_all
  subgoal by (drule size_mem_le [where f = size], linarith)
  subgoal by (drule size_mem_Some_le [where f = size], linarith)
  subgoal by (drule size_mem_ObjectProperty, linarith)
  subgoal by (drule size_mem_le [where f = size], linarith)
  subgoal by (drule size_mem_le [where f = size], linarith)
  subgoal by (drule size_mem_SwitchCase_test, linarith)
  subgoal by (drule (1) size_mem_SwitchCase_consequent, linarith)
  subgoal by (drule size_mem_VariableDeclarator, linarith)
  subgoal by (drule size_mem_VariableDeclarator, linarith)
  subgoal by (drule size_mem_le [where f = size], linarith)
  done

subsection \<open>An opcode table and a function under construction\<close>

text \<open>
  The examples run the compiler on an opcode table with the operand types of the
  operations and these stack effects: \<open>ArrayNew\<close>, \<open>ObjectNew\<close>, \<open>Literal\<close> and the loads
  push one value; \<open>BinOp\<close>, \<open>Branch\<close>, \<open>ObjectGet\<close>, \<open>Return\<close> and the stores pop one;
  \<open>ObjectSet\<close> pops three; \<open>Pop n\<close> and \<open>Call n\<close> pop \<open>n\<close> (a call pops its \<open>n\<close>
  arguments and the function and pushes the result); \<open>Jump\<close>, \<open>Nop\<close>, \<open>UnOp\<close> and
  \<open>ScopePush\<close> leave the depth as it is. Names are taken as they are, and a local
  variable is reached by its stack index.
\<close>

definition exampleParams :: il_params where
  "exampleParams =
     \<lparr>opcodes = (\<lambda>oc. case oc of
          ArrayNew \<Rightarrow> [] | BinOp \<Rightarrow> [''OpOperand'']
        | Branch \<Rightarrow> [''LabelOperand'', ''LabelOperand''] | Call \<Rightarrow> [''CountOperand'']
        | ClosureNew \<Rightarrow> [''CountOperand''] | Jump \<Rightarrow> [''LabelOperand'']
        | Literal \<Rightarrow> [''LiteralOperand''] | LoadArg \<Rightarrow> [''IndexOperand'']
        | LoadGlobal \<Rightarrow> [''NameOperand''] | LoadScoped \<Rightarrow> [''IndexOperand'']
        | LoadVar \<Rightarrow> [''IndexOperand''] | Nop \<Rightarrow> [''CountOperand'']
        | ObjectGet \<Rightarrow> [] | ObjectNew \<Rightarrow> [] | ObjectSet \<Rightarrow> []
        | Pop \<Rightarrow> [''CountOperand''] | Return \<Rightarrow> []
        | ScopePushOp \<Rightarrow> [''CountOperand''] | StoreGlobal \<Rightarrow> [''NameOperand'']
        | StoreScoped \<Rightarrow> [''IndexOperand''] | StoreVar \<Rightarrow> [''IndexOperand'']
        | UnOp \<Rightarrow> [''OpOperand'']),
      minOperandCount = (\<lambda>oc. case oc of
          ArrayNew \<Rightarrow> 0 | ObjectGet \<Rightarrow> 0 | ObjectNew \<Rightarrow> 0 | ObjectSet \<Rightarrow> 0 | Return \<Rightarrow> 0
        | Branch \<Rightarrow> 2 | _ \<Rightarrow> 1),
      calcStaticStackChangeOfOp = (\<lambda>oc ops. case oc of
          ArrayNew \<Rightarrow> 1 | BinOp \<Rightarrow> - 1 | Branch \<Rightarrow> - 1
        | Call \<Rightarrow> (case ops of [CountOperand n] \<Rightarrow> - n | _ \<Rightarrow> 0)
        | ClosureNew \<Rightarrow> (case ops of [CountOperand n] \<Rightarrow> 1 - n | _ \<Rightarrow> 0)
        | Jump \<Rightarrow> 0 | Literal \<Rightarrow> 1 | LoadArg \<Rightarrow> 1 | LoadGlobal \<Rightarrow> 1 | LoadScoped \<Rightarrow> 1
        | LoadVar \<Rightarrow> 1 | Nop \<Rightarrow> 0 | ObjectGet \<Rightarrow> - 1 | ObjectNew \<Rightarrow> 1 | ObjectSet \<Rightarrow> - 3
        | Pop \<Rightarrow> (case ops of [CountOperand n] \<Rightarrow> - n | _ \<Rightarrow> 0)
        | Return \<Rightarrow> - 1 | ScopePushOp \<Rightarrow> 0 | StoreGlobal \<Rightarrow> - 1 | StoreScoped \<Rightarrow> - 1
        | StoreVar \<Rightarrow> - 1 | UnOp \<Rightarrow> 0),
      MAX_INDEX = 0x3FFF,
      MAX_COUNT = 0x3FFF,
      uniqueName = (\<lambda>n used. n),
      isNameString = (\<lambda>n. n \<noteq> []),
      isUInt16 = (\<lambda>n. case n of Num r \<Rightarrow> 0 \<le> r \<and> r \<le> 65535 | _ \<Rightarrow> False),
      getLocalVariableAccessor =
        (\<lambda>v. StackVariableAccessor (variableIndex v) (variableReadonly v))\<rparr>"

text \<open>
  The store and the cursor of \<open>compileScript\<close> before the first function, and the ones
  with which \<open>compileFunction\<close> starts on the body of a function \<open>f\<close> from there: the
  entry block is object 0 and the IL function is object 1.
\<close>

definition emptyStore :: compiler_state where
  "emptyStore =
     \<lparr>nextBlockID = 1, unitFunctions = [], predeclaredBlocks = [], nextObject = 0,
      blockObjects = (\<lambda>_. None), functionObjects = (\<lambda>_. None),
      scopeObjects = (\<lambda>_. None)\<rparr>"

definition callerCursor :: cursor where
  "callerCursor =
     \<lparr>breakScope = [], func = None, block = None, stackDepth = 0, unreachable = False,
      scope = None\<rparr>"

definition bodyStore :: compiler_state where
  "bodyStore =
     \<lparr>nextBlockID = 1, unitFunctions = [(''f'', 1)], predeclaredBlocks = [], nextObject = 2,
      blockObjects = (\<lambda>_. None)(0 \<mapsto>
        \<lparr>blockId = EntryBlockID, expectedStackDepthAtEntry = 0, operations = []\<rparr>),
      functionObjects = (\<lambda>_. None)(1 \<mapsto>
        \<lparr>functionId = ''f'', entryBlockID = EntryBlockID, maxStackDepth = 0,
         blocks = [(EntryBlockID, 0)]\<rparr>),
      scopeObjects = (\<lambda>_. None)\<rparr>"

definition bodyCursor :: cursor where
  "bodyCursor =
     \<lparr>breakScope = [], func = Some 1, block = Some 0, stackDepth = 0, unreachable = False,
      scope = None\<rparr>"

text \<open>The operations of a block of the store, as opcode and operands.\<close>

definition emitted :: "compiler_state \<Rightarrow> nat \<Rightarrow> (opcode \<times> operand list) list" where
  "emitted G b =
     (case blockObjects G b of
        None \<Rightarrow> []
      | Some blk \<Rightarrow> map (\<lambda>operation. (opcode operation, operands operation)) (operations blk))"

subsection \<open>The code of an array literal, by its elements\<close>

text \<open>
  What an array literal compiles to, written from the elements instead of the loop:
  a step is an operation to emit, an expression to compile, or a compile error. An
  elision contributes no step. An element contributes the load of the array, its index,
  its code and an \<open>ObjectSet\<close>. A literal that ends in an elision gets four more steps,
  which set \<open>length\<close> to the number of elements with a second \<open>ObjectSet\<close>.
\<close>

datatype emit_step = Emit opcode "operand list" | Code expr | Raise error

fun runStep :: "il_params \<Rightarrow> emit_step \<Rightarrow> cstate \<Rightarrow> error + cstate" where
  "runStep P (Emit oc ops) cs = addOp P oc ops cs"
| "runStep P (Code e) cs = compileExpression P e cs"
| "runStep P (Raise err) cs = Inl err"

definition runSteps :: "il_params \<Rightarrow> emit_step list \<Rightarrow> cstate \<Rightarrow> error + cstate" where
  "runSteps P steps cs = forOf steps (runStep P) cs"

definition endsInElision :: "expr option list \<Rightarrow> bool" where
  "endsInElision elements \<longleftrightarrow> elements \<noteq> [] \<and> last elements = None"

fun elementSteps :: "int \<Rightarrow> nat \<Rightarrow> expr option \<Rightarrow> emit_step list" where
  "elementSteps a i None = []"
| "elementSteps a i (Some e) =
     (if isSpreadElement e then [Raise (CompileError ''Spread syntax not supported'')]
      else [Emit LoadVar [IndexOperand a],
            Emit Literal [LiteralOperand (NumberValue (Num (of_nat i)))],
            Code e,
            Emit ObjectSet []])"

definition lengthSteps :: "int \<Rightarrow> nat \<Rightarrow> emit_step list" where
  "lengthSteps a n =
     [Emit LoadVar [IndexOperand a],
      Emit Literal [LiteralOperand (StringValue ''length'')],
      Emit Literal [LiteralOperand (NumberValue (Num (of_nat n)))],
      Emit ObjectSet []]"

definition arrayLiteralSteps :: "int \<Rightarrow> expr option list \<Rightarrow> emit_step list" where
  "arrayLiteralSteps a elements =
     concat (map (\<lambda>(i, element). elementSteps a i element) (enumerate 0 elements))
     @ (if endsInElision elements then lengthSteps a (length elements) else [])"

text \<open>The literal \<open>[1, , 2, ,]\<close>, which has four elements and ends in an elision.\<close>

definition arrayWithElisions :: "expr option list" where
  "arrayWithElisions =
     [Some (NumericLiteral (Num 1)), None, Some (NumericLiteral (Num 2)), None]"

subsection \<open>A function whose branches leave different stack depths\<close>

text \<open>
  The function \<open>function f() { if (true) var x = 1; else {} }\<close>. The declaration of
  \<open>x\<close> is the consequent of the \<open>if\<close> itself, so the variable is declared in the scope
  of the body of \<open>f\<close> and its slot is pushed on one branch only.
\<close>

definition exampleFunctionInfo :: function_info where
  "exampleFunctionInfo =
     \<lparr>scopeKind = ''function'', allocateClosureScope = False, closureVariableCount = None,
      functionIsClosure = False\<rparr>"

definition ifVarFunction :: function_node where
  "ifVarFunction =
     FunctionNode FunctionDeclarationT (Some (''f'', None)) []
       (StatementBody (BlockStatement
          [IfStatement (BooleanLiteral True)
             (VariableDeclaration (VariableDeclarationNode ''var''
                [VariableDeclarator (Identifier ''x'' None) (Some (NumericLiteral (Num 1)))
                   None]))
             (Some (BlockStatement []))]))
       False (Some exampleFunctionInfo) []"


section \<open>Lemmas about the snapshot decoder\<close>

subsection \<open>CRC detects any change of one byte\<close>

definition crc_unshift :: "UInt16 \<Rightarrow> UInt16" where
  "crc_unshift d = (if bit d 0 then drop_bit 1 (d XOR 0x1021) OR 0x8000 else drop_bit 1 d)"

lemma drop_push_16: "drop_bit 1 (push_bit 1 (c :: UInt16)) = take_bit 15 c"
proof (rule bit_word_eqI)
  fix n assume "n < LENGTH(16)"
  have "bit (drop_bit 1 (push_bit 1 c)) n = bit (push_bit 1 c) (1 + n)"
    by (simp only: bit_drop_bit_eq comp_apply)
  also have "\<dots> = (1 + n < 16 \<and> bit c n)"
    by (simp only: bit_push_bit_iff possible_bit_word) simp
  also have "\<dots> = bit (take_bit 15 c) n"
    by (simp only: bit_take_bit_iff) auto
  finally show "bit (drop_bit 1 (push_bit 1 c)) n = bit (take_bit 15 c) n" .
qed

lemma hi_8000: "(0x8000 :: UInt16) = push_bit 15 1"
  by simp

lemma take15_hi: "bit (c :: UInt16) 15 \<Longrightarrow> take_bit 15 c OR 0x8000 = c"
proof (rule bit_word_eqI)
  fix n assume c: "bit c 15" and "n < LENGTH(16)"
  then have n: "n < 16" by simp
  have "bit (take_bit 15 c OR push_bit 15 1) n = ((n < 15 \<and> bit c n) \<or> n = 15)"
    using n by (simp only: bit_or_iff bit_push_bit_iff bit_take_bit_iff bit_1_iff possible_bit_word) auto
  also have "\<dots> = bit c n" using c n by (cases "n = 15") auto
  finally show "bit (take_bit 15 c OR 0x8000) n = bit c n" by (simp only: hi_8000)
qed

lemma take15_lo: "\<not> bit (c :: UInt16) 15 \<Longrightarrow> take_bit 15 c = c"
proof (rule bit_word_eqI)
  fix n assume c: "\<not> bit c 15" and "n < LENGTH(16)"
  then have n: "n < 16" by simp
  show "bit (take_bit 15 c) n = bit c n"
    using c n by (cases "n = 15") (auto simp: bit_take_bit_iff)
qed

lemma take15_iff: "take_bit 15 (c :: UInt16) = c \<longleftrightarrow> c < 0x8000"
proof -
  have "take_bit 15 c = c \<longleftrightarrow> uint c < 2 ^ 15"
    by (simp only: take_bit_eq_mask mask_eq_iff)
  also have "\<dots> \<longleftrightarrow> c < 2 ^ 15"
    by (rule word_2p_lem [symmetric]) (simp add: word_size)
  finally show ?thesis by simp
qed

lemma bit15_iff: "bit (c :: UInt16) 15 \<longleftrightarrow> 0x8000 \<le> c"
proof
  assume b: "bit c 15"
  show "0x8000 \<le> c"
  proof (rule ccontr)
    assume "\<not> 0x8000 \<le> c"
    then have "take_bit 15 c = c" by (simp add: take15_iff)
    then have "bit c 15 = bit (take_bit 15 c) 15" by simp
    also have "\<dots> = False" by (simp add: bit_take_bit_iff)
    finally show False using b by simp
  qed
next
  assume h: "0x8000 \<le> c"
  show "bit c 15"
  proof (rule ccontr)
    assume "\<not> bit c 15"
    then have "take_bit 15 c = c" by (rule take15_lo)
    then have "c < 0x8000" by (simp only: take15_iff)
    with h show False by simp
  qed
qed

text \<open>The CRC step as arithmetic on numerals, for evaluating it on concrete bytes.\<close>

lemma crc_shift_alt: "crc_shift c = (if 0x8000 \<le> c then 2 * c XOR 0x1021 else 2 * c)"
  by (simp add: crc_shift_def bit15_iff mult.commute)

lemma crc_byte_alt: "crc_byte c b =
  crc_shift (crc_shift (crc_shift (crc_shift (crc_shift (crc_shift (crc_shift (crc_shift
    (c XOR 256 * ucast b))))))))"
  by (simp add: crc_byte_def eval_nat_numeral push_bit_eq_mult mult.commute)

lemma bit0_crc_shift: "bit (crc_shift c) 0 = bit c 15"
  unfolding crc_shift_def
  by (simp only: bit_xor_iff bit_push_bit_iff split: if_splits) simp

lemma crc_unshift_shift: "crc_unshift (crc_shift c) = c"
proof (cases "bit c 15")
  case True
  then have "crc_shift c XOR 0x1021 = push_bit 1 c"
    by (simp only: crc_shift_def if_True xor.assoc bit.xor_self xor.right_neutral)
  with True show ?thesis
    by (simp only: crc_unshift_def bit0_crc_shift if_True drop_push_16 take15_hi)
next
  case False
  then have "crc_shift c = push_bit 1 c"
    by (simp only: crc_shift_def if_False)
  with False show ?thesis
    using bit0_crc_shift [of c]
    by (simp only: crc_unshift_def if_False drop_push_16 take15_lo [OF False])
qed

lemma inj_crc_shift: "inj crc_shift"
  by (rule inj_on_inverseI [where g = crc_unshift]) (rule crc_unshift_shift)

lemma crc_shift_pow_inj: "(crc_shift ^^ n) a = (crc_shift ^^ n) b \<Longrightarrow> a = b"
  by (induction n) (auto dest: injD [OF inj_crc_shift])

lemma xor_cancel_right_16: "(c :: UInt16) XOR x = c' XOR x \<Longrightarrow> c = c'"
proof -
  assume "c XOR x = c' XOR x"
  then have "(c XOR x) XOR x = (c' XOR x) XOR x" by simp
  then show "c = c'" by (simp only: xor.assoc bit.xor_self xor.right_neutral)
qed

lemma xor_cancel_left_16: "(c :: UInt16) XOR x = c XOR y \<Longrightarrow> x = y"
  using xor_cancel_right_16 [of x c y] by (simp add: xor.commute)

lemma ucast_byte_shift_inj:
  "push_bit 8 (ucast (a :: byte) :: UInt16) = push_bit 8 (ucast (b :: byte)) \<Longrightarrow> a = b"
proof (rule bit_word_eqI)
  fix n assume eq: "push_bit 8 (ucast a :: UInt16) = push_bit 8 (ucast b)" and "n < LENGTH(8)"
  then have n: "n < 8" by simp
  have "bit (push_bit 8 (ucast a :: UInt16)) (8 + n) = bit a n" for a :: byte
    using n by (simp add: bit_push_bit_iff bit_ucast_iff)
  with eq show "bit a n = bit b n" by metis
qed

lemma crc_byte_inj_state: "crc_byte c b = crc_byte c' b \<Longrightarrow> c = c'"
  unfolding crc_byte_def
  by (drule crc_shift_pow_inj) (rule xor_cancel_right_16)

lemma crc_byte_inj_byte: "crc_byte c b = crc_byte c b' \<Longrightarrow> b = b'"
  unfolding crc_byte_def
  by (drule crc_shift_pow_inj) (drule xor_cancel_left_16, rule ucast_byte_shift_inj)

lemma foldl_crc_inj: "foldl crc_byte c xs = foldl crc_byte c' xs \<Longrightarrow> c = c'"
  by (induction xs arbitrary: c c') (auto dest: crc_byte_inj_state)

lemma crc16ccitt_update:
  assumes "j < length xs" and "b \<noteq> xs ! j"
  shows "crc16ccitt (xs[j := b]) \<noteq> crc16ccitt xs"
proof
  assume eq: "crc16ccitt (xs[j := b]) = crc16ccitt xs"
  have xs: "xs = take j xs @ xs ! j # drop (Suc j) xs"
    using assms(1) by (simp add: id_take_nth_drop)
  have upd: "xs[j := b] = take j xs @ b # drop (Suc j) xs"
    using assms(1) by (simp add: upd_conv_take_nth_drop)
  let ?s = "foldl crc_byte 0xFFFF (take j xs)"
  have "foldl crc_byte (crc_byte ?s b) (drop (Suc j) xs)
      = foldl crc_byte (crc_byte ?s (xs ! j)) (drop (Suc j) xs)"
    using eq unfolding crc16ccitt_def by (subst (asm) upd, subst (asm) (2) xs) simp
  then have "crc_byte ?s b = crc_byte ?s (xs ! j)" by (rule foldl_crc_inj)
  then have "b = xs ! j" by (rule crc_byte_inj_byte)
  with assms(2) show False by simp
qed


subsection \<open>Reading the header\<close>

lemmas hfield_defs =
  hBytecodeVersion_def
  hHeaderSize_def
  hBytecodeSize_def
  hExpectedCRC_def
  hRequiredEngineVersion_def
  hRequiredFeatureFlags_def
  hGlobalVariableCount_def
  hInitialDataOffset_def

lemma readHeaderField8_Inr:
  "readHeaderField8 name st =
     (if readOffset st < length (data st) then Inr (hdr8 (data st) (readOffset st),
          pushComponent (Component (Some (int (readOffset st))) (Some 1)
              (HeaderField name (hdr8 (data st) (readOffset st)) False))
            (st\<lparr>readOffset := readOffset st + 1\<rparr>)) else Inl ReadBeyondBounds)"
  by (simp add: readHeaderField8_def readUInt8_def readUInt8At_def hdr8_def)

lemma readHeaderField16_Inr:
  "readHeaderField16 name isOffset st =
     (if readOffset st + 2 \<le> length (data st) then Inr (hdr16 (data st) (readOffset st),
          pushComponent (Component (Some (int (readOffset st))) (Some 2)
              (HeaderField name (hdr16 (data st) (readOffset st)) isOffset))
            (st\<lparr>readOffset := readOffset st + 2\<rparr>)) else Inl ReadBeyondBounds)"
  by (simp add: readHeaderField16_def readUInt16LE_def readUInt16LEAt_def hdr16_def)

lemma readHeaderField32_Inr:
  "readHeaderField32 name isOffset st =
     (if readOffset st + 4 \<le> length (data st) then Inr (hdr32 (data st) (readOffset st),
          pushComponent (Component (Some (int (readOffset st))) (Some 4)
              (HeaderField name (hdr32 (data st) (readOffset st)) isOffset))
            (st\<lparr>readOffset := readOffset st + 4\<rparr>)) else Inl ReadBeyondBounds)"
  by (simp add: readHeaderField32_def readUInt32LE_def readUInt32LEAt_def hdr32_def)

lemma pushComponent_simps:
  "data (pushComponent c st) = data st"
  "readOffset (pushComponent c st) = readOffset st"
  "regionStack (pushComponent c st) = regionStack st"
  "regionName (pushComponent c st) = regionName st"
  "regionStart (pushComponent c st) = regionStart st"
  "region (pushComponent c st) = region st @ [c]"
  "gcAllocationsMapping (pushComponent c st) = gcAllocationsMapping st"
  by (simp_all add: pushComponent_def)

lemma decodeSnapshot_prefix:
  assumes "6 \<le> length d"
  shows "decodeSnapshot K d =
     (if hBytecodeSize d \<noteq> length d then Inl BytecodeSizeMismatch
      else if hHeaderSize d \<noteq> HEADER_SIZE K then Inl HeaderSizeUnexpected
      else if unat (crc16ccitt (drop 6 d)) \<noteq> hExpectedCRC d then Inl CRCMismatch
      else if hBytecodeVersion d \<noteq> BYTECODE_VERSION K then Inl (BytecodeVersionNotSupported (hBytecodeVersion d))
      else decodeRest K (afterPrefix d))"
proof -
  have [simp]: "Suc (Suc 0) = 2" "Suc (Suc (Suc (Suc 0))) = 4"
    "Suc (Suc (Suc (Suc (Suc (Suc 0))))) = 6" by simp_all
  from assms have [simp]: "d \<noteq> []" by auto
  show ?thesis
    using assms
    by (simp add: decodeSnapshot_def readHeaderField8_Inr readHeaderField16_Inr
        beginRegion_def initialDecoder_def afterPrefix_def pushComponent_def hfield_defs)
qed

lemma decodeRest_engine:
  assumes "42 \<le> length d" "hRequiredEngineVersion d \<noteq> ENGINE_VERSION K"
  shows "decodeRest K (afterPrefix d) = Inl (EngineVersionNotSupported (hRequiredEngineVersion d) (ENGINE_VERSION K))"
  using assms
  by (simp add: decodeRest_def readHeaderField16_Inr readHeaderField32_Inr afterPrefix_def
       pushComponent_simps initialDecoder_def endRegion_def hfield_defs)

lemma decodeRest_short:
  assumes "length d < 42" "6 \<le> length d"
  shows "decodeRest K (afterPrefix d) = Inl ReadBeyondBounds"
  using assms
  by (simp add: decodeRest_def readHeaderField16_Inr readHeaderField32_Inr afterPrefix_def
       pushComponent_simps initialDecoder_def endRegion_def hfield_defs)


lemma hdr_update:
  assumes "6 \<le> i"
  shows "hBytecodeVersion (d[i := b]) = hBytecodeVersion d" "hHeaderSize (d[i := b]) = hHeaderSize d"
    "hBytecodeSize (d[i := b]) = hBytecodeSize d" "hExpectedCRC (d[i := b]) = hExpectedCRC d"
  using assms by (simp_all add: hdr8_def hdr16_def hfield_defs)

lemma drop_update_6: "6 \<le> i \<Longrightarrow> drop 6 (d[i := b]) = (drop 6 d)[i - 6 := b]"
  by (simp add: drop_update_swap)


lemma decodeValue_inline:
  assumes "readUInt16LE st = Inr (u16, st1)" "u16 AND 0xC000 = 0"
  shows "decodeValue K h l st =
     Inr (Some (NumberValue (Num (of_int (if u16 > 0x2000 then uint u16 - 0x4000 else uint u16)))),
          pushComponent (Component (Some (int (readOffset st))) (Some 2)
            (ValueC l (NumberValue (Num (of_int
               (if u16 > 0x2000 then uint u16 - 0x4000 else uint u16)))))) st1)"
  using assms by (simp add: decodeValue_def)

lemma decodeValue_prefix:
  assumes "readUInt16LE st = Inr (u16, st1)" "u16 AND 0xC000 \<noteq> 0" "inWellKnownPrefix K u16"
  shows "decodeValue K h l st =
     (if u16 = VM_VALUE_UNDEFINED K then Inr (Some UndefinedValue,
        pushComponent (Component (Some (int (readOffset st))) (Some 2) (ValueC l UndefinedValue)) st1)
      else if u16 = VM_VALUE_NULL K then Inr (Some NullValue,
        pushComponent (Component (Some (int (readOffset st))) (Some 2) (ValueC l NullValue)) st1)
      else if u16 = VM_VALUE_TRUE K then Inr (Some (BooleanValue True),
        pushComponent (Component (Some (int (readOffset st))) (Some 2)
          (ValueC l (BooleanValue True))) st1)
      else if u16 = VM_VALUE_FALSE K then Inr (Some (BooleanValue False),
        pushComponent (Component (Some (int (readOffset st))) (Some 2)
          (ValueC l (BooleanValue False))) st1)
      else if u16 = VM_VALUE_NAN K then Inr (Some (NumberValue NaN),
        pushComponent (Component (Some (int (readOffset st))) (Some 2)
          (ValueC l (NumberValue NaN))) st1)
      else if u16 = VM_VALUE_NEG_ZERO K then Inr (Some (NumberValue NegZero),
        pushComponent (Component (Some (int (readOffset st))) (Some 2)
          (ValueC l (NumberValue NegZero))) st1)
      else if u16 = VM_VALUE_DELETED K then Inr (None,
        pushComponent (Component (Some (int (readOffset st))) (Some 2) DeletedValue) st1)
      else Inl Unexpected)"
  using assms by (simp add: decodeValue_def inWellKnownPrefix_def)

lemma decodeValue_reference:
  assumes "readUInt16LE st = Inr (u16, st1)" "u16 AND 0xC000 \<noteq> 0" "\<not> inWellKnownPrefix K u16"
    "decodeValue K h l st = Inr (v, st')"
  shows "\<exists>a. v = Some (ReferenceValue a)"
  using assms
  by (auto simp: decodeValue_def inWellKnownPrefix_def [symmetric] bindE_eq_Inr
        split: prod.splits)

lemma readUInt16LE_Inr:
  "readOffset st + 2 \<le> length (data st) \<Longrightarrow>
   readUInt16LE st = Inr (u16le (data st ! readOffset st) (data st ! (readOffset st + 1)),
                          st\<lparr>readOffset := readOffset st + 2\<rparr>)"
  by (simp add: readUInt16LE_def readUInt16LEAt_def)

lemma decodeGlobalSlotsFrom_inline:
  assumes "readOffset st + 2 * n \<le> length (data st)"
    and "\<forall>j<n. u16le (data st ! (readOffset st + 2 * j))
                     (data st ! (readOffset st + 2 * j + 1)) AND 0xC000 = 0"
  shows "\<exists>slots st'. decodeGlobalSlotsFrom K h i n slots0 st = Inr (slots, st')
      \<and> length slots = length slots0 + n \<and> regionStack st' = regionStack st
      \<and> regionName st' = regionName st"
  using assms
proof (induction n arbitrary: i slots0 st)
  case 0
  then show ?case by simp
next
  case (Suc n)
  let ?w = "u16le (data st ! readOffset st) (data st ! (readOffset st + 1))"
  let ?st1 = "st\<lparr>readOffset := readOffset st + 2\<rparr>"
  have r: "readUInt16LE st = Inr (?w, ?st1)"
    using Suc.prems(1) by (intro readUInt16LE_Inr) simp
  have w: "?w AND 0xC000 = 0"
    using Suc.prems(2) [rule_format, of 0] by simp
  note v = decodeValue_inline [OF r w, of K h "''['' @ string_of_nat i @ '']''"]
  define st2 where "st2 = pushComponent (Component (Some (int (readOffset st))) (Some 2)
            (ValueC (''['' @ string_of_nat i @ '']'') (NumberValue (Num (of_int
               (if ?w > 0x2000 then uint ?w - 0x4000 else uint ?w)))))) ?st1"
  have s2: "readOffset st2 = readOffset st + 2" "data st2 = data st"
    "regionStack st2 = regionStack st" "regionName st2 = regionName st"
    by (simp_all add: st2_def pushComponent_def)
  have a: "readOffset st2 + 2 * n \<le> length (data st2)"
    using Suc.prems(1) by (simp add: s2)
  have b: "\<forall>j<n. u16le (data st2 ! (readOffset st2 + 2 * j))
                     (data st2 ! (readOffset st2 + 2 * j + 1)) AND 0xC000 = 0"
  proof (intro allI impI)
    fix j assume "j < n"
    then have "Suc j < Suc n" by simp
    from Suc.prems(2) [rule_format, OF this] show
      "u16le (data st2 ! (readOffset st2 + 2 * j))
             (data st2 ! (readOffset st2 + 2 * j + 1)) AND 0xC000 = 0"
      by (simp add: s2 add.commute add.left_commute)
  qed
  define e where "e = (''global'' @ string_of_nat i,
           \<lparr>gs_value = Some (NumberValue (Num (of_int
               (if ?w > 0x2000 then uint ?w - 0x4000 else uint ?w)))), gs_indexHint = i\<rparr>)"
  have eq: "decodeGlobalSlotsFrom K h i (Suc n) slots0 st =
      decodeGlobalSlotsFrom K h (i + 1) n (slots0 @ [e]) st2"
    by (simp only: decodeGlobalSlotsFrom.simps v bindE_Inr prod.case st2_def e_def)
  from Suc.IH [OF a b, of "i + 1" "slots0 @ [e]"] obtain slots st' where
    r: "decodeGlobalSlotsFrom K h (i + 1) n (slots0 @ [e]) st2 = Inr (slots, st')"
      "length slots = length (slots0 @ [e]) + n"
      "regionStack st' = regionStack st2" "regionName st' = regionName st2"
    by blast
  have "length slots = length slots0 + Suc n" using r(2) by simp
  then show ?case
    unfolding eq using r(1,3,4) s2(3,4)
    by (intro exI [of _ slots] exI [of _ st']) simp
qed

lemma decodeGlobalSlots_inline:
  assumes "off + 2 * n \<le> length (data st)"
    and "\<forall>j<n. u16le (data st ! (off + 2 * j)) (data st ! (off + 2 * j + 1)) AND 0xC000 = 0"
    and "regionStack st = []"
  shows "\<exists>x. decodeGlobalSlots K off h n st = Inr x
           \<and> (case x of (slots, st') \<Rightarrow> length slots = n \<and> regionStack st' = [])"
proof -
  let ?st1 = "beginRegion ''Globals'' (st\<lparr>readOffset := off\<rparr>)"
  have p: "readOffset ?st1 = off" "data ?st1 = data st"
    "regionName ?st1 = Some ''Globals''" "\<exists>fr. regionStack ?st1 = [fr]"
    using assms(3) by (simp_all add: beginRegion_def)
  have "readOffset ?st1 + 2 * n \<le> length (data ?st1)"
    using assms(1) by (simp add: p)
  moreover have "\<forall>j<n. u16le (data ?st1 ! (readOffset ?st1 + 2 * j))
                     (data ?st1 ! (readOffset ?st1 + 2 * j + 1)) AND 0xC000 = 0"
    using assms(2) by (simp add: p)
  ultimately obtain slots st' where
    l: "decodeGlobalSlotsFrom K h 0 n [] ?st1 = Inr (slots, st')"
    and q: "length slots = n" "regionStack st' = regionStack ?st1" "regionName st' = regionName ?st1"
    using decodeGlobalSlotsFrom_inline [of ?st1 n K h 0 "[]"] by auto
  from p(4) obtain fr where fr: "regionStack ?st1 = [fr]" by auto
  have "off \<le> length (data st)" using assms(1) by simp
  then show ?thesis
    by (simp add: decodeGlobalSlots_def setReadOffset_def l endRegion_def q p(1-3) fr)
qed

lemma bindE_ex:
  "\<exists>x. m = Inr x \<and> Q x \<Longrightarrow> (\<And>x. Q x \<Longrightarrow> R (f x)) \<Longrightarrow> R (bindE m f)"
  by auto

lemma decodeRest_inlineGlobals:
  assumes "42 \<le> length d" "hRequiredEngineVersion d = ENGINE_VERSION K"
    "hInitialDataOffset d + 2 * hGlobalVariableCount d \<le> length d"
    "\<forall>j < hGlobalVariableCount d. globalWord d j AND 0xC000 = 0"
  shows "\<exists>info m. decodeRest K (afterPrefix d) = Inr (info, m)
           \<and> flags info = decodeFlags (hRequiredFeatureFlags d)
           \<and> length (globalSlots info) = hGlobalVariableCount d"
  using assms(1,2)
  apply (simp add: decodeRest_def readHeaderField16_Inr readHeaderField32_Inr afterPrefix_def
       pushComponent_simps initialDecoder_def endRegion_def hfield_defs [symmetric])
  apply (rule bindE_ex [where Q = "\<lambda>x. case x of (slots, st') \<Rightarrow>
             length slots = hGlobalVariableCount d \<and> regionStack st' = []"])
   apply (rule decodeGlobalSlots_inline)
  using assms(3,4)
     apply (auto simp: globalWord_def pushComponent_def split: prod.splits)
  done

lemma decodeRest_offsetBeyond:
  assumes "42 \<le> length d" "hRequiredEngineVersion d = ENGINE_VERSION K"
    "length d < hInitialDataOffset d"
  shows "decodeRest K (afterPrefix d) = Inl ReadBeyondBounds"
  using assms
  by (simp add: decodeRest_def readHeaderField16_Inr readHeaderField32_Inr afterPrefix_def
       pushComponent_simps initialDecoder_def endRegion_def decodeGlobalSlots_def
       setReadOffset_def pushComponent_def hfield_defs)

lemma decodeRest_globalBeyond:
  assumes "42 \<le> length d" "hRequiredEngineVersion d = ENGINE_VERSION K" "hGlobalVariableCount d = Suc n"
    "hInitialDataOffset d = length d"
  shows "decodeRest K (afterPrefix d) = Inl ReadBeyondBounds"
  using assms
  by (simp add: decodeRest_def readHeaderField16_Inr readHeaderField32_Inr afterPrefix_def
       pushComponent_simps initialDecoder_def endRegion_def decodeGlobalSlots_def setReadOffset_def beginRegion_def
       decodeValue_def readUInt16LE_def readUInt16LEAt_def hfield_defs)

lemma example_lengths:
  "length snapshotNoGlobals = 42" "length snapshotOneGlobalMissing = 42"
  "length snapshotOneGlobal = 44" "length snapshotOffsetBeyond = 42"
  by (simp_all add: snapshotNoGlobals_def snapshotOneGlobalMissing_def snapshotOneGlobal_def
        snapshotOffsetBeyond_def)

lemma example_crc_NoGlobals: "unat (crc16ccitt (drop 6 snapshotNoGlobals)) = 0xE167"
  by (simp add: snapshotNoGlobals_def crc16ccitt_def crc_byte_alt crc_shift_alt)

lemma example_crc_OneGlobalMissing:
  "unat (crc16ccitt (drop 6 snapshotOneGlobalMissing)) = 0xE878"
  by (simp add: snapshotOneGlobalMissing_def crc16ccitt_def crc_byte_alt crc_shift_alt)

lemma example_fields_NoGlobals:
  "hBytecodeVersion snapshotNoGlobals = 1" "hHeaderSize snapshotNoGlobals = 42"
  "hBytecodeSize snapshotNoGlobals = 42" "hExpectedCRC snapshotNoGlobals = 0xE167"
  "hRequiredEngineVersion snapshotNoGlobals = 0" "hRequiredFeatureFlags snapshotNoGlobals = 0xFFFFFFFF"
  "hGlobalVariableCount snapshotNoGlobals = 0" "hInitialDataOffset snapshotNoGlobals = 42"
  by (simp_all add: snapshotNoGlobals_def hdr8_def hdr16_def hdr32_def u16le_def u32le_def
        hfield_defs)

lemma example_fields_OneGlobalMissing:
  "hBytecodeVersion snapshotOneGlobalMissing = 1" "hHeaderSize snapshotOneGlobalMissing = 42"
  "hBytecodeSize snapshotOneGlobalMissing = 42" "hExpectedCRC snapshotOneGlobalMissing = 0xE878"
  "hRequiredEngineVersion snapshotOneGlobalMissing = 0" "hRequiredFeatureFlags snapshotOneGlobalMissing = 0xFFFFFFFF"
  "hGlobalVariableCount snapshotOneGlobalMissing = 1" "hInitialDataOffset snapshotOneGlobalMissing = 42"
  by (simp_all add: snapshotOneGlobalMissing_def hdr8_def hdr16_def hdr32_def u16le_def
        u32le_def hfield_defs)

lemma example_crc_OneGlobal: "unat (crc16ccitt (drop 6 snapshotOneGlobal)) = 0x12EF"
  by (simp add: snapshotOneGlobal_def crc16ccitt_def crc_byte_alt crc_shift_alt)

lemma example_crc_OffsetBeyond: "unat (crc16ccitt (drop 6 snapshotOffsetBeyond)) = 0xC5F3"
  by (simp add: snapshotOffsetBeyond_def crc16ccitt_def crc_byte_alt crc_shift_alt)

lemma example_fields_OneGlobal:
  "hBytecodeVersion snapshotOneGlobal = 1" "hHeaderSize snapshotOneGlobal = 42"
  "hBytecodeSize snapshotOneGlobal = 44" "hExpectedCRC snapshotOneGlobal = 0x12EF"
  "hRequiredEngineVersion snapshotOneGlobal = 0" "hRequiredFeatureFlags snapshotOneGlobal = 0xFFFFFFFF"
  "hGlobalVariableCount snapshotOneGlobal = 1" "hInitialDataOffset snapshotOneGlobal = 42"
  "globalWord snapshotOneGlobal 0 = 0x2000"
  by (simp_all add: snapshotOneGlobal_def hdr8_def hdr16_def hdr32_def u16le_def u32le_def
        globalWord_def hfield_defs)

lemma example_fields_OffsetBeyond:
  "hBytecodeVersion snapshotOffsetBeyond = 1" "hHeaderSize snapshotOffsetBeyond = 42"
  "hBytecodeSize snapshotOffsetBeyond = 42" "hExpectedCRC snapshotOffsetBeyond = 0xC5F3"
  "hRequiredEngineVersion snapshotOffsetBeyond = 0"
  "hGlobalVariableCount snapshotOffsetBeyond = 0" "hInitialDataOffset snapshotOffsetBeyond = 43"
  by (simp_all add: snapshotOffsetBeyond_def hdr8_def hdr16_def hdr32_def u16le_def u32le_def
        hfield_defs)

lemma exampleConstants_simps:
  "BYTECODE_VERSION exampleConstants = 1" "HEADER_SIZE exampleConstants = 42"
  "ENGINE_VERSION exampleConstants = 0"
  "BYTECODE_VERSION (exampleConstants\<lparr>BYTECODE_VERSION := v\<rparr>) = v"
  "HEADER_SIZE (exampleConstants\<lparr>BYTECODE_VERSION := v\<rparr>) = 42"
  "ENGINE_VERSION (exampleConstants\<lparr>ENGINE_VERSION := v\<rparr>) = v"
  "BYTECODE_VERSION (exampleConstants\<lparr>ENGINE_VERSION := v\<rparr>) = 1"
  "HEADER_SIZE (exampleConstants\<lparr>ENGINE_VERSION := v\<rparr>) = 42"
  "HEADER_SIZE (exampleConstants\<lparr>HEADER_SIZE := v\<rparr>) = v"
  by (simp_all add: exampleConstants_def)

lemma decodeFlags_all: "decodeFlags 0xFFFFFFFF = [0..<32]"
  by (simp add: decodeFlags_def upt_rec)



section \<open>Claims about the snapshot decoder\<close>

text \<open>
  C2, counterexample. The claim ends: a snapshot passing all the checks is decoded
  without error. The image \<open>snapshotOneGlobalMissing\<close> passes the size, header-size, CRC,
  bytecode-version and engine-version checks, and \<open>decodeSnapshot\<close> raises while it
  decodes the one global the header declares, whose offset is the end of the buffer.
\<close>

theorem decodeSnapshot_checks_pass_counterexample:
  "hBytecodeSize snapshotOneGlobalMissing = length snapshotOneGlobalMissing
   \<and> hHeaderSize snapshotOneGlobalMissing = HEADER_SIZE exampleConstants
   \<and> unat (crc16ccitt (drop 6 snapshotOneGlobalMissing)) = hExpectedCRC snapshotOneGlobalMissing
   \<and> hBytecodeVersion snapshotOneGlobalMissing = BYTECODE_VERSION exampleConstants
   \<and> hRequiredEngineVersion snapshotOneGlobalMissing = ENGINE_VERSION exampleConstants
   \<and> decodeSnapshot exampleConstants snapshotOneGlobalMissing = Inl ReadBeyondBounds"
proof -
  have "decodeRest exampleConstants (afterPrefix snapshotOneGlobalMissing) = Inl ReadBeyondBounds"
    by (rule decodeRest_globalBeyond [where n = 0])
       (simp_all add: example_lengths example_fields_OneGlobalMissing exampleConstants_simps)
  then show ?thesis
    by (simp add: decodeSnapshot_prefix example_lengths example_fields_OneGlobalMissing
          example_crc_OneGlobalMissing exampleConstants_simps)
qed

text \<open>
  C2, amended. For an image of at least six bytes the checks run in this order: a size
  mismatch when \<open>bytecodeSize\<close> differs from the buffer length; else a header-size error
  when \<open>headerSize\<close> differs from \<open>HEADER_SIZE\<close>; else a CRC mismatch when the
  CRC-16-CCITT of the bytes from offset 6 differs from \<open>expectedCRC\<close>; else a version
  error when \<open>bytecodeVersion\<close> differs from \<open>BYTECODE_VERSION\<close>; else, for an image
  that holds the whole 42-byte header, an engine-version error when
  \<open>requiredEngineVersion\<close> differs from \<open>ENGINE_VERSION\<close>. Changing any one byte at an
  offset of 6 or more of an image that passes the first three checks gives a CRC
  mismatch. The feature flags are only recorded, there is no check of them. Passing the
  five checks does not make the decoding succeed: an image that passes them and whose
  \<open>initialDataOffset\<close> lies beyond the end of the buffer raises the out-of-bounds error,
  with or without globals. An image that passes them, whose globals lie within the
  buffer (\<open>initialDataOffset + 2 * globalVariableCount\<close> is at most the buffer length) and
  whose global words all have their top two bits zero (inline integers) decodes without
  error, whatever its flags are: it has one slot for every global, and its \<open>flags\<close> are
  the bits set in \<open>requiredFeatureFlags\<close>.
\<close>

theorem decodeSnapshot_validation:
  assumes "6 \<le> length d"
  shows "(hBytecodeSize d \<noteq> length d \<longrightarrow> decodeSnapshot K d = Inl BytecodeSizeMismatch)
    \<and> (hBytecodeSize d = length d \<and> hHeaderSize d \<noteq> HEADER_SIZE K
         \<longrightarrow> decodeSnapshot K d = Inl HeaderSizeUnexpected)
    \<and> (hBytecodeSize d = length d \<and> hHeaderSize d = HEADER_SIZE K
         \<and> unat (crc16ccitt (drop 6 d)) \<noteq> hExpectedCRC d
         \<longrightarrow> decodeSnapshot K d = Inl CRCMismatch)
    \<and> (hBytecodeSize d = length d \<and> hHeaderSize d = HEADER_SIZE K
         \<and> unat (crc16ccitt (drop 6 d)) = hExpectedCRC d \<and> hBytecodeVersion d \<noteq> BYTECODE_VERSION K
         \<longrightarrow> decodeSnapshot K d = Inl (BytecodeVersionNotSupported (hBytecodeVersion d)))
    \<and> (hBytecodeSize d = length d \<and> hHeaderSize d = HEADER_SIZE K
         \<and> unat (crc16ccitt (drop 6 d)) = hExpectedCRC d \<and> hBytecodeVersion d = BYTECODE_VERSION K
         \<and> 42 \<le> length d \<and> hRequiredEngineVersion d \<noteq> ENGINE_VERSION K
         \<longrightarrow> decodeSnapshot K d = Inl (EngineVersionNotSupported (hRequiredEngineVersion d) (ENGINE_VERSION K)))
    \<and> (hBytecodeSize d = length d \<and> hHeaderSize d = HEADER_SIZE K
         \<and> unat (crc16ccitt (drop 6 d)) = hExpectedCRC d
         \<longrightarrow> (\<forall>i b. 6 \<le> i \<and> i < length d \<and> b \<noteq> d ! i
                \<longrightarrow> decodeSnapshot K (d[i := b]) = Inl CRCMismatch))
    \<and> (hBytecodeSize d = length d \<and> hHeaderSize d = HEADER_SIZE K
         \<and> unat (crc16ccitt (drop 6 d)) = hExpectedCRC d \<and> hBytecodeVersion d = BYTECODE_VERSION K
         \<and> 42 \<le> length d \<and> hRequiredEngineVersion d = ENGINE_VERSION K
         \<and> length d < hInitialDataOffset d
         \<longrightarrow> decodeSnapshot K d = Inl ReadBeyondBounds)
    \<and> (hBytecodeSize d = length d \<and> hHeaderSize d = HEADER_SIZE K
         \<and> unat (crc16ccitt (drop 6 d)) = hExpectedCRC d \<and> hBytecodeVersion d = BYTECODE_VERSION K
         \<and> 42 \<le> length d \<and> hRequiredEngineVersion d = ENGINE_VERSION K
         \<and> hInitialDataOffset d + 2 * hGlobalVariableCount d \<le> length d
         \<and> (\<forall>j < hGlobalVariableCount d. globalWord d j AND 0xC000 = 0)
         \<longrightarrow> (\<exists>info m. decodeSnapshot K d = Inr (info, m)
                \<and> flags info = decodeFlags (hRequiredFeatureFlags d)
                \<and> length (globalSlots info) = hGlobalVariableCount d))"
proof -
  note p = decodeSnapshot_prefix [OF assms, of K]
  have flip: "decodeSnapshot K (d[i := b]) = Inl CRCMismatch"
    if ok: "hBytecodeSize d = length d" "hHeaderSize d = HEADER_SIZE K"
      "unat (crc16ccitt (drop 6 d)) = hExpectedCRC d"
      and i: "6 \<le> i" "i < length d" "b \<noteq> d ! i" for i b
  proof -
    have "crc16ccitt ((drop 6 d)[i - 6 := b]) \<noteq> crc16ccitt (drop 6 d)"
      using i by (intro crc16ccitt_update) simp_all
    then have "unat (crc16ccitt (drop 6 (d[i := b]))) \<noteq> hExpectedCRC d"
      using ok(3) i(1) by (simp add: drop_update_6 word_unat_eq_iff)
    moreover have "6 \<le> length (d[i := b])" using assms by simp
    ultimately show ?thesis
      using ok i(1) by (simp add: decodeSnapshot_prefix hdr_update)
  qed
  have ok: "\<exists>info m. decodeSnapshot K d = Inr (info, m)
      \<and> flags info = decodeFlags (hRequiredFeatureFlags d)
      \<and> length (globalSlots info) = hGlobalVariableCount d"
    if "hBytecodeSize d = length d" "hHeaderSize d = HEADER_SIZE K"
      "unat (crc16ccitt (drop 6 d)) = hExpectedCRC d" "hBytecodeVersion d = BYTECODE_VERSION K"
      "42 \<le> length d" "hRequiredEngineVersion d = ENGINE_VERSION K"
      "hInitialDataOffset d + 2 * hGlobalVariableCount d \<le> length d"
      "\<forall>j < hGlobalVariableCount d. globalWord d j AND 0xC000 = 0"
    using decodeRest_inlineGlobals [of d K] that by (auto simp: p)
  show ?thesis
    using flip ok by (simp add: p decodeRest_engine decodeRest_offsetBeyond)
qed

theorem decodeSnapshot_validation_witness:
  "decodeSnapshot (exampleConstants\<lparr>HEADER_SIZE := 41\<rparr>) snapshotNoGlobals
      = Inl HeaderSizeUnexpected
   \<and> decodeSnapshot (exampleConstants\<lparr>BYTECODE_VERSION := 2\<rparr>) snapshotNoGlobals
      = Inl (BytecodeVersionNotSupported 1)
   \<and> decodeSnapshot (exampleConstants\<lparr>ENGINE_VERSION := 1\<rparr>) snapshotNoGlobals
      = Inl (EngineVersionNotSupported 0 1)
   \<and> decodeSnapshot exampleConstants (snapshotNoGlobals[2 := 43]) = Inl BytecodeSizeMismatch
   \<and> decodeSnapshot exampleConstants (snapshotNoGlobals[4 := 0]) = Inl CRCMismatch
   \<and> decodeSnapshot exampleConstants (snapshotNoGlobals[8 := 0xFE]) = Inl CRCMismatch
   \<and> decodeSnapshot exampleConstants snapshotOffsetBeyond = Inl ReadBeyondBounds
   \<and> (\<exists>info m. decodeSnapshot exampleConstants snapshotNoGlobals = Inr (info, m)
         \<and> flags info = [0..<32] \<and> length (globalSlots info) = 0)
   \<and> (\<exists>info m. decodeSnapshot exampleConstants snapshotOneGlobal = Inr (info, m)
         \<and> flags info = [0..<32] \<and> length (globalSlots info) = 1)"
proof -
  note f = example_lengths example_fields_NoGlobals example_crc_NoGlobals exampleConstants_simps
  have len: "6 \<le> length snapshotNoGlobals" "6 \<le> length (snapshotNoGlobals[2 := 43])"
    "6 \<le> length (snapshotNoGlobals[4 := 0])" "6 \<le> length snapshotOneGlobal"
    "6 \<le> length snapshotOffsetBeyond"
    by (simp_all add: example_lengths)
  have upd: "hBytecodeSize (snapshotNoGlobals[2 := 43]) = 43"
    "hBytecodeSize (snapshotNoGlobals[4 := 0]) = 42" "hHeaderSize (snapshotNoGlobals[4 := 0]) = 42"
    "hExpectedCRC (snapshotNoGlobals[4 := 0]) = 0xE100"
    "drop 6 (snapshotNoGlobals[4 := 0]) = drop 6 snapshotNoGlobals"
    "snapshotNoGlobals ! 8 = 0xFF"
    by (simp_all add: snapshotNoGlobals_def hdr8_def hdr16_def u16le_def hfield_defs)
  have a: "decodeSnapshot (exampleConstants\<lparr>HEADER_SIZE := 41\<rparr>) snapshotNoGlobals
      = Inl HeaderSizeUnexpected"
    using decodeSnapshot_validation [OF len(1), of "exampleConstants\<lparr>HEADER_SIZE := 41\<rparr>"]
    by (simp add: f)
  have b: "decodeSnapshot (exampleConstants\<lparr>BYTECODE_VERSION := 2\<rparr>) snapshotNoGlobals
      = Inl (BytecodeVersionNotSupported 1)"
    using decodeSnapshot_validation [OF len(1), of "exampleConstants\<lparr>BYTECODE_VERSION := 2\<rparr>"]
    by (simp add: f)
  have c: "decodeSnapshot (exampleConstants\<lparr>ENGINE_VERSION := 1\<rparr>) snapshotNoGlobals
      = Inl (EngineVersionNotSupported 0 1)"
    using decodeSnapshot_validation [OF len(1), of "exampleConstants\<lparr>ENGINE_VERSION := 1\<rparr>"]
    by (simp add: f)
  have d: "decodeSnapshot exampleConstants (snapshotNoGlobals[2 := 43]) = Inl BytecodeSizeMismatch"
    using decodeSnapshot_validation [OF len(2), of exampleConstants]
    by (simp add: f upd)
  have e: "decodeSnapshot exampleConstants (snapshotNoGlobals[4 := 0]) = Inl CRCMismatch"
    using decodeSnapshot_validation [OF len(3), of exampleConstants]
    by (simp add: f upd)
  have g: "decodeSnapshot exampleConstants (snapshotNoGlobals[8 := 0xFE]) = Inl CRCMismatch"
    "\<exists>info m. decodeSnapshot exampleConstants snapshotNoGlobals = Inr (info, m)
         \<and> flags info = [0..<32] \<and> length (globalSlots info) = 0"
    using decodeSnapshot_validation [OF len(1), of exampleConstants]
    by (simp_all add: f upd decodeFlags_all)
  have h: "decodeSnapshot exampleConstants snapshotOffsetBeyond = Inl ReadBeyondBounds"
    using decodeSnapshot_validation [OF len(5), of exampleConstants]
    by (simp add: example_lengths example_fields_OffsetBeyond example_crc_OffsetBeyond
          exampleConstants_simps)
  have i: "\<exists>info m. decodeSnapshot exampleConstants snapshotOneGlobal = Inr (info, m)
         \<and> flags info = [0..<32] \<and> length (globalSlots info) = 1"
    using decodeSnapshot_validation [OF len(4), of exampleConstants]
    by (simp add: example_lengths example_fields_OneGlobal example_crc_OneGlobal
          exampleConstants_simps decodeFlags_all)
  from a b c d e g h i show ?thesis by (intro conjI)
qed

text \<open>
  C3. The claim reads every word with the top two bits clear as a 14-bit
  two's-complement integer, within \<open>-0x2000..0x1FFF\<close>. The code compares with
  \<open>u16 > 0x2000\<close>, so the word \<open>0x2000\<close> (bytes \<open>00 20\<close>) is not sign-extended: it
  decodes to \<open>+8192\<close>, which is outside the range.
\<close>

theorem decodeValue_word_0x2000:
  "decodeValue K h l (initialDecoder [0x00, 0x20])
     = Inr (Some (NumberValue (Num 8192)),
            (initialDecoder [0x00, 0x20])\<lparr>readOffset := 2,
               region := [Component (Some 0) (Some 2) (ValueC l (NumberValue (Num 8192)))]\<rparr>)
   \<and> \<not> (8192 :: rat) \<le> 0x1FFF"
  by (simp add: decodeValue_def initialDecoder_def readUInt16LE_def readUInt16LEAt_def
        u16le_def pushComponent_def)

text \<open>
  C8. Let the well-known values be pairwise distinct and lie in the reserved prefix of
  the program section, and let \<open>u16\<close> be the word \<open>decodeValue\<close> reads. Whenever
  \<open>decodeValue\<close> returns, it returns no value exactly when \<open>u16\<close> is
  \<open>VM_VALUE_DELETED\<close>; for that word it does return, and records a 2-byte
  \<open>DeletedValue\<close> entry at the word's offset; for each of the other six well-known values
  it returns the corresponding IL value and records a 2-byte \<open>Value\<close> entry.
\<close>

theorem decodeValue_wellknown:
  assumes rd: "readUInt16LE st = Inr (u16, st1)"
    and dist: "distinct (wellKnownValues K)"
    and pre: "\<forall>c \<in> set (wellKnownValues K). inWellKnownPrefix K c"
  shows "(\<forall>v st'. decodeValue K h l st = Inr (v, st') \<longrightarrow> (v = None \<longleftrightarrow> u16 = VM_VALUE_DELETED K))
    \<and> (u16 = VM_VALUE_DELETED K \<longrightarrow>
          decodeValue K h l st = Inr (None,
            pushComponent (Component (Some (int (readOffset st))) (Some 2) DeletedValue) st1))
    \<and> (\<forall>c v. (c, v) \<in> set [(VM_VALUE_UNDEFINED K, UndefinedValue), (VM_VALUE_NULL K, NullValue),
                  (VM_VALUE_TRUE K, BooleanValue True), (VM_VALUE_FALSE K, BooleanValue False),
                  (VM_VALUE_NAN K, NumberValue NaN), (VM_VALUE_NEG_ZERO K, NumberValue NegZero)]
                \<and> u16 = c \<longrightarrow>
          decodeValue K h l st = Inr (Some v,
            pushComponent (Component (Some (int (readOffset st))) (Some 2) (ValueC l v)) st1))"
proof -
  have tag: "VM_TAG_PGM_P \<noteq> 0" by (simp add: VM_TAG_PGM_P_def)
  have known: "u16 AND 0xC000 \<noteq> 0 \<and> inWellKnownPrefix K u16"
    if "u16 \<in> set (wellKnownValues K)"
    using pre that tag by (auto simp: inWellKnownPrefix_def)
  have del_in: "inWellKnownPrefix K (VM_VALUE_DELETED K)"
    "VM_VALUE_DELETED K AND 0xC000 \<noteq> 0"
    using pre tag by (auto simp: wellKnownValues_def inWellKnownPrefix_def)
  have iff: "v = None \<longleftrightarrow> u16 = VM_VALUE_DELETED K"
    if ret: "decodeValue K h l st = Inr (v, st')" for v st'
  proof (cases "u16 AND 0xC000 = 0")
    case True
    with del_in(2) have "u16 \<noteq> VM_VALUE_DELETED K" by auto
    moreover have "v \<noteq> None" using ret decodeValue_inline [OF rd True, of K h l] by auto
    ultimately show ?thesis by simp
  next
    case nz: False
    show ?thesis
    proof (cases "inWellKnownPrefix K u16")
      case True
      show ?thesis
        using ret dist unfolding decodeValue_prefix [OF rd nz True, of h l]
        by (auto simp: wellKnownValues_def split: if_splits)
    next
      case False
      with del_in(1) have "u16 \<noteq> VM_VALUE_DELETED K" by auto
      moreover have "v \<noteq> None" using decodeValue_reference [OF rd nz False ret] by auto
      ultimately show ?thesis by simp
    qed
  qed
  have del: "decodeValue K h l st = Inr (None,
            pushComponent (Component (Some (int (readOffset st))) (Some 2) DeletedValue) st1)"
    if "u16 = VM_VALUE_DELETED K"
  proof -
    from that have k: "u16 AND 0xC000 \<noteq> 0" "inWellKnownPrefix K u16"
      using known by (simp_all add: wellKnownValues_def)
    show ?thesis
      using dist that unfolding decodeValue_prefix [OF rd k, of h l]
      by (auto simp: wellKnownValues_def)
  qed
  have val: "decodeValue K h l st = Inr (Some v,
            pushComponent (Component (Some (int (readOffset st))) (Some 2) (ValueC l v)) st1)"
    if m: "(c, v) \<in> set [(VM_VALUE_UNDEFINED K, UndefinedValue), (VM_VALUE_NULL K, NullValue),
                  (VM_VALUE_TRUE K, BooleanValue True), (VM_VALUE_FALSE K, BooleanValue False),
                  (VM_VALUE_NAN K, NumberValue NaN), (VM_VALUE_NEG_ZERO K, NumberValue NegZero)]"
      and c: "u16 = c" for c v
  proof -
    from m c have "u16 \<in> set (wellKnownValues K)" by (auto simp: wellKnownValues_def)
    then have k: "u16 AND 0xC000 \<noteq> 0" "inWellKnownPrefix K u16"
      using known by simp_all
    show ?thesis
      using dist m c unfolding decodeValue_prefix [OF rd k, of h l]
      by (auto simp: wellKnownValues_def)
  qed
  show ?thesis using iff del val by blast
qed

theorem decodeValue_wellknown_witness:
  "decodeValue exampleConstants 0 ''[0]'' (initialDecoder [0x06, 0xC0])
     = Inr (None, (initialDecoder [0x06, 0xC0])\<lparr>readOffset := 2,
              region := [Component (Some 0) (Some 2) DeletedValue]\<rparr>)
   \<and> decodeValue exampleConstants 0 ''[0]'' (initialDecoder [0x05, 0xC0])
     = Inr (Some (NumberValue NegZero), (initialDecoder [0x05, 0xC0])\<lparr>readOffset := 2,
              region := [Component (Some 0) (Some 2) (ValueC ''[0]'' (NumberValue NegZero))]\<rparr>)
   \<and> decodeValue exampleConstants 0 ''[0]'' (initialDecoder [0x00, 0xC0])
     = Inr (Some UndefinedValue, (initialDecoder [0x00, 0xC0])\<lparr>readOffset := 2,
              region := [Component (Some 0) (Some 2) (ValueC ''[0]'' UndefinedValue)]\<rparr>)"
proof -
  have rd: "readUInt16LE (initialDecoder [a, 0xC0])
      = Inr (u16le a 0xC0, (initialDecoder [a, 0xC0])\<lparr>readOffset := 2\<rparr>)" for a
    by (simp add: readUInt16LE_def readUInt16LEAt_def initialDecoder_def)
  have w: "u16le 0x06 0xC0 = 0xC006" "u16le 0x05 0xC0 = 0xC005" "u16le 0x00 0xC0 = 0xC000"
    by (simp_all add: u16le_def)
  have dist: "distinct (wellKnownValues exampleConstants)"
    by (simp add: wellKnownValues_def exampleConstants_def)
  have pre: "\<forall>c \<in> set (wellKnownValues exampleConstants). inWellKnownPrefix exampleConstants c"
    by (simp add: wellKnownValues_def exampleConstants_def inWellKnownPrefix_def VM_TAG_PGM_P_def)
  show ?thesis
    using decodeValue_wellknown [OF rd [where a = "0x06"] dist pre, where h = 0 and l = "''[0]''"]
      decodeValue_wellknown [OF rd [where a = "0x05"] dist pre, where h = 0 and l = "''[0]''"]
      decodeValue_wellknown [OF rd [where a = "0x00"] dist pre, where h = 0 and l = "''[0]''"]
    by (simp add: w exampleConstants_def pushComponent_def initialDecoder_def)
qed

section \<open>Lemmas about pass 2\<close>

lemma setSlot_flags [simp]:
  "isWrittenTo (setSlot b s S x) = isWrittenTo (S x)"
  "isAccessedByNestedFunction (setSlot b s S x) = isAccessedByNestedFunction (S x)"
  "b_kind (setSlot b s S x) = b_kind (S x)"
  "b_name (setSlot b s S x) = b_name (S x)"
  "isExported (setSlot b s S x) = isExported (S x)"
  by (simp_all add: setSlot_def)

lemma setSlot_slot [simp]:
  "b_slot (setSlot b s S x) = (if x = b then s else b_slot (S x))"
  by (simp add: setSlot_def)

lemma sameFlags_refl [simp]: "sameFlags S S"
  by (simp add: sameFlags_def)

lemma sameFlags_trans: "sameFlags S S' \<Longrightarrow> sameFlags S' S'' \<Longrightarrow> sameFlags S S''"
  by (simp add: sameFlags_def)

lemma sameFlags_setSlot [simp]: "sameFlags S (setSlot b s S)"
  by (simp add: sameFlags_def)

lemma computeParameterSlotsFrom_Cons:
  "computeParameterSlotsFrom k (b # bs) sp = computeParameterSlotsFrom (k + 1) bs (parameterStep k b sp)"
  by (cases sp) (simp add: parameterStep_def Let_def split: prod.splits)

lemma parameterStep_facts:
  assumes "parameterStep k b (st, pro) = (st1, pro1)"
  shows "set pro \<subseteq> set pro1"
    and "sameFlags (store st) (store st1)"
    and "\<And>x. x \<noteq> b \<Longrightarrow> b_slot (store st1 x) = b_slot (store st x)"
    and "parameterOutcome (store st) (store st1) pro1 b (k + 1)"
  using assms
  by (auto simp: parameterStep_def parameterOutcome_def nextClosureSlot_def pushLocalSlot_def
        Let_def split: if_splits)

lemma parameterOutcome_frame:
  assumes "parameterOutcome S S1 pro1 b a" "sameFlags S S1" "b_slot (S2 b) = b_slot (S1 b)"
    "set pro1 \<subseteq> set pro2"
  shows "parameterOutcome S S2 pro2 b a"
  using assms by (auto simp: parameterOutcome_def split: if_splits)

lemma computeParameterSlotsFrom_facts:
  assumes "computeParameterSlotsFrom k bs (st, pro) = (st', pro')" "distinct bs"
  shows "set pro \<subseteq> set pro' \<and> sameFlags (store st) (store st')
    \<and> (\<forall>x. x \<notin> set bs \<longrightarrow> b_slot (store st' x) = b_slot (store st x))
    \<and> (\<forall>i < length bs. parameterOutcome (store st) (store st') pro' (bs ! i) (k + i + 1))"
  using assms
proof (induction bs arbitrary: k st pro)
  case Nil
  then show ?case by simp
next
  case (Cons b bs)
  obtain st1 pro1 where s1: "parameterStep k b (st, pro) = (st1, pro1)"
    by (cases "parameterStep k b (st, pro)")
  note f = parameterStep_facts [OF s1]
  from Cons.prems s1 have r: "computeParameterSlotsFrom (k + 1) bs (st1, pro1) = (st', pro')"
    by (simp only: computeParameterSlotsFrom_Cons)
  from Cons.prems have d: "distinct bs" "b \<notin> set bs" by simp_all
  from Cons.IH [OF r d(1)] have ih:
    "set pro1 \<subseteq> set pro'" "sameFlags (store st1) (store st')"
    "\<forall>x. x \<notin> set bs \<longrightarrow> b_slot (store st' x) = b_slot (store st1 x)"
    "\<forall>i < length bs. parameterOutcome (store st1) (store st') pro' (bs ! i) (k + 1 + i + 1)"
    by simp_all
  have flags: "sameFlags (store st) (store st')"
    using f(2) ih(2) by (rule sameFlags_trans)
  have frame: "\<forall>x. x \<notin> set (b # bs) \<longrightarrow> b_slot (store st' x) = b_slot (store st x)"
    using f(3) ih(3) by simp
  have out: "parameterOutcome (store st) (store st') pro' ((b # bs) ! i) (k + i + 1)"
    if i: "i < length (b # bs)" for i
  proof (cases i)
    case 0
    have "parameterOutcome (store st) (store st') pro' b (k + 1)"
      using f(4) f(2) _ ih(1) by (rule parameterOutcome_frame) (simp add: ih(3) d(2))
    with 0 show ?thesis by simp
  next
    case (Suc n)
    with i have n: "n < length bs" by simp
    with ih(4) have "parameterOutcome (store st1) (store st') pro' (bs ! n) (k + 1 + n + 1)"
      by simp
    moreover have "isAccessedByNestedFunction (store st1 (bs ! n))
        = isAccessedByNestedFunction (store st (bs ! n))"
      "isWrittenTo (store st1 (bs ! n)) = isWrittenTo (store st (bs ! n))"
      using f(2) by (simp_all add: sameFlags_def)
    ultimately show ?thesis using Suc by (simp add: parameterOutcome_def)
  qed
  show ?case using f(1) ih(1) flags frame out by auto
qed

subsection \<open>The rule for argument slots is an invariant of pass 2\<close>

lemma argumentSlotsOk_refl [simp]: "argumentSlotsOk S S P"
  by (simp add: argumentSlotsOk_def)

lemma argumentSlotsOk_mono: "argumentSlotsOk S S' P \<Longrightarrow> P \<subseteq> Q \<Longrightarrow> argumentSlotsOk S S' Q"
  by (auto simp: argumentSlotsOk_def)

lemma argumentSlotsOk_trans:
  assumes "argumentSlotsOk S S' P" "argumentSlotsOk S' S'' Q"
  shows "argumentSlotsOk S S'' (P \<union> Q)"
  unfolding argumentSlotsOk_def
proof (intro conjI allI impI)
  show "sameFlags S S''"
    using assms by (auto simp: argumentSlotsOk_def intro: sameFlags_trans)
next
  fix x k assume a: "b_slot (S'' x) = Some (ArgumentSlot k)"
  from assms have f: "isWrittenTo (S' x) = isWrittenTo (S x)"
    "isAccessedByNestedFunction (S' x) = isAccessedByNestedFunction (S x)"
    by (simp_all add: argumentSlotsOk_def sameFlags_def)
  from assms(2) a consider "b_slot (S' x) = Some (ArgumentSlot k)"
    | "x \<in> Q" "\<not> isWrittenTo (S' x)" "\<not> isAccessedByNestedFunction (S' x)"
    unfolding argumentSlotsOk_def by blast
  then show "b_slot (S x) = Some (ArgumentSlot k)
      \<or> (x \<in> P \<union> Q \<and> \<not> isWrittenTo (S x) \<and> \<not> isAccessedByNestedFunction (S x))"
  proof cases
    case 1
    with assms(1) show ?thesis unfolding argumentSlotsOk_def by blast
  next
    case 2
    with f show ?thesis by simp
  qed
qed

lemma argumentSlotsOk_trans':
  "argumentSlotsOk S S' P \<Longrightarrow> argumentSlotsOk S' S'' Q \<Longrightarrow> P \<union> Q \<subseteq> R
   \<Longrightarrow> argumentSlotsOk S S'' R"
  by (blast intro: argumentSlotsOk_mono argumentSlotsOk_trans)

lemma argumentSlotsOk_setSlot:
  assumes "\<And>k. s = Some (ArgumentSlot k) \<Longrightarrow>
     b \<in> P \<and> \<not> isWrittenTo (S b) \<and> \<not> isAccessedByNestedFunction (S b)"
  shows "argumentSlotsOk S (setSlot b s S) P"
  using assms by (auto simp: argumentSlotsOk_def)

lemma createLocalOrClosureSlot_facts:
  assumes "createLocalOrClosureSlot b st = Inr (s, st1)"
  shows "store st1 = store st" and "\<And>k. s \<noteq> ArgumentSlot k"
  using assms
  by (auto simp: createLocalOrClosureSlot_def nextClosureSlot_def pushLocalSlot_def
        split: if_splits)

lemma computeVarDeclarations_ok:
  "computeVarDeclarations bs (st, pro) = Inr (st', pro')
   \<Longrightarrow> argumentSlotsOk (store st) (store st') {}"
proof (induction bs arbitrary: st pro)
  case Nil
  then show ?case by simp
next
  case (Cons b bs)
  show ?case
  proof (cases "b_slot (store st b) \<noteq> None")
    case True
    with Cons show ?thesis by simp
  next
    case False
    with Cons.prems obtain s st1 where c: "createLocalOrClosureSlot b st = Inr (s, st1)"
      and r: "computeVarDeclarations bs
         (st1\<lparr>store := setSlot b (Some s) (store st1)\<rparr>, pro @ [InitVarDeclaration s])
         = Inr (st', pro')"
      by (auto simp: bindE_eq_Inr split: if_splits)
    note f = createLocalOrClosureSlot_facts [OF c]
    have "argumentSlotsOk (store st) (setSlot b (Some s) (store st)) {}"
      by (rule argumentSlotsOk_setSlot) (simp add: f(2))
    moreover have "argumentSlotsOk (setSlot b (Some s) (store st)) (store st') {}"
      using Cons.IH [OF r] by (simp add: f(1))
    ultimately show ?thesis by (rule argumentSlotsOk_trans') simp
  qed
qed

lemma computeLexicalDeclarations_ok:
  "computeLexicalDeclarations bs (st, pro) = Inr (st', pro')
   \<Longrightarrow> argumentSlotsOk (store st) (store st') {}"
proof (induction bs arbitrary: st pro)
  case Nil
  then show ?case by simp
next
  case (Cons b bs)
  show ?case
  proof (cases "b_slot (store st b) \<noteq> None")
    case True
    with Cons show ?thesis by simp
  next
    case False
    with Cons.prems obtain s st1 where c: "createLocalOrClosureSlot b st = Inr (s, st1)"
      and r: "computeLexicalDeclarations bs
         (st1\<lparr>store := setSlot b (Some s) (store st1)\<rparr>, pro @ [InitLexicalDeclaration s])
         = Inr (st', pro')"
      by (auto simp: bindE_eq_Inr split: if_splits)
    note f = createLocalOrClosureSlot_facts [OF c]
    have "argumentSlotsOk (store st) (setSlot b (Some s) (store st)) {}"
      by (rule argumentSlotsOk_setSlot) (simp add: f(2))
    moreover have "argumentSlotsOk (setSlot b (Some s) (store st)) (store st') {}"
      using Cons.IH [OF r] by (simp add: f(1))
    ultimately show ?thesis by (rule argumentSlotsOk_trans') simp
  qed
qed

lemma computeNestedFunctionDeclarations_ok:
  "computeNestedFunctionDeclarations M ds (st, pro) = Inr (st', pro')
   \<Longrightarrow> argumentSlotsOk (store st) (store st') {}"
proof (induction ds arbitrary: st pro)
  case Nil
  then show ?case by simp
next
  case (Cons d ds)
  obtain b fnode where d: "d = (b, fnode)" by (cases d)
  show ?case
  proof (cases "b_slot (store st b) \<noteq> None")
    case True
    with Cons d show ?thesis by simp
  next
    case False
    with Cons.prems d obtain s st1 where c: "createLocalOrClosureSlot b st = Inr (s, st1)"
      and r0: "(case M fnode of
               None \<Rightarrow> Inl Unexpected
             | Some (ty, fid, isCl) \<Rightarrow>
                 if ty \<noteq> FunctionScopeT then Inl Unexpected
                 else computeNestedFunctionDeclarations M ds
                        (st1\<lparr>store := setSlot b (Some s) (store st1)\<rparr>,
                         pro @ [InitFunctionDeclaration fid isCl s]))
           = Inr (st', pro')"
      by (auto simp: bindE_eq_Inr)
    then obtain fid isCl where
      r: "computeNestedFunctionDeclarations M ds
         (st1\<lparr>store := setSlot b (Some s) (store st1)\<rparr>,
          pro @ [InitFunctionDeclaration fid isCl s])
         = Inr (st', pro')"
      by (cases "M fnode") (auto split: if_splits)
    note f = createLocalOrClosureSlot_facts [OF c]
    have "argumentSlotsOk (store st) (setSlot b (Some s) (store st)) {}"
      by (rule argumentSlotsOk_setSlot) (simp add: f(2))
    moreover have "argumentSlotsOk (setSlot b (Some s) (store st)) (store st') {}"
      using Cons.IH [OF r] by (simp add: f(1))
    ultimately show ?thesis by (rule argumentSlotsOk_trans') simp
  qed
qed

lemma parameterStep_ok:
  "parameterStep k b (st, pro) = (st1, pro1) \<Longrightarrow> argumentSlotsOk (store st) (store st1) {b}"
  by (auto simp: parameterStep_def nextClosureSlot_def pushLocalSlot_def Let_def
        intro!: argumentSlotsOk_setSlot split: if_splits)

lemma computeParameterSlotsFrom_ok:
  "computeParameterSlotsFrom k bs (st, pro) = (st', pro')
   \<Longrightarrow> argumentSlotsOk (store st) (store st') (set bs)"
proof (induction bs arbitrary: k st pro)
  case Nil
  then show ?case by simp
next
  case (Cons b bs)
  obtain st1 pro1 where s1: "parameterStep k b (st, pro) = (st1, pro1)"
    by (cases "parameterStep k b (st, pro)")
  from Cons.prems s1 have r: "computeParameterSlotsFrom (k + 1) bs (st1, pro1) = (st', pro')"
    by (simp only: computeParameterSlotsFrom_Cons)
  show ?case
    using parameterStep_ok [OF s1] Cons.IH [OF r] by (rule argumentSlotsOk_trans') simp
qed

lemma computeIlFunctionParameterSlots_ok:
  assumes "computeIlFunctionParameterSlots thisB params (st, pro) = Inr (st', pro')"
  shows "argumentSlotsOk (store st) (store st') (set_option thisB \<union> set params)"
proof -
  from assms obtain st1 pro1 where
    t: "(case thisB of
           None \<Rightarrow> Inr (st, pro)
         | Some t \<Rightarrow>
             if isWrittenTo (store st t) then Inl AssertionFailed
             else if isAccessedByNestedFunction (store st t) then
               (let (s, st1) = nextClosureSlot st
                in Inr (st1\<lparr>store := setSlot t (Some s) (store st1)\<rparr>, pro @ [InitThis s]))
             else Inr (st\<lparr>store := setSlot t (Some (ArgumentSlot 0)) (store st)\<rparr>, pro))
        = Inr (st1, pro1)"
    and r: "computeParameterSlotsFrom 0 params (st1, pro1) = (st', pro')"
    by (auto simp: computeIlFunctionParameterSlots_def bindE_eq_Inr)
  have "argumentSlotsOk (store st) (store st1) (set_option thisB)"
    using t
    by (auto simp: nextClosureSlot_def Let_def intro!: argumentSlotsOk_setSlot
          split: option.splits if_splits)
  then show ?thesis
    using computeParameterSlotsFrom_ok [OF r] by (rule argumentSlotsOk_trans') simp
qed

lemma computeSlots_ok:
  "computeFunctionSlots M S sc = Inr (S', sc') \<Longrightarrow> argumentSlotsOk S S' (parameterIds sc)"
  "computeBlockSlots M st ty nfds lds chs pro epc = Inr (st', chs', pro', epc')
     \<Longrightarrow> argumentSlotsOk (store st) (store st') (parameterIdsList chs)"
  "computeChildren M st cs = Inr (st', cs') \<Longrightarrow> argumentSlotsOk (store st) (store st') (parameterIdsList cs)"
proof (induction M S sc and M st ty nfds lds chs pro epc and M st cs
    arbitrary: S' sc' and st' chs' pro' epc' and st' cs'
    rule: computeFunctionSlots_computeBlockSlots_computeChildren.induct)
  case (1 M S ty bnds vds nfds lds chs pro cls epc thisB params)
  let ?st0 = "\<lparr>store = S, fs_closureSlots = [], fs_linked = False, fs_stackDepth = 0\<rparr>"
  from "1.prems" obtain st1 pro1 st2 pro2 st3 chs3 pro3 epc3 where
    p: "(if ty = FunctionScopeT then computeIlFunctionParameterSlots thisB params (?st0, pro)
         else Inr (?st0, pro)) = Inr (st1, pro1)"
    and v: "computeVarDeclarations vds (st1, pro1) = Inr (st2, pro2)"
    and b: "computeBlockSlots M st2 ty nfds lds chs pro2 epc = Inr (st3, chs3, pro3, epc3)"
    and s: "S' = store st3"
    by (auto simp: bindE_eq_Inr Let_def)
  have a1: "argumentSlotsOk S (store st1)
      (if ty = FunctionScopeT then set_option thisB \<union> set params else {})"
    using p computeIlFunctionParameterSlots_ok [of thisB params ?st0 pro st1 pro1]
    by (auto split: if_splits)
  have a2: "argumentSlotsOk (store st1) (store st2) {}"
    using v by (rule computeVarDeclarations_ok)
  have a3: "argumentSlotsOk (store st2) (store st3) (parameterIdsList chs)"
    using "1.IH" [OF refl p refl v refl b] .
  have "argumentSlotsOk S (store st2)
      (if ty = FunctionScopeT then set_option thisB \<union> set params else {})"
    using a1 a2 by (rule argumentSlotsOk_trans') simp
  then show ?case
    unfolding s using a3 by (rule argumentSlotsOk_trans') simp
next
  case (2 M st ty nfds lds chs pro epc)
  from "2.prems" obtain st1 pro1 st2 pro2 st3 chs3 where
    n: "computeNestedFunctionDeclarations M nfds (st, pro) = Inr (st1, pro1)"
    and l: "computeLexicalDeclarations lds (st1, pro1) = Inr (st2, pro2)"
    and c: "computeChildren M st2 chs = Inr (st3, chs3)"
    and s: "st' = st3\<lparr>fs_stackDepth := fs_stackDepth st\<rparr>"
    by (auto simp: bindE_eq_Inr Let_def)
  have a1: "argumentSlotsOk (store st) (store st1) {}"
    using n by (rule computeNestedFunctionDeclarations_ok)
  have a2: "argumentSlotsOk (store st1) (store st2) {}"
    using l by (rule computeLexicalDeclarations_ok)
  have a3: "argumentSlotsOk (store st2) (store st3) (parameterIdsList chs)"
    using "2.IH" [OF refl n refl l refl c] .
  have "argumentSlotsOk (store st) (store st2) {}"
    using a1 a2 by (rule argumentSlotsOk_trans') simp
  then have "argumentSlotsOk (store st) (store st3) (parameterIdsList chs)"
    using a3 by (rule argumentSlotsOk_trans') simp
  then show ?case by (simp add: s)
next
  case (3 M st)
  then show ?case by simp
next
  case (4 M st ty bnds vds nfds lds chs pro cls epc thisB params rest)
  let ?c = "Scope ty bnds vds nfds lds chs pro cls epc thisB params"
  from "4.prems" obtain st1 c1 rest2 where
    h: "(case ty of
          BlockScopeT \<Rightarrow>
            bindE (computeBlockSlots M st ty nfds lds chs pro epc) (\<lambda>(st1, chs1, pro1, epc1).
              Inr (st1, Scope ty bnds vds nfds lds chs1 pro1 cls epc1 thisB params))
        | FunctionScopeT \<Rightarrow>
            bindE (computeFunctionSlots M (store st) ?c) (\<lambda>(S1, c1). Inr (st\<lparr>store := S1\<rparr>, c1))
        | ModuleScopeT \<Rightarrow> Inl Unexpected) = Inr (st1, c1)"
    and r: "computeChildren M st1 rest = Inr (st', rest2)"
    by (auto simp: bindE_eq_Inr)
  have a1: "argumentSlotsOk (store st) (store st1) (parameterIds ?c)"
  proof (cases ty)
    case ModuleScopeT
    with h show ?thesis by simp
  next
    case FunctionScopeT
    with h obtain S1 where f: "computeFunctionSlots M (store st) ?c = Inr (S1, c1)"
      and s1: "st1 = st\<lparr>store := S1\<rparr>"
      by (auto simp: bindE_eq_Inr)
    from "4.IH"(1) [OF FunctionScopeT f] show ?thesis by (simp add: s1)
  next
    case BlockScopeT
    with h obtain chs1 pro1 epc1 where
      f: "computeBlockSlots M st ty nfds lds chs pro epc = Inr (st1, chs1, pro1, epc1)"
      by (auto simp: bindE_eq_Inr)
    from "4.IH"(2) [OF BlockScopeT f] show ?thesis
      by (rule argumentSlotsOk_mono) simp
  qed
  have a2: "argumentSlotsOk (store st1) (store st') (parameterIdsList rest)"
    using "4.IH"(3) [OF h refl r] .
  show ?case
    using a1 a2 by (rule argumentSlotsOk_trans') simp
qed

lemma computeModuleSlot_facts:
  assumes "computeModuleSlot U I b ms = Inr (s, ms1)"
  shows "ms_store ms1 = ms_store ms" and "\<And>k. s \<noteq> Some (ArgumentSlot k)"
  using assms
  by (auto simp: computeModuleSlot_def computeImportBindingSlot_def
        getImportedModuleNamespaceSlot_def newGlobalSlot_def Let_def
        split: option.splits if_splits prod.splits import_specifier.splits imported_name.splits)

lemma computeRootBindings_ok:
  "computeRootBindings U I bs ms = Inr ms' \<Longrightarrow> argumentSlotsOk (ms_store ms) (ms_store ms') {}"
proof (induction bs arbitrary: ms)
  case Nil
  then show ?case by simp
next
  case (Cons b bs)
  from Cons.prems obtain s ms1 where c: "computeModuleSlot U I b ms = Inr (s, ms1)"
    and r: "computeRootBindings U I bs (ms1\<lparr>ms_store := setSlot b s (ms_store ms1)\<rparr>) = Inr ms'"
    by (auto simp: bindE_eq_Inr)
  note f = computeModuleSlot_facts [OF c]
  have "argumentSlotsOk (ms_store ms) (setSlot b s (ms_store ms)) {}"
    by (rule argumentSlotsOk_setSlot) (simp add: f(2))
  moreover have "argumentSlotsOk (setSlot b s (ms_store ms)) (ms_store ms') {}"
    using Cons.IH [OF r] by (simp add: f(1))
  ultimately show ?case by (rule argumentSlotsOk_trans') simp
qed

lemma pass2_computeSlots_ok:
  assumes "pass2_computeSlots U M I fv ms0 (Some r) = Inr (ms', r')"
  shows "argumentSlotsOk (ms_store ms0) (ms_store ms') (parameterIds r)"
proof -
  from assms obtain ms2 S sc where
    b: "computeRootBindings U I (bindings r)
         ((snd (newGlobalSlot U ''thisModule'' (ms0\<lparr>globalSlotNames := fv\<rparr>)))
            \<lparr>thisModuleSlot := Some (fst (newGlobalSlot U ''thisModule''
                 (ms0\<lparr>globalSlotNames := fv\<rparr>)))\<rparr>) = Inr ms2"
    and f: "computeFunctionSlots M (ms_store ms2) r = Inr (S, sc)"
    and s: "ms' = ms2\<lparr>ms_store := S\<rparr>"
    by (auto simp: pass2_computeSlots_def computeModuleSlots_def bindE_eq_Inr Let_def
          split: if_splits prod.splits)
  have "argumentSlotsOk (ms_store ms0) (ms_store ms2) {}"
    using computeRootBindings_ok [OF b] by (simp add: newGlobalSlot_def Let_def)
  moreover have "argumentSlotsOk (ms_store ms2) (ms_store ms') (parameterIds r)"
    using computeSlots_ok(1) [OF f] by (simp add: s)
  ultimately show ?thesis by (rule argumentSlotsOk_trans') simp
qed

section \<open>Claims about argument slots\<close>

text \<open>
  C5. Whenever pass 2 returns: a binding that is accessed by a nested function holds
  an \<open>ArgumentSlot\<close> afterwards only if it held that very slot before the pass (the
  pass itself never gives it one), and a binding that holds an \<open>ArgumentSlot\<close> it did
  not hold before is a \<open>this\<close> binding or a parameter binding of a function scope and is
  neither written to nor accessed by a nested function. The flags are those of the
  input: the pass does not change them. \<open>createLocalOrClosureSlot\<close>, which serves the
  \<open>var\<close>, function and lexical declarations, never returns an \<open>ArgumentSlot\<close>.
\<close>

theorem pass2_argument_slots:
  assumes "pass2_computeSlots U M I fv ms0 (Some r) = Inr (ms', r')"
  shows "(\<forall>x k. isAccessedByNestedFunction (ms_store ms0 x)
              \<and> b_slot (ms_store ms' x) = Some (ArgumentSlot k)
            \<longrightarrow> b_slot (ms_store ms0 x) = Some (ArgumentSlot k))
    \<and> (\<forall>x k. b_slot (ms_store ms' x) = Some (ArgumentSlot k)
              \<and> b_slot (ms_store ms0 x) \<noteq> Some (ArgumentSlot k)
            \<longrightarrow> x \<in> parameterIds r \<and> \<not> isWrittenTo (ms_store ms0 x)
                \<and> \<not> isAccessedByNestedFunction (ms_store ms0 x))
    \<and> sameFlags (ms_store ms0) (ms_store ms')
    \<and> (\<forall>b st s st1. createLocalOrClosureSlot b st = Inr (s, st1) \<longrightarrow> (\<forall>k. s \<noteq> ArgumentSlot k))"
  using pass2_computeSlots_ok [OF assms] createLocalOrClosureSlot_facts(2)
  unfolding argumentSlotsOk_def by blast

lemma example_pass2:
  "\<exists>ms' r'. pass2_computeSlots (\<lambda>h ns. h) (\<lambda>_. None) (\<lambda>_. None) [] exampleModuleState
       (Some exampleModuleScope) = Inr (ms', r')
     \<and> b_slot (ms_store ms' 0) = Some (ArgumentSlot 0)
     \<and> b_slot (ms_store ms' 1) = Some (ArgumentSlot 1)
     \<and> b_slot (ms_store ms' 2) = Some (LocalSlot 0)
     \<and> b_slot (ms_store ms' 3) = Some (ClosureSlot 0)
     \<and> b_slot (ms_store ms' 4) = Some (GlobalSlot ''v'')"
  by (simp add: pass2_computeSlots_def computeModuleSlots_def exampleModuleState_def
        exampleModuleScope_def exampleFunctionScope_def exampleModuleStore_def exampleStore_def
        exampleBinding_def newGlobalSlot_def computeModuleSlot_def
        computeIlFunctionParameterSlots_def nextClosureSlot_def pushLocalSlot_def Let_def)

theorem pass2_argument_slots_witness:
  "\<exists>ms' r'. pass2_computeSlots (\<lambda>h ns. h) (\<lambda>_. None) (\<lambda>_. None) [] exampleModuleState
       (Some exampleModuleScope) = Inr (ms', r')
     \<and> isAccessedByNestedFunction (ms_store exampleModuleState 3)
     \<and> b_slot (ms_store ms' 3) = Some (ClosureSlot 0)
     \<and> b_slot (ms_store ms' 1) = Some (ArgumentSlot 1)
     \<and> b_slot (ms_store exampleModuleState 1) \<noteq> Some (ArgumentSlot 1)
     \<and> 1 \<in> parameterIds exampleModuleScope
     \<and> \<not> isWrittenTo (ms_store exampleModuleState 1)
     \<and> \<not> isAccessedByNestedFunction (ms_store exampleModuleState 1)"
proof -
  from example_pass2 obtain ms' r' where
    e: "pass2_computeSlots (\<lambda>h ns. h) (\<lambda>_. None) (\<lambda>_. None) [] exampleModuleState
       (Some exampleModuleScope) = Inr (ms', r')"
    and s: "b_slot (ms_store ms' 3) = Some (ClosureSlot 0)"
      "b_slot (ms_store ms' 1) = Some (ArgumentSlot 1)"
    by blast
  have i: "isAccessedByNestedFunction (ms_store exampleModuleState 3)"
    "b_slot (ms_store exampleModuleState 1) \<noteq> Some (ArgumentSlot 1)"
    by (simp_all add: exampleModuleState_def exampleModuleStore_def exampleStore_def
          exampleBinding_def)
  from pass2_argument_slots [OF e] s(2) i(2)
  have "1 \<in> parameterIds exampleModuleScope \<and> \<not> isWrittenTo (ms_store exampleModuleState 1)
      \<and> \<not> isAccessedByNestedFunction (ms_store exampleModuleState 1)"
    by blast
  with e s i show ?thesis by blast
qed

section \<open>The parameter slots\<close>

text \<open>
  The two outcomes of \<open>computeIlFunctionParameterSlots\<close> for a function scope whose
  \<open>this\<close> binding and parameter bindings are distinct bindings: the assertion at its head
  fails when \<open>this\<close> is written to; otherwise it returns, \<open>this\<close> is placed by its
  \<open>isAccessedByNestedFunction\<close> flag and every parameter as \<open>parameterOutcome\<close> says.
\<close>

lemma computeIlFunctionParameterSlots_cases:
  assumes d: "distinct params" "\<forall>t. thisB = Some t \<longrightarrow> t \<notin> set params"
  shows "(\<forall>t. thisB = Some t \<and> isWrittenTo (store st t) \<longrightarrow>
            computeIlFunctionParameterSlots thisB params (st, pro) = Inl AssertionFailed)
    \<and> ((\<forall>t. thisB = Some t \<longrightarrow> \<not> isWrittenTo (store st t)) \<longrightarrow>
         (\<exists>st' pro'. computeIlFunctionParameterSlots thisB params (st, pro) = Inr (st', pro')
            \<and> (\<forall>t. thisB = Some t \<longrightarrow>
                 (if isAccessedByNestedFunction (store st t)
                  then \<exists>j. b_slot (store st' t) = Some (ClosureSlot j)
                           \<and> InitThis (ClosureSlot j) \<in> set pro'
                  else b_slot (store st' t) = Some (ArgumentSlot 0)))
            \<and> (\<forall>i < length params.
                 parameterOutcome (store st) (store st') pro' (params ! i) (i + 1))))"
proof (intro conjI allI impI)
  fix t assume "thisB = Some t \<and> isWrittenTo (store st t)"
  then show "computeIlFunctionParameterSlots thisB params (st, pro) = Inl AssertionFailed"
    by (simp add: computeIlFunctionParameterSlots_def)
next
  assume nw: "\<forall>t. thisB = Some t \<longrightarrow> \<not> isWrittenTo (store st t)"
  define sp1 where "sp1 =
    (case thisB of
       None \<Rightarrow> (st, pro)
     | Some t \<Rightarrow>
         if isAccessedByNestedFunction (store st t) then
           (let (s, st1) = nextClosureSlot st
            in (st1\<lparr>store := setSlot t (Some s) (store st1)\<rparr>, pro @ [InitThis s]))
         else (st\<lparr>store := setSlot t (Some (ArgumentSlot 0)) (store st)\<rparr>, pro))"
  obtain st1 pro1 where sp1: "sp1 = (st1, pro1)" by (cases sp1)
  obtain st' pro' where r: "computeParameterSlotsFrom 0 params (st1, pro1) = (st', pro')"
    by (cases "computeParameterSlotsFrom 0 params (st1, pro1)")
  have res: "computeIlFunctionParameterSlots thisB params (st, pro) = Inr (st', pro')"
    using nw r sp1 unfolding sp1_def
    by (auto simp: computeIlFunctionParameterSlots_def Let_def split: option.splits prod.splits)
  have this1: "sameFlags (store st) (store st1)" "set pro1 \<subseteq> set pro1"
    "\<forall>x. x \<in> set params \<longrightarrow> b_slot (store st1 x) = b_slot (store st x)"
    using sp1 d(2) unfolding sp1_def
    by (auto simp: Let_def nextClosureSlot_def split: option.splits if_splits)
  have this2: "if isAccessedByNestedFunction (store st t)
      then \<exists>j. b_slot (store st1 t) = Some (ClosureSlot j) \<and> InitThis (ClosureSlot j) \<in> set pro1
      else b_slot (store st1 t) = Some (ArgumentSlot 0)" if "thisB = Some t" for t
    using sp1 that unfolding sp1_def
    by (auto simp: Let_def nextClosureSlot_def split: if_splits)
  note f = computeParameterSlotsFrom_facts [OF r d(1)]
  have a: "if isAccessedByNestedFunction (store st t)
      then \<exists>j. b_slot (store st' t) = Some (ClosureSlot j) \<and> InitThis (ClosureSlot j) \<in> set pro'
      else b_slot (store st' t) = Some (ArgumentSlot 0)" if t: "thisB = Some t" for t
  proof -
    from t d(2) have "t \<notin> set params" by simp
    with f have "b_slot (store st' t) = b_slot (store st1 t)" by simp
    with this2 [OF t] f show ?thesis by (auto split: if_splits)
  qed
  have b: "parameterOutcome (store st) (store st') pro' (params ! i) (i + 1)"
    if i: "i < length params" for i
  proof -
    from f i have "parameterOutcome (store st1) (store st') pro' (params ! i) (0 + i + 1)"
      by blast
    then show ?thesis using this1(1) by (simp add: parameterOutcome_def sameFlags_def)
  qed
  show "\<exists>st' pro'. computeIlFunctionParameterSlots thisB params (st, pro) = Inr (st', pro')
            \<and> (\<forall>t. thisB = Some t \<longrightarrow>
                 (if isAccessedByNestedFunction (store st t)
                  then \<exists>j. b_slot (store st' t) = Some (ClosureSlot j)
                           \<and> InitThis (ClosureSlot j) \<in> set pro'
                  else b_slot (store st' t) = Some (ArgumentSlot 0)))
            \<and> (\<forall>i < length params.
                 parameterOutcome (store st) (store st') pro' (params ! i) (i + 1))"
    using res a b by blast
qed

lemma example_parameters:
  "computeIlFunctionParameterSlots (Some 0) [1, 2, 3] (emptyFstate exampleStore, [])
     = Inr (\<lparr>store = setSlot 3 (Some (ClosureSlot 0)) (setSlot 2 (Some (LocalSlot 0))
                 (setSlot 1 (Some (ArgumentSlot 1)) (setSlot 0 (Some (ArgumentSlot 0)) exampleStore))),
             fs_closureSlots = [ClosureSlot 0], fs_linked = True, fs_stackDepth = 1\<rparr>,
            [InitParameter 2 (LocalSlot 0), InitParameter 3 (ClosureSlot 0)])"
  by (simp add: computeIlFunctionParameterSlots_def emptyFstate_def exampleStore_def
        exampleBinding_def nextClosureSlot_def pushLocalSlot_def Let_def)

lemma example_parameters_this_captured:
  "computeIlFunctionParameterSlots (Some 0) [1]
       (emptyFstate (exampleStore(0 := exampleBinding ''this'' ThisKind False True)), [])
     = Inr (\<lparr>store = setSlot 1 (Some (ArgumentSlot 1)) (setSlot 0 (Some (ClosureSlot 0))
                 (exampleStore(0 := exampleBinding ''this'' ThisKind False True))),
             fs_closureSlots = [ClosureSlot 0], fs_linked = True, fs_stackDepth = 0\<rparr>,
            [InitThis (ClosureSlot 0)])"
  by (simp add: computeIlFunctionParameterSlots_def emptyFstate_def exampleStore_def
        exampleBinding_def nextClosureSlot_def pushLocalSlot_def Let_def)

section \<open>Claims about the parameter slots\<close>

text \<open>
  C4. \<open>computeIlFunctionParameterSlots\<close> is entered with a \<open>this\<close> binding that is not
  written to (the function says so and asserts it: \<open>this\<close> is no assignment target), and
  the \<open>this\<close> binding and the parameter bindings of a scope are distinct bindings. For
  every such function scope the function returns, and: the \<open>this\<close> binding gets
  \<open>ArgumentSlot 0\<close> when it is neither written to nor accessed by a nested function, and
  otherwise a closure slot with an \<open>InitThis\<close> step in the prologue; the \<open>i\<close>-th named
  parameter gets a closure slot with an \<open>InitParameter (i+1)\<close> step when it is accessed by
  a nested function, a local stack slot with an \<open>InitParameter (i+1)\<close> step when it is
  written to but not captured, and \<open>ArgumentSlot (i+1)\<close> when it is neither.
\<close>

theorem computeIlFunctionParameterSlots_slots:
  assumes "distinct params"
    and "\<forall>t. thisB = Some t \<longrightarrow> t \<notin> set params"
    and "\<forall>t. thisB = Some t \<longrightarrow> \<not> isWrittenTo (store st t)"
  shows "\<exists>st' pro'. computeIlFunctionParameterSlots thisB params (st, pro) = Inr (st', pro')
    \<and> (\<forall>t. thisB = Some t \<longrightarrow>
         (if \<not> isWrittenTo (store st t) \<and> \<not> isAccessedByNestedFunction (store st t)
          then b_slot (store st' t) = Some (ArgumentSlot 0)
          else \<exists>j. b_slot (store st' t) = Some (ClosureSlot j)
                   \<and> InitThis (ClosureSlot j) \<in> set pro'))
    \<and> (\<forall>i < length params.
         (isAccessedByNestedFunction (store st (params ! i)) \<longrightarrow>
            (\<exists>j. b_slot (store st' (params ! i)) = Some (ClosureSlot j)
                 \<and> InitParameter (i + 1) (ClosureSlot j) \<in> set pro'))
       \<and> (\<not> isAccessedByNestedFunction (store st (params ! i))
            \<and> isWrittenTo (store st (params ! i)) \<longrightarrow>
            (\<exists>j. b_slot (store st' (params ! i)) = Some (LocalSlot j)
                 \<and> InitParameter (i + 1) (LocalSlot j) \<in> set pro'))
       \<and> (\<not> isAccessedByNestedFunction (store st (params ! i))
            \<and> \<not> isWrittenTo (store st (params ! i)) \<longrightarrow>
            b_slot (store st' (params ! i)) = Some (ArgumentSlot (i + 1))))"
proof -
  from computeIlFunctionParameterSlots_cases [OF assms(1,2), of st pro] assms(3)
  obtain st' pro' where
    r: "computeIlFunctionParameterSlots thisB params (st, pro) = Inr (st', pro')"
    and t: "\<forall>t. thisB = Some t \<longrightarrow>
                 (if isAccessedByNestedFunction (store st t)
                  then \<exists>j. b_slot (store st' t) = Some (ClosureSlot j)
                           \<and> InitThis (ClosureSlot j) \<in> set pro'
                  else b_slot (store st' t) = Some (ArgumentSlot 0))"
    and p: "\<forall>i < length params.
                 parameterOutcome (store st) (store st') pro' (params ! i) (i + 1)"
    by blast
  from t assms(3) have "\<forall>t. thisB = Some t \<longrightarrow>
         (if \<not> isWrittenTo (store st t) \<and> \<not> isAccessedByNestedFunction (store st t)
          then b_slot (store st' t) = Some (ArgumentSlot 0)
          else \<exists>j. b_slot (store st' t) = Some (ClosureSlot j)
                   \<and> InitThis (ClosureSlot j) \<in> set pro')"
    by auto
  moreover from p have "\<forall>i < length params.
         (isAccessedByNestedFunction (store st (params ! i)) \<longrightarrow>
            (\<exists>j. b_slot (store st' (params ! i)) = Some (ClosureSlot j)
                 \<and> InitParameter (i + 1) (ClosureSlot j) \<in> set pro'))
       \<and> (\<not> isAccessedByNestedFunction (store st (params ! i))
            \<and> isWrittenTo (store st (params ! i)) \<longrightarrow>
            (\<exists>j. b_slot (store st' (params ! i)) = Some (LocalSlot j)
                 \<and> InitParameter (i + 1) (LocalSlot j) \<in> set pro'))
       \<and> (\<not> isAccessedByNestedFunction (store st (params ! i))
            \<and> \<not> isWrittenTo (store st (params ! i)) \<longrightarrow>
            b_slot (store st' (params ! i)) = Some (ArgumentSlot (i + 1)))"
    by (simp add: parameterOutcome_def split: if_splits)
  ultimately show ?thesis using r by blast
qed

theorem computeIlFunctionParameterSlots_slots_witness:
  "(\<exists>st' pro'. computeIlFunctionParameterSlots (Some 0) [1, 2, 3] (emptyFstate exampleStore, [])
        = Inr (st', pro')
      \<and> b_slot (store st' 0) = Some (ArgumentSlot 0)
      \<and> b_slot (store st' 1) = Some (ArgumentSlot 1)
      \<and> (\<exists>j. b_slot (store st' 2) = Some (LocalSlot j)
             \<and> InitParameter 2 (LocalSlot j) \<in> set pro')
      \<and> (\<exists>j. b_slot (store st' 3) = Some (ClosureSlot j)
             \<and> InitParameter 3 (ClosureSlot j) \<in> set pro'))
   \<and> (\<exists>st' pro'. computeIlFunctionParameterSlots (Some 0) [1]
          (emptyFstate (exampleStore(0 := exampleBinding ''this'' ThisKind False True)), [])
        = Inr (st', pro')
      \<and> (\<exists>j. b_slot (store st' 0) = Some (ClosureSlot j) \<and> InitThis (ClosureSlot j) \<in> set pro')
      \<and> b_slot (store st' 1) = Some (ArgumentSlot 1))"
proof -
  have d: "distinct [1, 2, 3 :: nat]" "\<forall>t. Some (0 :: nat) = Some t \<longrightarrow> t \<notin> set [1, 2, 3]"
    "distinct [1 :: nat]" "\<forall>t. Some (0 :: nat) = Some t \<longrightarrow> t \<notin> set [1]"
    by simp_all
  have w: "\<forall>t. Some (0 :: nat) = Some t \<longrightarrow> \<not> isWrittenTo (store (emptyFstate exampleStore) t)"
    "\<forall>t. Some (0 :: nat) = Some t \<longrightarrow> \<not> isWrittenTo (store (emptyFstate
        (exampleStore(0 := exampleBinding ''this'' ThisKind False True))) t)"
    by (simp_all add: emptyFstate_def exampleStore_def exampleBinding_def)
  have A: "\<exists>st' pro'. computeIlFunctionParameterSlots (Some 0) [1, 2, 3]
          (emptyFstate exampleStore, []) = Inr (st', pro')
      \<and> b_slot (store st' 0) = Some (ArgumentSlot 0)
      \<and> b_slot (store st' 1) = Some (ArgumentSlot 1)
      \<and> (\<exists>j. b_slot (store st' 2) = Some (LocalSlot j)
             \<and> InitParameter 2 (LocalSlot j) \<in> set pro')
      \<and> (\<exists>j. b_slot (store st' 3) = Some (ClosureSlot j)
             \<and> InitParameter 3 (ClosureSlot j) \<in> set pro')"
  proof -
    from computeIlFunctionParameterSlots_slots [OF d(1,2) w(1), of "[]"]
    obtain st' pro' where
      r: "computeIlFunctionParameterSlots (Some 0) [1, 2, 3] (emptyFstate exampleStore, [])
            = Inr (st', pro')"
      and t: "b_slot (store st' 0) = Some (ArgumentSlot 0)"
      and p: "\<forall>i < length [1, 2, 3 :: nat].
         (isAccessedByNestedFunction (store (emptyFstate exampleStore) ([1, 2, 3] ! i)) \<longrightarrow>
            (\<exists>j. b_slot (store st' ([1, 2, 3] ! i)) = Some (ClosureSlot j)
                 \<and> InitParameter (i + 1) (ClosureSlot j) \<in> set pro'))
       \<and> (\<not> isAccessedByNestedFunction (store (emptyFstate exampleStore) ([1, 2, 3] ! i))
            \<and> isWrittenTo (store (emptyFstate exampleStore) ([1, 2, 3] ! i)) \<longrightarrow>
            (\<exists>j. b_slot (store st' ([1, 2, 3] ! i)) = Some (LocalSlot j)
                 \<and> InitParameter (i + 1) (LocalSlot j) \<in> set pro'))
       \<and> (\<not> isAccessedByNestedFunction (store (emptyFstate exampleStore) ([1, 2, 3] ! i))
            \<and> \<not> isWrittenTo (store (emptyFstate exampleStore) ([1, 2, 3] ! i)) \<longrightarrow>
            b_slot (store st' ([1, 2, 3] ! i)) = Some (ArgumentSlot (i + 1)))"
      by (auto simp: emptyFstate_def exampleStore_def exampleBinding_def)
    from p [rule_format, of 0] have p0: "b_slot (store st' 1) = Some (ArgumentSlot 1)"
      by (simp add: emptyFstate_def exampleStore_def exampleBinding_def)
    from p [rule_format, of 1] have p1: "\<exists>j. b_slot (store st' 2) = Some (LocalSlot j)
             \<and> InitParameter 2 (LocalSlot j) \<in> set pro'"
      by (simp add: emptyFstate_def exampleStore_def exampleBinding_def numeral_2_eq_2)
    from p [rule_format, of 2] have p2: "\<exists>j. b_slot (store st' 3) = Some (ClosureSlot j)
             \<and> InitParameter 3 (ClosureSlot j) \<in> set pro'"
      by (simp add: emptyFstate_def exampleStore_def exampleBinding_def numeral_3_eq_3)
    from r t p0 p1 p2 show ?thesis by blast
  qed
  have B: "\<exists>st' pro'. computeIlFunctionParameterSlots (Some 0) [1]
          (emptyFstate (exampleStore(0 := exampleBinding ''this'' ThisKind False True)), [])
        = Inr (st', pro')
      \<and> (\<exists>j. b_slot (store st' 0) = Some (ClosureSlot j) \<and> InitThis (ClosureSlot j) \<in> set pro')
      \<and> b_slot (store st' 1) = Some (ArgumentSlot 1)"
    using computeIlFunctionParameterSlots_slots [OF d(3,4) w(2), of "[]"]
    by (auto simp: emptyFstate_def exampleStore_def exampleBinding_def)
  from A B show ?thesis by (rule conjI)
qed

section \<open>Properties of the IL compiler\<close>

subsection \<open>Sequencing\<close>

lemma seqE_Nil_fun: "seqE [] = Inr"
  by (rule ext) simp

lemma seqE_Cons_fun: "seqE (f # fs) = (\<lambda>s. bindE (f s) (seqE fs))"
  by (rule ext) simp

lemma bindE_Inr_right: "bindE m Inr = m"
  by (cases m) simp_all

lemma bindE_assoc: "bindE (bindE m f) g = bindE m (\<lambda>x. bindE (f x) g)"
  by (cases m) simp_all

lemma forOf_append: "forOf (xs @ ys) f s = bindE (forOf xs f s) (forOf ys f)"
proof (induction xs arbitrary: s)
  case Nil
  show ?case by simp
next
  case (Cons x xs)
  have "forOf (xs @ ys) f = (\<lambda>s. bindE (forOf xs f s) (forOf ys f))"
    by (rule ext) (rule Cons.IH)
  then show ?case by (simp add: bindE_assoc)
qed


subsection \<open>The integer division \<open>x / y | 0\<close>\<close>

text \<open>
  C6: on a reachable cursor, compiling \<open>x / y | 0\<close> is compiling \<open>x\<close>, then compiling
  \<open>y\<close>, then emitting one \<open>BinOp\<close> with the operand \<open>DIVIDE_AND_TRUNC\<close>, and nothing else:
  no \<open>BinOp\<close> is emitted for the \<open>|\<close> and none for the \<open>/\<close> of the expression.
\<close>

theorem compileBinaryExpression_divide_and_trunc:
  "compileExpression P
     (BinaryExpression ''|'' (BinaryExpression ''/'' x y) (NumericLiteral (Num 0))) cs =
     (if unreachable (fst cs) then Inr cs
      else bindE (compileExpression P x cs) (\<lambda>cs1.
           bindE (compileExpression P y cs1) (\<lambda>cs2.
           addOp P BinOp [OpOperand ''DIVIDE_AND_TRUNC''] cs2)))"
  by (simp add: getBinOpCode_def isZeroLiteral_def seqE_Cons_fun seqE_Nil_fun bindE_Inr_right)

theorem compileBinaryExpression_divide_and_trunc_witness:
  "\<exists>G. compileExpression exampleParams
          (BinaryExpression ''|''
             (BinaryExpression ''/'' (NumericLiteral (Num 7)) (NumericLiteral (Num 2)))
             (NumericLiteral (Num 0))) (bodyCursor, bodyStore)
        = Inr (bodyCursor\<lparr>stackDepth := 1\<rparr>, G)
      \<and> emitted G 0 =
          [(Literal, [LiteralOperand (NumberValue (Num 7))]),
           (Literal, [LiteralOperand (NumberValue (Num 2))]),
           (BinOp, [OpOperand ''DIVIDE_AND_TRUNC''])]"
  using compileBinaryExpression_divide_and_trunc [of exampleParams "NumericLiteral (Num 7)"
    "NumericLiteral (Num 2)" "(bodyCursor, bodyStore)"]
  by (simp add: bodyCursor_def bodyStore_def emitted_def addOp_def pushOperation_def
      exampleParams_def)

subsection \<open>Array literals\<close>

lemma arrayElements_steps:
  "forFrom i elements
     (\<lambda>i element (endsInElision, cs).
        (case element of
           None \<Rightarrow> Inr (True, cs)
         | Some e \<Rightarrow>
             if isSpreadElement e
             then Inl (CompileError ''Spread syntax not supported'')
             else
               bindE (seqE
                        [addOp P LoadVar [IndexOperand a],
                         addOp P Literal
                           [LiteralOperand (NumberValue (Num (of_nat i)))],
                         \<lambda>cs. compileExpression P e cs,
                         addOp P ObjectSet []] cs) (\<lambda>cs'.
               Inr (False, cs'))))
     (flag, cs) =
   bindE (forOf (concat (map (\<lambda>(i, element). elementSteps a i element) (enumerate i elements)))
            (runStep P) cs)
     (\<lambda>cs'. Inr (if elements = [] then flag else last elements = None, cs'))"
proof (induction elements arbitrary: i flag cs)
  case Nil
  show ?case by simp
next
  case (Cons el els)
  show ?case
  proof (cases el)
    case None
    then show ?thesis
      using Cons.IH [of "Suc i" True cs] by simp
  next
    case (Some e)
    show ?thesis
    proof (cases "isSpreadElement e")
      case True
      with Some show ?thesis by simp
    next
      case False
      with Some show ?thesis
        using Cons.IH [of "Suc i" False]
        by (simp add: bindE_assoc cong: bindE_cong)
    qed
  qed
qed

lemma elementSteps_ObjectSet_count:
  "\<forall>e. Some e \<in> set elements \<longrightarrow> \<not> isSpreadElement e \<Longrightarrow>
   count_list (concat (map (\<lambda>(i, element). elementSteps a i element) (enumerate i elements)))
     (Emit ObjectSet []) = length (filter (\<lambda>element. element \<noteq> None) elements)"
proof (induction elements arbitrary: i)
  case Nil
  show ?case by simp
next
  case (Cons el els)
  then show ?case by (cases el) auto
qed

text \<open>
  C10: \<open>compileArrayExpression\<close> emits \<open>ArrayNew\<close> and then runs the steps of the
  literal: none for an elided element, the four steps ending in \<open>ObjectSet\<close> for every
  other element, and, if and only if the literal ends in an elision, the four steps
  that store the number of elements of the literal in \<open>length\<close> with one more
  \<open>ObjectSet\<close>. So a literal without spread elements has as many \<open>ObjectSet\<close> steps as
  it has elements that are not elided, plus one when it ends in an elision.
\<close>

theorem compileArrayExpression_elisions:
  "compileExpression P (ArrayExpression elements) cs =
     (if unreachable (fst cs) then Inr cs
      else bindE (addOp P ArrayNew [] cs) (\<lambda>cs1.
           runSteps P (arrayLiteralSteps (stackDepth (fst cs)) elements)
             (setStaticInfo (length elements) cs1)))
   \<and> arrayLiteralSteps a elements =
       concat (map (\<lambda>(i, element). elementSteps a i element) (enumerate 0 elements))
       @ (if elements \<noteq> [] \<and> last elements = None
          then [Emit LoadVar [IndexOperand a],
                Emit Literal [LiteralOperand (StringValue ''length'')],
                Emit Literal [LiteralOperand (NumberValue (Num (of_nat (length elements))))],
                Emit ObjectSet []]
          else [])
   \<and> ((\<forall>e. Some e \<in> set elements \<longrightarrow> \<not> isSpreadElement e) \<longrightarrow>
        count_list (arrayLiteralSteps a elements) (Emit ObjectSet [])
          = length (filter (\<lambda>element. element \<noteq> None) elements)
            + (if elements \<noteq> [] \<and> last elements = None then 1 else 0))"
proof (intro conjI impI)
  show "compileExpression P (ArrayExpression elements) cs =
     (if unreachable (fst cs) then Inr cs
      else bindE (addOp P ArrayNew [] cs) (\<lambda>cs1.
           runSteps P (arrayLiteralSteps (stackDepth (fst cs)) elements)
             (setStaticInfo (length elements) cs1)))"
  proof -
    have fl: "(if elements = [] then False else last elements = None) = endsInElision elements"
      by (simp add: endsInElision_def)
    show ?thesis
      by (cases "endsInElision elements")
        (simp_all add: forEntries_def arrayElements_steps runSteps_def arrayLiteralSteps_def
          forOf_append bindE_assoc fl lengthSteps_def bindE_Inr_right
          Let_def seqE_Cons_fun seqE_Nil_fun cong: bindE_cong)
  qed
  show "arrayLiteralSteps a elements =
       concat (map (\<lambda>(i, element). elementSteps a i element) (enumerate 0 elements))
       @ (if elements \<noteq> [] \<and> last elements = None
          then [Emit LoadVar [IndexOperand a],
                Emit Literal [LiteralOperand (StringValue ''length'')],
                Emit Literal [LiteralOperand (NumberValue (Num (of_nat (length elements))))],
                Emit ObjectSet []]
          else [])"
    by (simp add: arrayLiteralSteps_def endsInElision_def lengthSteps_def)
  assume "\<forall>e. Some e \<in> set elements \<longrightarrow> \<not> isSpreadElement e"
  then show "count_list (arrayLiteralSteps a elements) (Emit ObjectSet [])
          = length (filter (\<lambda>element. element \<noteq> None) elements)
            + (if elements \<noteq> [] \<and> last elements = None then 1 else 0)"
    by (simp add: arrayLiteralSteps_def endsInElision_def lengthSteps_def
        elementSteps_ObjectSet_count)
qed

theorem compileArrayExpression_elisions_witness:
  "(\<exists>G. compileExpression exampleParams (ArrayExpression arrayWithElisions)
           (bodyCursor, bodyStore) = Inr (bodyCursor\<lparr>stackDepth := 1\<rparr>, G)
        \<and> emitted G 0 =
            [(ArrayNew, []),
             (LoadVar, [IndexOperand 0]),
             (Literal, [LiteralOperand (NumberValue (Num 0))]),
             (Literal, [LiteralOperand (NumberValue (Num 1))]),
             (ObjectSet, []),
             (LoadVar, [IndexOperand 0]),
             (Literal, [LiteralOperand (NumberValue (Num 2))]),
             (Literal, [LiteralOperand (NumberValue (Num 2))]),
             (ObjectSet, []),
             (LoadVar, [IndexOperand 0]),
             (Literal, [LiteralOperand (StringValue ''length'')]),
             (Literal, [LiteralOperand (NumberValue (Num 4))]),
             (ObjectSet, [])])
   \<and> count_list (arrayLiteralSteps 0 arrayWithElisions) (Emit ObjectSet []) = 3"
proof -
  note t = compileArrayExpression_elisions [of exampleParams arrayWithElisions
      "(bodyCursor, bodyStore)" 0]
  have ns: "\<forall>e. Some e \<in> set arrayWithElisions \<longrightarrow> \<not> isSpreadElement e"
    by (auto simp: arrayWithElisions_def)
  have c: "count_list (arrayLiteralSteps 0 arrayWithElisions) (Emit ObjectSet []) = 3"
    using t ns by (simp add: arrayWithElisions_def)
  have r: "\<exists>G. compileExpression exampleParams (ArrayExpression arrayWithElisions)
           (bodyCursor, bodyStore) = Inr (bodyCursor\<lparr>stackDepth := 1\<rparr>, G)
        \<and> emitted G 0 =
            [(ArrayNew, []),
             (LoadVar, [IndexOperand 0]),
             (Literal, [LiteralOperand (NumberValue (Num 0))]),
             (Literal, [LiteralOperand (NumberValue (Num 1))]),
             (ObjectSet, []),
             (LoadVar, [IndexOperand 0]),
             (Literal, [LiteralOperand (NumberValue (Num 2))]),
             (Literal, [LiteralOperand (NumberValue (Num 2))]),
             (ObjectSet, []),
             (LoadVar, [IndexOperand 0]),
             (Literal, [LiteralOperand (StringValue ''length'')]),
             (Literal, [LiteralOperand (NumberValue (Num 4))]),
             (ObjectSet, [])]"
    using t
    by (simp add: arrayWithElisions_def bodyCursor_def bodyStore_def emitted_def addOp_def
        pushOperation_def exampleParams_def setStaticInfo_def runSteps_def
        arrayLiteralSteps_def endsInElision_def lengthSteps_def enumerate_eq_zip
        upt_rec numeral_eq_Suc)
  from r c show ?thesis by blast
qed

subsection \<open>Stack depths at the edges\<close>

text \<open>
  C1: the depths do not agree at every edge of every compiled function. \<open>addOp\<close>
  compares the depths only when the target block has been created; a jump to a block
  that is still predeclared is not checked, and \<open>createBlock\<close> gives the block the depth
  of whatever cursor it is called with. For \<open>function f() { if (true) var x = 1; else {} }\<close>
  the compiler returns the IL function \<open>f\<close> with four blocks: the entry block branches to
  \<open>block1\<close> (object 3) and \<open>block2\<close> (object 4); \<open>block2\<close>, the alternate, ends in a \<open>Jump\<close>
  with \<open>stackDepthAfter = 0\<close> to \<open>block3\<close> (object 5), which was created from the cursor of
  the consequent and has \<open>expectedStackDepthAtEntry = 1\<close>.
\<close>

theorem compileFunction_stack_depth_mismatch:
  "\<exists>G. compileFunction exampleParams ifVarFunction (callerCursor, emptyStore)
          = Inr (''f'', callerCursor, G)
      \<and> unitFunctions G = [(''f'', 1)]
      \<and> map_option blocks (functionObjects G 1)
          = Some [(EntryBlockID, 0), (BlockID 1, 3), (BlockID 2, 4), (BlockID 3, 5)]
      \<and> blockObjects G 0 = Some
           \<lparr>blockId = EntryBlockID, expectedStackDepthAtEntry = 0,
            operations =
              [\<lparr>opcode = Literal, operands = [LiteralOperand (BooleanValue True)],
                stackDepthBefore = 0, stackDepthAfter = 1, staticInfo = None\<rparr>,
               \<lparr>opcode = Branch, operands = [LabelOperand 3, LabelOperand 4],
                stackDepthBefore = 1, stackDepthAfter = 0, staticInfo = None\<rparr>]\<rparr>
      \<and> blockObjects G 3 = Some
           \<lparr>blockId = BlockID 1, expectedStackDepthAtEntry = 0,
            operations =
              [\<lparr>opcode = Literal, operands = [LiteralOperand (NumberValue (Num 1))],
                stackDepthBefore = 0, stackDepthAfter = 1, staticInfo = None\<rparr>,
               \<lparr>opcode = Jump, operands = [LabelOperand 5],
                stackDepthBefore = 1, stackDepthAfter = 1, staticInfo = None\<rparr>]\<rparr>
      \<and> blockObjects G 4 = Some
           \<lparr>blockId = BlockID 2, expectedStackDepthAtEntry = 0,
            operations =
              [\<lparr>opcode = Jump, operands = [LabelOperand 5],
                stackDepthBefore = 0, stackDepthAfter = 0, staticInfo = None\<rparr>]\<rparr>
      \<and> blockObjects G 5 = Some
           \<lparr>blockId = BlockID 3, expectedStackDepthAtEntry = 1,
            operations =
              [\<lparr>opcode = Pop, operands = [CountOperand 1],
                stackDepthBefore = 1, stackDepthAfter = 0, staticInfo = None\<rparr>,
               \<lparr>opcode = Literal, operands = [LiteralOperand UndefinedValue],
                stackDepthBefore = 0, stackDepthAfter = 1, staticInfo = None\<rparr>,
               \<lparr>opcode = Return, operands = [],
                stackDepthBefore = 1, stackDepthAfter = 0, staticInfo = None\<rparr>]\<rparr>"
  by (simp add: ifVarFunction_def exampleFunctionInfo_def callerCursor_def emptyStore_def
      exampleParams_def addOp_def pushOperation_def checkTarget_def targetBlockID_def
      blockOfFunction_def isLabelOperand_def labelOfBlock_def predeclareBlock_def
      createBlock_def moveCursor_def startScope_def endScope_def declareLocalVariable_def
      computeMaximumStackDepth_def maxDepthOfOperations_def compileNopSpecialForm_def
      forEntries_def Let_def)

end
